theory Spec2Isabelle
  imports Complex_Main
begin

section \<open>Jitter-solve cost functions: a shallow embedding\<close>

text \<open>
  The definitions below follow \<^verbatim>\<open>src/asp/Camera/JitterSolveCostFuns.cc\<close> and the
  matching header. A C++ \<^verbatim>\<open>double\<close> is read as a real number (exact arithmetic,
  no rounding, no NaN or infinity), a C++ \<^verbatim>\<open>int\<close> as an integer that has to stay
  within 32 bits: a conversion or an addition that leaves that range, a division of a
  double by zero followed by a conversion, and an out-of-range array access are
  undefined in C++ and are the outcome \<open>Undefined\<close> here. A thrown
  \<^verbatim>\<open>vw::ArgumentErr\<close> is the outcome \<open>ArgumentErr\<close>.
\<close>

datatype error = ArgumentErr | Undefined

subsection \<open>Machine integers and conversions\<close>

definition INT_MIN :: int where
  "INT_MIN = - 2147483648"

definition INT_MAX :: int where
  "INT_MAX = 2147483647"

definition in_int :: "int \<Rightarrow> bool" where
  "in_int i = (INT_MIN \<le> i \<and> i \<le> INT_MAX)"

text \<open>The result of signed \<^verbatim>\<open>int\<close> arithmetic: undefined on overflow.\<close>

definition int_result :: "int \<Rightarrow> error + int" where
  "int_result i = (if in_int i then Inr i else Inl Undefined)"

text \<open>\<^verbatim>\<open>static_cast<int>(x)\<close> discards the fractional part (rounds toward zero).\<close>

definition trunc :: "real \<Rightarrow> int" where
  "trunc x = (if 0 \<le> x then \<lfloor>x\<rfloor> else \<lceil>x\<rceil>)"

definition static_cast_int :: "real \<Rightarrow> error + int" where
  "static_cast_int x = int_result (trunc x)"

subsection \<open>The index-range calculator\<close>

text \<open>
  \<^verbatim>\<open>calcIndexBounds(time1, time2, t0, dt, numVals, begIndex, endIndex)\<close>: the two
  outputs are returned as a pair.
\<close>

definition calcIndexBounds :: "real \<Rightarrow> real \<Rightarrow> real \<Rightarrow> real \<Rightarrow> int \<Rightarrow> error + (int \<times> int)" where
  "calcIndexBounds time1 time2 t0 dt numVals =
     (let numInterpSamples = (8::int) in
      if dt = 0 then Inl Undefined else
      case static_cast_int ((time1 - t0) / dt) of Inl e \<Rightarrow> Inl e | Inr index1 \<Rightarrow>
      case static_cast_int ((time2 - t0) / dt) of Inl e \<Rightarrow> Inl e | Inr index2 \<Rightarrow>
      case int_result (min index1 index2 - numInterpSamples div 2) of Inl e \<Rightarrow> Inl e | Inr b0 \<Rightarrow>
      case int_result (b0 + 1) of Inl e \<Rightarrow> Inl e | Inr begIndex0 \<Rightarrow>
      case int_result (max index1 index2 + numInterpSamples div 2) of Inl e \<Rightarrow> Inl e | Inr e0 \<Rightarrow>
      case int_result (e0 + 1) of Inl e \<Rightarrow> Inl e | Inr endIndex0 \<Rightarrow>
        (let begIndex = max 0 begIndex0;
             endIndex = min endIndex0 numVals
         in if begIndex \<ge> endIndex then Inl ArgumentErr else Inr (begIndex, endIndex)))"

text \<open>
  The formula of the specification, section 4.2, with the mathematical floor and
  interpolation order \<open>K = 8\<close>.
\<close>

definition spec_indexBounds :: "real \<Rightarrow> real \<Rightarrow> real \<Rightarrow> real \<Rightarrow> int \<Rightarrow> int \<times> int" where
  "spec_indexBounds t1 t2 t0 dt N =
     (let K = (8::int);
          i1 = \<lfloor>(t1 - t0) / dt\<rfloor>;
          i2 = \<lfloor>(t2 - t0) / dt\<rfloor>
      in (max 0 (min i1 i2 - K div 2 + 1), min N (max i1 i2 + K div 2 + 1)))"

text \<open>The same formula with the conversion the code uses, truncation toward zero.\<close>

definition trunc_indexBounds :: "real \<Rightarrow> real \<Rightarrow> real \<Rightarrow> real \<Rightarrow> int \<Rightarrow> int \<times> int" where
  "trunc_indexBounds t1 t2 t0 dt N =
     (let K = (8::int);
          i1 = trunc ((t1 - t0) / dt);
          i2 = trunc ((t2 - t0) / dt)
      in (max 0 (min i1 i2 - K div 2 + 1), min N (max i1 i2 + K div 2 + 1)))"

subsection \<open>Sizes and containers\<close>

text \<open>
  Modelled from the spec: the constants \<^verbatim>\<open>NUM_XYZ_PARAMS\<close>, \<^verbatim>\<open>NUM_QUAT_PARAMS\<close> and
  \<^verbatim>\<open>PIXEL_SIZE\<close> are declared in a header that is not among the sources; the
  specification gives a position 3 components, a quaternion 4 and a pixel residual 2.
  \<^verbatim>\<open>g_big_pixel_value\<close> is defined in \<^verbatim>\<open>JitterSolveCostFuns.h\<close>.
\<close>

definition NUM_XYZ_PARAMS :: int where
  "NUM_XYZ_PARAMS = 3"

definition NUM_QUAT_PARAMS :: int where
  "NUM_QUAT_PARAMS = 4"

definition PIXEL_SIZE :: int where
  "PIXEL_SIZE = 2"

definition g_big_pixel_value :: real where
  "g_big_pixel_value = 1000"

type_synonym Vector2 = "real \<times> real"
type_synonym Vector3 = "real \<times> real \<times> real"

text \<open>Reading and writing \<^verbatim>\<open>v[i]\<close>; outside the array the behaviour is undefined.\<close>

definition read_at :: "'a list \<Rightarrow> int \<Rightarrow> error + 'a" where
  "read_at xs i = (if 0 \<le> i \<and> i < int (length xs) then Inr (xs ! nat i) else Inl Undefined)"

definition write_at :: "'a list \<Rightarrow> int \<Rightarrow> 'a \<Rightarrow> error + 'a list" where
  "write_at xs i v = (if 0 \<le> i \<and> i < int (length xs) then Inr (xs[nat i := v]) else Inl Undefined)"

text \<open>A \<^verbatim>\<open>for\<close> loop over the values \<open>xs\<close> whose body may fail: the first failure ends it.\<close>

fun foldE :: "('a \<Rightarrow> 's \<Rightarrow> error + 's) \<Rightarrow> 'a list \<Rightarrow> 's \<Rightarrow> error + 's" where
  "foldE f [] s = Inr s"
| "foldE f (x # xs) s = (case f x s of Inl e \<Rightarrow> Inl e | Inr s' \<Rightarrow> foldE f xs s')"

subsection \<open>Camera models\<close>

text \<open>
  Of \<^verbatim>\<open>UsgsAstroLsSensorModel\<close> the code touches the sampled quaternions and
  positions (flat arrays, 4 and 3 numbers per sample) and their time grids; of
  \<^verbatim>\<open>UsgsAstroFrameSensorModel\<close> the adjustable parameters, position first, then the
  quaternion. Both classes belong to the sensor-model library, whose projection
  \<^verbatim>\<open>groundToImage\<close> is a parameter of the model: it maps a camera and a ground point to
  the pixel (after \<^verbatim>\<open>asp::fromCsmPixel\<close>), or to \<open>None\<close> when it throws an exception
  that the \<^verbatim>\<open>catch (std::exception const& e)\<close> clauses of the residuals handle.
\<close>

record UsgsAstroLsSensorModel =
  m_quaternions :: "real list"
  m_positions :: "real list"
  m_t0Quat :: real
  m_dtQuat :: real
  m_t0Ephem :: real
  m_dtEphem :: real

record UsgsAstroFrameSensorModel =
  m_currentParameterValue :: "real list"

definition setParameterValue :: "int \<Rightarrow> real \<Rightarrow> UsgsAstroFrameSensorModel \<Rightarrow> error + UsgsAstroFrameSensorModel" where
  "setParameterValue index v cam =
     (case write_at (m_currentParameterValue cam) index v of
        Inl e \<Rightarrow> Inl e
      | Inr ps \<Rightarrow> Inr (cam\<lparr>m_currentParameterValue := ps\<rparr>))"

datatype gm_model = LsModel UsgsAstroLsSensorModel | FrameModel UsgsAstroFrameSensorModel | OtherModel

subsection \<open>Pixel reprojection residuals\<close>

text \<open>The assignment \<^verbatim>\<open>arr[target] = parameters[block][coord]\<close>.\<close>

definition assign_param :: "real list list \<Rightarrow> int \<Rightarrow> int \<Rightarrow> int \<Rightarrow> real list \<Rightarrow> error + real list" where
  "assign_param parameters block coord target arr =
     (case read_at parameters block of Inl e \<Rightarrow> Inl e | Inr blk \<Rightarrow>
      case read_at blk coord of Inl e \<Rightarrow> Inl e | Inr v \<Rightarrow> write_at arr target v)"

text \<open>Reading the three coordinates of the point in \<^verbatim>\<open>parameters[block]\<close>.\<close>

definition read_xyz :: "real list list \<Rightarrow> int \<Rightarrow> error + Vector3" where
  "read_xyz parameters block =
     (case read_at parameters block of Inl e \<Rightarrow> Inl e | Inr blk \<Rightarrow>
      case read_at blk 0 of Inl e \<Rightarrow> Inl e | Inr x \<Rightarrow>
      case read_at blk 1 of Inl e \<Rightarrow> Inl e | Inr y \<Rightarrow>
      case read_at blk 2 of Inl e \<Rightarrow> Inl e | Inr z \<Rightarrow> Inr (x, y, z))"

text \<open>
  \<^verbatim>\<open>updateLsModelTriPt\<close>: the outputs \<^verbatim>\<open>param_shift\<close>, \<^verbatim>\<open>cam\<close> and \<^verbatim>\<open>P\<close> are
  returned as a triple.
\<close>

definition updateLsModelTriPt ::
  "real list list \<Rightarrow> int \<Rightarrow> int \<Rightarrow> int \<Rightarrow> int \<Rightarrow> UsgsAstroLsSensorModel
     \<Rightarrow> error + (int \<times> UsgsAstroLsSensorModel \<times> Vector3)" where
  "updateLsModelTriPt parameters begQuatIndex endQuatIndex begPosIndex endPosIndex cam =
     (let param_shift = 0 in
      case foldE (\<lambda>qi. foldE (\<lambda>coord.
                    assign_param parameters (qi + param_shift - begQuatIndex) coord
                      (NUM_QUAT_PARAMS * qi + coord))
                  [0..NUM_QUAT_PARAMS - 1])
             [begQuatIndex..endQuatIndex - 1] (m_quaternions cam) of
        Inl e \<Rightarrow> Inl e
      | Inr quaternions \<Rightarrow>
      let param_shift = param_shift + (endQuatIndex - begQuatIndex) in
      case foldE (\<lambda>pi. foldE (\<lambda>coord.
                    assign_param parameters (pi + param_shift - begPosIndex) coord
                      (NUM_XYZ_PARAMS * pi + coord))
                  [0..NUM_XYZ_PARAMS - 1])
             [begPosIndex..endPosIndex - 1] (m_positions cam) of
        Inl e \<Rightarrow> Inl e
      | Inr positions \<Rightarrow>
      let param_shift = param_shift + (endPosIndex - begPosIndex) in
      case read_xyz parameters param_shift of
        Inl e \<Rightarrow> Inl e
      | Inr P \<Rightarrow>
          Inr (param_shift, cam\<lparr>m_quaternions := quaternions, m_positions := positions\<rparr>, P))"

text \<open>
  \<^verbatim>\<open>LsPixelReprojErr::operator()\<close>. The fields of the functor are arguments; the
  result is the returned flag and the two residuals. Only an exception reaches the
  \<^verbatim>\<open>catch\<close> branch.
\<close>

definition LsPixelReprojErr_call ::
  "(UsgsAstroLsSensorModel \<Rightarrow> Vector3 \<Rightarrow> Vector2 option) \<Rightarrow> Vector2 \<Rightarrow> real
     \<Rightarrow> UsgsAstroLsSensorModel \<Rightarrow> int \<Rightarrow> int \<Rightarrow> int \<Rightarrow> int
     \<Rightarrow> real list list \<Rightarrow> error + (bool \<times> real list)" where
  "LsPixelReprojErr_call groundToImage m_observation m_weight m_ls_model
       m_begQuatIndex m_endQuatIndex m_begPosIndex m_endPosIndex parameters =
     (case updateLsModelTriPt parameters m_begQuatIndex m_endQuatIndex
             m_begPosIndex m_endPosIndex m_ls_model of
        Inl e \<Rightarrow> Inl e
      | Inr (shift, cam, P) \<Rightarrow>
          (case groundToImage cam P of
             Some pix \<Rightarrow>
               Inr (True, [m_weight * (fst pix - fst m_observation),
                           m_weight * (snd pix - snd m_observation)])
           | None \<Rightarrow> Inr (True, [g_big_pixel_value, g_big_pixel_value])))"

text \<open>
  \<^verbatim>\<open>FramePixelReprojErr::operator()\<close>. The first part of its \<^verbatim>\<open>try\<close> block, which
  copies the model and overwrites position and quaternion, is \<open>updateFrameModelTriPt\<close>.
\<close>

definition updateFrameModelTriPt ::
  "real list list \<Rightarrow> UsgsAstroFrameSensorModel \<Rightarrow> error + (UsgsAstroFrameSensorModel \<times> Vector3)" where
  "updateFrameModelTriPt parameters m_frame_model =
     (case foldE (\<lambda>coord cam.
               case read_at parameters 0 of Inl e \<Rightarrow> Inl e | Inr blk \<Rightarrow>
               case read_at blk coord of Inl e \<Rightarrow> Inl e | Inr v \<Rightarrow>
                 setParameterValue coord v cam)
             [0..NUM_XYZ_PARAMS - 1] m_frame_model of
        Inl e \<Rightarrow> Inl e
      | Inr cam1 \<Rightarrow>
      case foldE (\<lambda>coord cam.
               case read_at parameters 1 of Inl e \<Rightarrow> Inl e | Inr blk \<Rightarrow>
               case read_at blk coord of Inl e \<Rightarrow> Inl e | Inr v \<Rightarrow>
                 setParameterValue (coord + NUM_XYZ_PARAMS) v cam)
             [0..NUM_QUAT_PARAMS - 1] cam1 of
        Inl e \<Rightarrow> Inl e
      | Inr cam \<Rightarrow>
      case read_xyz parameters 2 of
        Inl e \<Rightarrow> Inl e
      | Inr P \<Rightarrow> Inr (cam, P))"

definition FramePixelReprojErr_call ::
  "(UsgsAstroFrameSensorModel \<Rightarrow> Vector3 \<Rightarrow> Vector2 option) \<Rightarrow> Vector2 \<Rightarrow> real
     \<Rightarrow> UsgsAstroFrameSensorModel \<Rightarrow> real list list \<Rightarrow> error + (bool \<times> real list)" where
  "FramePixelReprojErr_call groundToImage m_observation m_weight m_frame_model parameters =
     (case updateFrameModelTriPt parameters m_frame_model of
        Inl e \<Rightarrow> Inl e
      | Inr (cam, P) \<Rightarrow>
          (case groundToImage cam P of
             Some pix \<Rightarrow>
               Inr (True, [m_weight * (fst pix - fst m_observation),
                           m_weight * (snd pix - snd m_observation)])
           | None \<Rightarrow> Inr (True, [g_big_pixel_value, g_big_pixel_value])))"

subsection \<open>The least-squares problem\<close>

text \<open>
  The solver library is not part of the sources. Of its problem object the code uses
  the list of residual blocks and the set of parameter blocks marked constant. A
  parameter block is a pointer into one of the arrays the solve owns: the triangulated
  points, the frame-camera parameters, the quaternions or positions of the linescan
  model of a camera, the rig transforms.
\<close>

datatype ptr = TriPtr int | FramePtr int | QuatPtr nat int | PosPtr nat int | RigPtr int

type_synonym Matrix3x3 = "real list list"

text \<open>
  The functors, each with the fields its constructor stores. A pointer to the camera
  model of a camera is the index of that camera. A rig functor is implemented in a
  file that is not among the sources; only its presence in a residual block matters here.
\<close>

datatype cost_functor =
    LsPixelReprojErr Vector2 real nat int int int int
  | FramePixelReprojErr Vector2 real nat
  | weightedXyzError Vector3 real
  | weightedRotationError "real list" real
  | weightedTranslationError "real list" real
  | weightedQuatNormError real
  | weightedRollYawError real real Matrix3x3 Matrix3x3 Matrix3x3 bool
  | RigReprojErr

datatype loss_function = NullLoss | CauchyLoss real

record cost_function =
  functor_of :: cost_functor
  num_residuals :: int
  parameter_block_sizes :: "int list"

record residual_block =
  cost :: cost_function
  loss :: loss_function
  vars :: "ptr list"

record Problem =
  residual_blocks :: "residual_block list"
  constant_blocks :: "ptr list"

definition DynamicNumericDiffCostFunction :: "cost_functor \<Rightarrow> cost_function" where
  "DynamicNumericDiffCostFunction f = \<lparr>functor_of = f, num_residuals = 0, parameter_block_sizes = []\<rparr>"

definition AutoDiffCostFunction :: "cost_functor \<Rightarrow> int \<Rightarrow> int \<Rightarrow> cost_function" where
  "AutoDiffCostFunction f kNumResiduals N0 =
     \<lparr>functor_of = f, num_residuals = kNumResiduals, parameter_block_sizes = [N0]\<rparr>"

definition SetNumResiduals :: "int \<Rightarrow> cost_function \<Rightarrow> cost_function" where
  "SetNumResiduals n cf = cf\<lparr>num_residuals := n\<rparr>"

definition AddParameterBlock :: "int \<Rightarrow> cost_function \<Rightarrow> cost_function" where
  "AddParameterBlock n cf = cf\<lparr>parameter_block_sizes := parameter_block_sizes cf @ [n]\<rparr>"

definition AddResidualBlock :: "cost_function \<Rightarrow> loss_function \<Rightarrow> ptr list \<Rightarrow> Problem \<Rightarrow> Problem" where
  "AddResidualBlock cf lf vs problem =
     problem\<lparr>residual_blocks := residual_blocks problem @ [\<lparr>cost = cf, loss = lf, vars = vs\<rparr>]\<rparr>"

definition SetParameterBlockConstant :: "ptr \<Rightarrow> Problem \<Rightarrow> Problem" where
  "SetParameterBlockConstant p problem = problem\<lparr>constant_blocks := p # constant_blocks problem\<rparr>"

subsection \<open>Factories of the cost functions\<close>

definition LsPixelReprojErr_Create ::
  "Vector2 \<Rightarrow> real \<Rightarrow> nat \<Rightarrow> int \<Rightarrow> int \<Rightarrow> int \<Rightarrow> int \<Rightarrow> cost_function" where
  "LsPixelReprojErr_Create observation weight ls_model begQuatIndex endQuatIndex begPosIndex endPosIndex =
     (let cost_function = DynamicNumericDiffCostFunction
            (LsPixelReprojErr observation weight ls_model
               begQuatIndex endQuatIndex begPosIndex endPosIndex);
          cost_function = SetNumResiduals PIXEL_SIZE cost_function;
          cost_function = fold (\<lambda>it. AddParameterBlock NUM_QUAT_PARAMS)
                            [begQuatIndex..endQuatIndex - 1] cost_function;
          cost_function = fold (\<lambda>it. AddParameterBlock NUM_XYZ_PARAMS)
                            [begPosIndex..endPosIndex - 1] cost_function;
          cost_function = AddParameterBlock NUM_XYZ_PARAMS cost_function
      in cost_function)"

definition FramePixelReprojErr_Create :: "Vector2 \<Rightarrow> real \<Rightarrow> nat \<Rightarrow> cost_function" where
  "FramePixelReprojErr_Create observation weight frame_model =
     (let cost_function = DynamicNumericDiffCostFunction
            (FramePixelReprojErr observation weight frame_model);
          cost_function = SetNumResiduals PIXEL_SIZE cost_function;
          cost_function = AddParameterBlock NUM_XYZ_PARAMS cost_function;
          cost_function = AddParameterBlock NUM_QUAT_PARAMS cost_function;
          cost_function = AddParameterBlock NUM_XYZ_PARAMS cost_function
      in cost_function)"

definition weightedXyzError_Create :: "Vector3 \<Rightarrow> real \<Rightarrow> cost_function" where
  "weightedXyzError_Create observation weight =
     AutoDiffCostFunction (weightedXyzError observation weight) 3 3"

definition weightedRotationError_Create :: "real list \<Rightarrow> real \<Rightarrow> cost_function" where
  "weightedRotationError_Create init_quat weight =
     AutoDiffCostFunction (weightedRotationError init_quat weight) NUM_QUAT_PARAMS NUM_QUAT_PARAMS"

definition weightedTranslationError_Create :: "real list \<Rightarrow> real \<Rightarrow> cost_function" where
  "weightedTranslationError_Create init_position weight =
     AutoDiffCostFunction (weightedTranslationError init_position weight)
       NUM_XYZ_PARAMS NUM_XYZ_PARAMS"

definition weightedQuatNormError_Create :: "real \<Rightarrow> cost_function" where
  "weightedQuatNormError_Create weight =
     AutoDiffCostFunction (weightedQuatNormError weight) 1 NUM_QUAT_PARAMS"

subsection \<open>Residuals of the soft constraints\<close>

text \<open>
  The three functors \<^verbatim>\<open>weightedXyzError\<close>, \<^verbatim>\<open>weightedRotationError\<close> and
  \<^verbatim>\<open>weightedTranslationError\<close> have the same loop
  \<^verbatim>\<open>residuals[p] = m_weight * (x[p] - m_init[p])\<close> over the stored vector.
\<close>

definition weighted_difference :: "real \<Rightarrow> real list \<Rightarrow> real list \<Rightarrow> error + (bool \<times> real list)" where
  "weighted_difference m_weight m_init x =
     (case foldE (\<lambda>p residuals.
               case read_at x (int p) of Inl e \<Rightarrow> Inl e | Inr v \<Rightarrow>
                 Inr (residuals @ [m_weight * (v - m_init ! p)]))
             [0..<length m_init] [] of
        Inl e \<Rightarrow> Inl e
      | Inr residuals \<Rightarrow> Inr (True, residuals))"

definition weightedXyzError_call :: "Vector3 \<Rightarrow> real \<Rightarrow> real list \<Rightarrow> error + (bool \<times> real list)" where
  "weightedXyzError_call m_observation m_weight point =
     (case m_observation of (x, y, z) \<Rightarrow> weighted_difference m_weight [x, y, z] point)"

definition weightedRotationError_call :: "real list \<Rightarrow> real \<Rightarrow> real list \<Rightarrow> error + (bool \<times> real list)" where
  "weightedRotationError_call m_init_quat m_weight quat = weighted_difference m_weight m_init_quat quat"

definition weightedTranslationError_call :: "real list \<Rightarrow> real \<Rightarrow> real list \<Rightarrow> error + (bool \<times> real list)" where
  "weightedTranslationError_call m_init_position m_weight position =
     weighted_difference m_weight m_init_position position"

definition weightedQuatNormError_call :: "real \<Rightarrow> real list \<Rightarrow> error + (bool \<times> real list)" where
  "weightedQuatNormError_call m_weight quat =
     (case foldE (\<lambda>p r. case read_at quat p of Inl e \<Rightarrow> Inl e | Inr v \<Rightarrow> Inr (r + v * v))
             [0..NUM_QUAT_PARAMS - 1] 0 of
        Inl e \<Rightarrow> Inl e
      | Inr r \<Rightarrow> Inr (True, [m_weight * (r - 1)]))"

subsection \<open>Options and inputs of the problem assembler\<close>

text \<open>
  The fields of \<^verbatim>\<open>BaBaseOptions\<close> that the cost-function file reads. The control
  network is the list of the types of its points; \<^verbatim>\<open>crn.size()\<close> is the number of
  cameras. Of a \<^verbatim>\<open>RigCamInfo\<close> the sensor and the reference camera are read.
\<close>

record BaBaseOptions =
  max_init_reproj_error :: real
  robust_threshold :: real
  tri_weight :: real
  tri_robust_threshold :: real
  camera_position_weight :: real
  camera_position_robust_threshold :: real
  rotation_weight :: real

datatype ControlPointType = GroundControlPoint | TiePoint | PointFromDem

record RigCamInfo =
  sensor_id :: int
  ref_cam_index :: int

text \<open>
  Modelled from the spec: the rig reprojection helpers
  \<^verbatim>\<open>addRigLsFrameReprojectionErr\<close> and \<^verbatim>\<open>addRigLsLsReprojectionErr\<close> are missing;
  by section 4.3.3 each binds one reprojection cost function to its parameter blocks,
  so each yields the residual block it adds, or fails. They are the last two fields of
  the record below.

  The other fields are functions of other libraries, taken as parameters.
  \<open>getImageTime\<close> is the time of the image line of a pixel (\<^verbatim>\<open>asp::toCsmPixel\<close>, then
  \<^verbatim>\<open>getImageTime\<close>); \<open>estimatedGSD\<close> gives \<open>None\<close> when
  \<^verbatim>\<open>vw::camera::estimatedGSD\<close> throws; \<open>isRefSensor\<close> is \<^verbatim>\<open>rig.isRefSensor\<close>.
\<close>

record externals =
  getImageTime :: "UsgsAstroLsSensorModel \<Rightarrow> Vector2 \<Rightarrow> real"
  estimatedGSD :: "int \<Rightarrow> Vector2 \<Rightarrow> Vector3 \<Rightarrow> real option"
  destructive_median :: "real list \<Rightarrow> real"
  isRefSensor :: "int \<Rightarrow> bool"
  addRigLsFrameReprojectionErr :: "RigCamInfo \<Rightarrow> Vector2 \<Rightarrow> real \<Rightarrow> ptr \<Rightarrow> ptr \<Rightarrow> error + residual_block"
  addRigLsLsReprojectionErr :: "RigCamInfo \<Rightarrow> Vector2 \<Rightarrow> real \<Rightarrow> ptr \<Rightarrow> ptr \<Rightarrow> error + residual_block"

text \<open>Modelled from the spec: a rig transform has 6 parameters (\<^verbatim>\<open>rig::NUM_RIGID_PARAMS\<close>).\<close>

definition NUM_RIGID_PARAMS :: int where
  "NUM_RIGID_PARAMS = 6"

text \<open>Reading \<^verbatim>\<open>v[i][j]\<close>, the \<open>n\<close> numbers at a pointer \<^verbatim>\<open>&v[off]\<close>, writing \<^verbatim>\<open>v[i][j]\<close>.\<close>

definition read2 :: "'a list list \<Rightarrow> int \<Rightarrow> int \<Rightarrow> error + 'a" where
  "read2 xss i j = (case read_at xss i of Inl e \<Rightarrow> Inl e | Inr xs \<Rightarrow> read_at xs j)"

definition read_slice :: "'a list \<Rightarrow> int \<Rightarrow> int \<Rightarrow> error + 'a list" where
  "read_slice xs off n =
     (if 0 \<le> off \<and> 0 \<le> n \<and> off + n \<le> int (length xs)
      then Inr (take (nat n) (drop (nat off) xs)) else Inl Undefined)"

definition write2 :: "'a list list \<Rightarrow> int \<Rightarrow> int \<Rightarrow> 'a \<Rightarrow> error + 'a list list" where
  "write2 xss i j v =
     (case read_at xss i of Inl e \<Rightarrow> Inl e | Inr xs \<Rightarrow>
      case write_at xs j v of Inl e \<Rightarrow> Inl e | Inr xs' \<Rightarrow> write_at xss i xs')"

definition read_point :: "real list \<Rightarrow> int \<Rightarrow> error + Vector3" where
  "read_point v off =
     (case read_at v off of Inl e \<Rightarrow> Inl e | Inr x \<Rightarrow>
      case read_at v (off + 1) of Inl e \<Rightarrow> Inl e | Inr y \<Rightarrow>
      case read_at v (off + 2) of Inl e \<Rightarrow> Inl e | Inr z \<Rightarrow> Inr (x, y, z))"

text \<open>\<^verbatim>\<open>for (int c = 0; c < n; c++) weight_per_residual.push_back(w)\<close>.\<close>

definition push_back_n :: "int \<Rightarrow> real \<Rightarrow> real list \<Rightarrow> real list" where
  "push_back_n n w weight_per_residual = fold (\<lambda>c ws. ws @ [w]) [0..n - 1] weight_per_residual"

text \<open>
  The test \<^verbatim>\<open>have_rig && !rig.isRefSensor(rig_cam_info[icam].sensor_id)\<close>, which
  reads \<^verbatim>\<open>rig_cam_info\<close> only with a rig.
\<close>

definition skip_non_ref :: "externals \<Rightarrow> bool \<Rightarrow> RigCamInfo list \<Rightarrow> int \<Rightarrow> error + bool" where
  "skip_non_ref ext have_rig rig_cam_info icam =
     (if have_rig
      then (case read_at rig_cam_info icam of
              Inl e \<Rightarrow> Inl e
            | Inr info \<Rightarrow> Inr (\<not> isRefSensor ext (sensor_id info)))
      else Inr False)"

subsection \<open>The triangulation constraint\<close>

text \<open>
  \<^verbatim>\<open>addTriConstraint\<close>. The per-point GSDs come from \<^verbatim>\<open>asp::estimateGsdPerTriPoint\<close>,
  which is not among the sources: its output \<open>gsds\<close> is an argument. The state is the
  pair of \<^verbatim>\<open>weight_per_residual\<close> and the problem; \<open>tri_constraint_point\<close> is the
  body of the loop over the points.
\<close>

definition tri_constraint_point ::
  "BaBaseOptions \<Rightarrow> int set \<Rightarrow> ControlPointType list \<Rightarrow> real list \<Rightarrow> real list
     \<Rightarrow> int \<Rightarrow> real list \<times> Problem \<Rightarrow> error + (real list \<times> Problem)" where
  "tri_constraint_point opt outliers cnet gsds tri_points_vec ipt =
     (\<lambda>(weight_per_residual, problem).
        case read_at cnet ipt of Inl e \<Rightarrow> Inl e | Inr cp \<Rightarrow>
        if cp = GroundControlPoint \<or> cp = PointFromDem then Inr (weight_per_residual, problem)
        else if ipt \<in> outliers then Inr (weight_per_residual, problem)
        else
          let tri_point = TriPtr (ipt * NUM_XYZ_PARAMS) in
          case read_at gsds ipt of Inl e \<Rightarrow> Inl e | Inr gsd \<Rightarrow>
          if gsd \<le> 0 then Inr (weight_per_residual, problem)
          else
            let weight = tri_weight opt / gsd in
            case read_point tri_points_vec (ipt * NUM_XYZ_PARAMS) of Inl e \<Rightarrow> Inl e
            | Inr observation \<Rightarrow>
                let cost_function = weightedXyzError_Create observation weight;
                    loss_function = CauchyLoss (tri_robust_threshold opt);
                    problem = AddResidualBlock cost_function loss_function [tri_point] problem
                in Inr (push_back_n NUM_XYZ_PARAMS (tri_weight opt) weight_per_residual, problem))"

definition addTriConstraint ::
  "BaBaseOptions \<Rightarrow> int set \<Rightarrow> ControlPointType list \<Rightarrow> real list \<Rightarrow> real list
     \<Rightarrow> real list \<times> Problem \<Rightarrow> error + (real list \<times> Problem)" where
  "addTriConstraint opt outliers cnet gsds tri_points_vec =
     (let num_tri_points = int (length cnet) in
      foldE (tri_constraint_point opt outliers cnet gsds tri_points_vec) [0..num_tri_points - 1])"

subsection \<open>The rotation and quaternion-norm constraints\<close>

text \<open>
  \<^verbatim>\<open>addQuatNormRotationConstraints\<close> has two sections, each a loop over the cameras
  under an \<^verbatim>\<open>if\<close>: first the rotation constraint, then the quaternion norm.
\<close>

definition rotation_constraint_cam ::
  "externals \<Rightarrow> BaBaseOptions \<Rightarrow> gm_model list \<Rightarrow> bool \<Rightarrow> RigCamInfo list \<Rightarrow> real list
     \<Rightarrow> int \<Rightarrow> real list \<times> Problem \<Rightarrow> error + (real list \<times> Problem)" where
  "rotation_constraint_cam ext opt csm_models have_rig rig_cam_info frame_params icam =
     (\<lambda>(weight_per_residual, problem).
      case skip_non_ref ext have_rig rig_cam_info icam of
        Inl e \<Rightarrow> Inl e
      | Inr True \<Rightarrow> Inr (weight_per_residual, problem)
      | Inr False \<Rightarrow>
        (case read_at csm_models icam of
           Inl e \<Rightarrow> Inl e
         | Inr (LsModel ls_model) \<Rightarrow>
             (let numQuat = int (length (m_quaternions ls_model)) div NUM_QUAT_PARAMS in
              foldE (\<lambda>iq (weight_per_residual, problem).
                  case read_slice (m_quaternions ls_model) (iq * NUM_QUAT_PARAMS) NUM_QUAT_PARAMS of
                    Inl e \<Rightarrow> Inl e
                  | Inr init_quat \<Rightarrow>
                      let rotation_cost_function =
                            weightedRotationError_Create init_quat (rotation_weight opt);
                          rotation_loss_function = NullLoss;
                          problem = AddResidualBlock rotation_cost_function rotation_loss_function
                                      [QuatPtr (nat icam) (iq * NUM_QUAT_PARAMS)] problem
                      in Inr (push_back_n NUM_QUAT_PARAMS (rotation_weight opt) weight_per_residual,
                              problem))
                [0..numQuat - 1] (weight_per_residual, problem))
         | Inr (FrameModel frame_model) \<Rightarrow>
             (let curr_params = icam * (NUM_XYZ_PARAMS + NUM_QUAT_PARAMS) in
              case read_slice frame_params (curr_params + NUM_XYZ_PARAMS) NUM_QUAT_PARAMS of
                Inl e \<Rightarrow> Inl e
              | Inr init_quat \<Rightarrow>
                  let rotation_cost_function =
                        weightedRotationError_Create init_quat (rotation_weight opt);
                      rotation_loss_function = NullLoss;
                      problem = AddResidualBlock rotation_cost_function rotation_loss_function
                                  [FramePtr (curr_params + NUM_XYZ_PARAMS)] problem
                  in Inr (push_back_n NUM_QUAT_PARAMS (rotation_weight opt) weight_per_residual,
                          problem))
         | Inr OtherModel \<Rightarrow> Inl ArgumentErr))"

text \<open>
  The statements that add one quaternion-norm residual for the quaternion at a pointer;
  the linescan and the frame branch have the same ones.
\<close>

definition add_quat_norm_residual :: "real \<Rightarrow> ptr \<Rightarrow> real list \<times> Problem \<Rightarrow> error + (real list \<times> Problem)" where
  "add_quat_norm_residual quat_norm_weight quat =
     (\<lambda>(weight_per_residual, problem).
        let quat_norm_cost_function = weightedQuatNormError_Create quat_norm_weight;
            quat_norm_loss_function = NullLoss;
            problem = AddResidualBlock quat_norm_cost_function quat_norm_loss_function
                        [quat] problem
        in Inr (weight_per_residual @ [quat_norm_weight], problem))"

definition quat_norm_constraint_cam ::
  "gm_model list \<Rightarrow> real \<Rightarrow> int \<Rightarrow> real list \<times> Problem \<Rightarrow> error + (real list \<times> Problem)" where
  "quat_norm_constraint_cam csm_models quat_norm_weight icam state =
     (case read_at csm_models icam of
        Inl e \<Rightarrow> Inl e
      | Inr (LsModel ls_model) \<Rightarrow>
          (let numQuat = int (length (m_quaternions ls_model)) div NUM_QUAT_PARAMS in
           foldE (\<lambda>iq. add_quat_norm_residual quat_norm_weight
                          (QuatPtr (nat icam) (iq * NUM_QUAT_PARAMS)))
             [0..numQuat - 1] state)
      | Inr (FrameModel frame_model) \<Rightarrow>
          (let curr_params = icam * (NUM_XYZ_PARAMS + NUM_QUAT_PARAMS) in
           add_quat_norm_residual quat_norm_weight (FramePtr (curr_params + NUM_XYZ_PARAMS)) state)
      | Inr OtherModel \<Rightarrow> Inl ArgumentErr)"

definition rotation_section ::
  "externals \<Rightarrow> BaBaseOptions \<Rightarrow> int \<Rightarrow> gm_model list \<Rightarrow> bool \<Rightarrow> RigCamInfo list
     \<Rightarrow> real list \<Rightarrow> real list \<times> Problem \<Rightarrow> error + (real list \<times> Problem)" where
  "rotation_section ext opt crn_size csm_models have_rig rig_cam_info frame_params state =
     (if rotation_weight opt > 0
      then foldE (rotation_constraint_cam ext opt csm_models have_rig rig_cam_info frame_params)
             [0..crn_size - 1] state
      else Inr state)"

definition quat_norm_section ::
  "int \<Rightarrow> gm_model list \<Rightarrow> real \<Rightarrow> real list \<times> Problem \<Rightarrow> error + (real list \<times> Problem)" where
  "quat_norm_section crn_size csm_models quat_norm_weight state =
     (if quat_norm_weight > 0
      then foldE (quat_norm_constraint_cam csm_models quat_norm_weight) [0..crn_size - 1] state
      else Inr state)"

definition addQuatNormRotationConstraints ::
  "externals \<Rightarrow> BaBaseOptions \<Rightarrow> int \<Rightarrow> gm_model list \<Rightarrow> bool \<Rightarrow> RigCamInfo list \<Rightarrow> real
     \<Rightarrow> real list \<Rightarrow> real list \<times> Problem \<Rightarrow> error + (real list \<times> Problem)" where
  "addQuatNormRotationConstraints ext opt crn_size csm_models have_rig rig_cam_info
       quat_norm_weight frame_params state =
     (case rotation_section ext opt crn_size csm_models have_rig rig_cam_info frame_params state of
        Inl e \<Rightarrow> Inl e
      | Inr state \<Rightarrow> quat_norm_section crn_size csm_models quat_norm_weight state)"

text \<open>
  The option check of \<^verbatim>\<open>jitter_solve.cc\<close> on the weight that
  \<^verbatim>\<open>addQuatNormRotationConstraints\<close> receives.
\<close>

definition check_quat_norm_weight :: "real \<Rightarrow> error + unit" where
  "check_quat_norm_weight quat_norm_weight =
     (if quat_norm_weight \<le> 0 then Inl ArgumentErr else Inr ())"

subsection \<open>Adding the reprojection errors\<close>

text \<open>
  \<^verbatim>\<open>addLsReprojectionErr\<close> and \<^verbatim>\<open>addFrameReprojectionErr\<close>. The pointer to the
  camera model is the index \<open>icam\<close> of the camera together with the model it points to;
  \<^verbatim>\<open>frame_params\<close> is the offset of the camera's parameters in the side array.
\<close>

definition addLsReprojectionErr ::
  "externals \<Rightarrow> BaBaseOptions \<Rightarrow> nat \<Rightarrow> UsgsAstroLsSensorModel \<Rightarrow> Vector2 \<Rightarrow> ptr \<Rightarrow> real
     \<Rightarrow> Problem \<Rightarrow> error + Problem" where
  "addLsReprojectionErr ext opt icam ls_model observation tri_point weight problem =
     (let line_extra = max_init_reproj_error opt + 5;
          time1 = getImageTime ext ls_model (fst observation - 0, snd observation - line_extra);
          time2 = getImageTime ext ls_model (fst observation + 0, snd observation + line_extra);
          numQuat = int (length (m_quaternions ls_model)) div NUM_QUAT_PARAMS
      in case calcIndexBounds time1 time2 (m_t0Quat ls_model) (m_dtQuat ls_model) numQuat of
           Inl e \<Rightarrow> Inl e
         | Inr (begQuatIndex, endQuatIndex) \<Rightarrow>
           (let numPos = int (length (m_positions ls_model)) div NUM_XYZ_PARAMS
            in case calcIndexBounds time1 time2 (m_t0Ephem ls_model) (m_dtEphem ls_model) numPos of
                 Inl e \<Rightarrow> Inl e
               | Inr (begPosIndex, endPosIndex) \<Rightarrow>
                 (let pixel_cost_function =
                        LsPixelReprojErr_Create observation weight icam
                          begQuatIndex endQuatIndex begPosIndex endPosIndex;
                      pixel_loss_function = CauchyLoss (robust_threshold opt);
                      vars = map (\<lambda>it. QuatPtr icam (it * NUM_QUAT_PARAMS))
                               [begQuatIndex..endQuatIndex - 1]
                             @ map (\<lambda>it. PosPtr icam (it * NUM_XYZ_PARAMS))
                                 [begPosIndex..endPosIndex - 1]
                             @ [tri_point]
                  in Inr (AddResidualBlock pixel_cost_function pixel_loss_function vars problem))))"

definition addFrameReprojectionErr ::
  "BaBaseOptions \<Rightarrow> nat \<Rightarrow> Vector2 \<Rightarrow> int \<Rightarrow> ptr \<Rightarrow> real \<Rightarrow> Problem \<Rightarrow> error + Problem" where
  "addFrameReprojectionErr opt icam observation frame_params tri_point weight problem =
     (let pixel_cost_function = FramePixelReprojErr_Create observation weight icam;
          pixel_loss_function = CauchyLoss (robust_threshold opt);
          vars = [FramePtr (frame_params + 0), FramePtr (frame_params + NUM_XYZ_PARAMS), tri_point]
      in Inr (AddResidualBlock pixel_cost_function pixel_loss_function vars problem))"

text \<open>
  The choice between the linescan and the frame reprojection error, which
  \<^verbatim>\<open>addReprojCamErrs\<close> spells out twice (without a rig, and for the reference sensor
  of a rig).
\<close>

definition addCamReprojectionErr ::
  "externals \<Rightarrow> BaBaseOptions \<Rightarrow> int \<Rightarrow> gm_model \<Rightarrow> Vector2 \<Rightarrow> ptr \<Rightarrow> real
     \<Rightarrow> Problem \<Rightarrow> error + Problem" where
  "addCamReprojectionErr ext opt icam model pix_obs tri_point pix_wt problem =
     (case model of
        LsModel ls_model \<Rightarrow>
          addLsReprojectionErr ext opt (nat icam) ls_model pix_obs tri_point pix_wt problem
      | FrameModel frame_model \<Rightarrow>
          addFrameReprojectionErr opt (nat icam) pix_obs
            (icam * (NUM_XYZ_PARAMS + NUM_QUAT_PARAMS)) tri_point pix_wt problem
      | OtherModel \<Rightarrow> Inl ArgumentErr)"

definition add_rig_block :: "error + residual_block \<Rightarrow> Problem \<Rightarrow> error + Problem" where
  "add_rig_block r problem =
     (case r of
        Inl e \<Rightarrow> Inl e
      | Inr blk \<Rightarrow> Inr (problem\<lparr>residual_blocks := residual_blocks problem @ [blk]\<rparr>))"

definition addObservationReprojectionErr ::
  "externals \<Rightarrow> BaBaseOptions \<Rightarrow> gm_model list \<Rightarrow> bool \<Rightarrow> RigCamInfo list \<Rightarrow> int
     \<Rightarrow> Vector2 \<Rightarrow> ptr \<Rightarrow> real \<Rightarrow> Problem \<Rightarrow> error + Problem" where
  "addObservationReprojectionErr ext opt csm_models have_rig rig_cam_info icam
       pix_obs tri_point pix_wt problem =
     (if \<not> have_rig then
        (case read_at csm_models icam of
           Inl e \<Rightarrow> Inl e
         | Inr model \<Rightarrow> addCamReprojectionErr ext opt icam model pix_obs tri_point pix_wt problem)
      else
        (case read_at rig_cam_info icam of
           Inl e \<Rightarrow> Inl e
         | Inr rig_info \<Rightarrow>
           (let ref_cam = ref_cam_index rig_info;
                sensor = sensor_id rig_info;
                ref_to_curr_sensor_trans = RigPtr (NUM_RIGID_PARAMS * sensor)
            in case read_at csm_models icam of
                 Inl e \<Rightarrow> Inl e
               | Inr model \<Rightarrow>
                 (case read_at csm_models ref_cam of
                    Inl e \<Rightarrow> Inl e
                  | Inr (LsModel ref_ls_model) \<Rightarrow>
                      if isRefSensor ext sensor
                      then addCamReprojectionErr ext opt icam model pix_obs tri_point pix_wt problem
                      else (case model of
                              FrameModel frame_model \<Rightarrow>
                                add_rig_block (addRigLsFrameReprojectionErr ext rig_info pix_obs pix_wt
                                                 ref_to_curr_sensor_trans tri_point) problem
                            | LsModel ls_model \<Rightarrow>
                                add_rig_block (addRigLsLsReprojectionErr ext rig_info pix_obs pix_wt
                                                 ref_to_curr_sensor_trans tri_point) problem
                            | OtherModel \<Rightarrow> Inl ArgumentErr)
                  | Inr _ \<Rightarrow> Inl ArgumentErr))))"

text \<open>
  The body of the loop over the pixels of camera \<open>icam\<close> in pass \<open>pass\<close>. Its state is
  \<^verbatim>\<open>weight_per_residual\<close>, the problem and \<^verbatim>\<open>this_cam_weights\<close>. The pointer
  \<^verbatim>\<open>tri_point\<close> has to point into \<^verbatim>\<open>tri_points_vec\<close>; the three coordinates it
  points to are read where the pointer is formed.
\<close>

definition reproj_pixel ::
  "externals \<Rightarrow> BaBaseOptions \<Rightarrow> Vector2 list list \<Rightarrow> real list list \<Rightarrow> int list list
     \<Rightarrow> int list list \<Rightarrow> gm_model list \<Rightarrow> bool \<Rightarrow> RigCamInfo list \<Rightarrow> real list
     \<Rightarrow> int \<Rightarrow> int \<Rightarrow> int \<Rightarrow> real list \<times> Problem \<times> real list
     \<Rightarrow> error + (real list \<times> Problem \<times> real list)" where
  "reproj_pixel ext opt pixel_vec weight_vec isAnchor_vec pix2xyz_index csm_models have_rig
       rig_cam_info tri_points_vec pass icam ipix =
     (\<lambda>(weight_per_residual, problem, this_cam_weights).
        case read2 pixel_vec icam ipix of Inl e \<Rightarrow> Inl e | Inr pix_obs \<Rightarrow>
        case read2 pix2xyz_index icam ipix of Inl e \<Rightarrow> Inl e | Inr xyz_index \<Rightarrow>
        case read_point tri_points_vec (3 * xyz_index) of Inl e \<Rightarrow> Inl e | Inr xyz_obs \<Rightarrow>
        case read2 weight_vec icam ipix of Inl e \<Rightarrow> Inl e | Inr pix_wt \<Rightarrow>
        case read2 isAnchor_vec icam ipix of Inl e \<Rightarrow> Inl e | Inr anchor_flag \<Rightarrow>
        let tri_point = TriPtr (3 * xyz_index);
            isAnchor = (anchor_flag \<noteq> 0)
        in if (if isAnchor then 1 else 0) \<noteq> pass
           then Inr (weight_per_residual, problem, this_cam_weights)
           else
             case addObservationReprojectionErr ext opt csm_models have_rig rig_cam_info icam
                    pix_obs tri_point pix_wt problem of
               Inl e \<Rightarrow> Inl e
             | Inr problem \<Rightarrow>
               let weight_per_residual = push_back_n PIXEL_SIZE pix_wt weight_per_residual;
                   problem = (if isAnchor then SetParameterBlockConstant tri_point problem
                              else problem)
               in case estimatedGSD ext icam pix_obs xyz_obs of
                    None \<Rightarrow> Inr (weight_per_residual, problem, this_cam_weights)
                  | Some gsd \<Rightarrow>
                      if gsd \<le> 0 then Inr (weight_per_residual, problem, this_cam_weights)
                      else
                        let position_wt = camera_position_weight opt * pix_wt / gsd
                        in Inr (weight_per_residual, problem, this_cam_weights @ [position_wt]))"

text \<open>
  The statements after the loop over the pixels: the count and the median weight of
  the camera are stored.
\<close>

definition record_cam_weights ::
  "externals \<Rightarrow> int \<Rightarrow> int \<Rightarrow> real list \<Rightarrow> real list list \<times> real list list
     \<Rightarrow> error + (real list list \<times> real list list)" where
  "record_cam_weights ext pass icam this_cam_weights =
     (\<lambda>(weight_per_cam, count_per_cam).
        case write2 count_per_cam pass icam (real (length this_cam_weights)) of
          Inl e \<Rightarrow> Inl e
        | Inr count_per_cam \<Rightarrow>
          case read2 count_per_cam pass icam of
            Inl e \<Rightarrow> Inl e
          | Inr count \<Rightarrow>
            case write2 weight_per_cam pass icam
                   (if count > 0 then destructive_median ext this_cam_weights else 0) of
              Inl e \<Rightarrow> Inl e
            | Inr weight_per_cam \<Rightarrow> Inr (weight_per_cam, count_per_cam))"

definition reproj_cam ::
  "externals \<Rightarrow> BaBaseOptions \<Rightarrow> Vector2 list list \<Rightarrow> real list list \<Rightarrow> int list list
     \<Rightarrow> int list list \<Rightarrow> gm_model list \<Rightarrow> bool \<Rightarrow> RigCamInfo list \<Rightarrow> real list
     \<Rightarrow> int \<Rightarrow> int \<Rightarrow> real list \<times> Problem \<times> real list list \<times> real list list
     \<Rightarrow> error + (real list \<times> Problem \<times> real list list \<times> real list list)" where
  "reproj_cam ext opt pixel_vec weight_vec isAnchor_vec pix2xyz_index csm_models have_rig
       rig_cam_info tri_points_vec pass icam =
     (\<lambda>(weight_per_residual, problem, weight_per_cam, count_per_cam).
        case read_at pixel_vec icam of Inl e \<Rightarrow> Inl e | Inr pixels \<Rightarrow>
        case foldE (reproj_pixel ext opt pixel_vec weight_vec isAnchor_vec pix2xyz_index csm_models
                      have_rig rig_cam_info tri_points_vec pass icam)
               [0..int (length pixels) - 1] (weight_per_residual, problem, []) of
          Inl e \<Rightarrow> Inl e
        | Inr (weight_per_residual, problem, this_cam_weights) \<Rightarrow>
          case record_cam_weights ext pass icam this_cam_weights (weight_per_cam, count_per_cam) of
            Inl e \<Rightarrow> Inl e
          | Inr (weight_per_cam, count_per_cam) \<Rightarrow>
              Inr (weight_per_residual, problem, weight_per_cam, count_per_cam))"

text \<open>\<^verbatim>\<open>v.resize(n, x)\<close>.\<close>

definition resize :: "nat \<Rightarrow> 'a \<Rightarrow> 'a list \<Rightarrow> 'a list" where
  "resize n x v = take n v @ replicate (n - length v) x"

definition reproj_pass ::
  "externals \<Rightarrow> BaBaseOptions \<Rightarrow> int \<Rightarrow> Vector2 list list \<Rightarrow> real list list \<Rightarrow> int list list
     \<Rightarrow> int list list \<Rightarrow> gm_model list \<Rightarrow> bool \<Rightarrow> RigCamInfo list \<Rightarrow> real list
     \<Rightarrow> int \<Rightarrow> real list \<times> Problem \<times> real list list \<times> real list list
     \<Rightarrow> error + (real list \<times> Problem \<times> real list list \<times> real list list)" where
  "reproj_pass ext opt crn_size pixel_vec weight_vec isAnchor_vec pix2xyz_index csm_models have_rig
       rig_cam_info tri_points_vec pass =
     (\<lambda>(weight_per_residual, problem, weight_per_cam, count_per_cam).
        case read_at weight_per_cam pass of Inl e \<Rightarrow> Inl e | Inr w \<Rightarrow>
        case read_at count_per_cam pass of Inl e \<Rightarrow> Inl e | Inr c \<Rightarrow>
        let weight_per_cam = weight_per_cam[nat pass := resize (nat crn_size) 0 w];
            count_per_cam = count_per_cam[nat pass := resize (nat crn_size) 0 c]
        in foldE (reproj_cam ext opt pixel_vec weight_vec isAnchor_vec pix2xyz_index csm_models
                    have_rig rig_cam_info tri_points_vec pass)
             [0..crn_size - 1] (weight_per_residual, problem, weight_per_cam, count_per_cam))"

text \<open>
  \<^verbatim>\<open>addReprojCamErrs\<close>. Opening the image of a camera to get its bounding box is part
  of \<open>estimatedGSD\<close>. The arrays \<^verbatim>\<open>tri_points_vec\<close> and \<^verbatim>\<open>frame_params\<close> are not
  written, only pointed into.
\<close>

definition addReprojCamErrs ::
  "externals \<Rightarrow> BaBaseOptions \<Rightarrow> int \<Rightarrow> Vector2 list list \<Rightarrow> real list list \<Rightarrow> int list list
     \<Rightarrow> int list list \<Rightarrow> gm_model list \<Rightarrow> bool \<Rightarrow> RigCamInfo list \<Rightarrow> real list
     \<Rightarrow> real list \<times> Problem \<times> real list list \<times> real list list
     \<Rightarrow> error + (real list \<times> Problem \<times> real list list \<times> real list list)" where
  "addReprojCamErrs ext opt crn_size pixel_vec weight_vec isAnchor_vec pix2xyz_index csm_models
       have_rig rig_cam_info tri_points_vec =
     (\<lambda>(weight_per_residual, problem, weight_per_cam, count_per_cam).
        let weight_per_cam = resize 2 [] weight_per_cam;
            count_per_cam = resize 2 [] count_per_cam
        in foldE (reproj_pass ext opt crn_size pixel_vec weight_vec isAnchor_vec pix2xyz_index
                    csm_models have_rig rig_cam_info tri_points_vec)
             [0..2 - 1] (weight_per_residual, problem, weight_per_cam, count_per_cam))"

subsection \<open>The camera position constraint\<close>

text \<open>
  The statements that add one position residual for the position at a pointer, whose
  current value is the initial position.
\<close>

definition add_translation_residual ::
  "real list \<Rightarrow> real \<Rightarrow> real \<Rightarrow> ptr \<Rightarrow> real list \<times> Problem \<Rightarrow> error + (real list \<times> Problem)" where
  "add_translation_residual init_position wt th position =
     (\<lambda>(weight_per_residual, problem).
        let cost_function = weightedTranslationError_Create init_position wt;
            loss_function = CauchyLoss th;
            problem = AddResidualBlock cost_function loss_function [position] problem
        in Inr (push_back_n NUM_XYZ_PARAMS wt weight_per_residual, problem))"

text \<open>The body of the loops of \<^verbatim>\<open>addCamPositionConstraint\<close> over passes and cameras.\<close>

definition cam_position_constraint_cam ::
  "externals \<Rightarrow> BaBaseOptions \<Rightarrow> gm_model list \<Rightarrow> real list list \<Rightarrow> real list list \<Rightarrow> bool
     \<Rightarrow> RigCamInfo list \<Rightarrow> real list \<Rightarrow> int \<Rightarrow> int
     \<Rightarrow> real list \<times> Problem \<Rightarrow> error + (real list \<times> Problem)" where
  "cam_position_constraint_cam ext opt csm_models weight_per_cam count_per_cam have_rig
       rig_cam_info frame_params pass icam state =
     (case skip_non_ref ext have_rig rig_cam_info icam of
        Inl e \<Rightarrow> Inl e
      | Inr True \<Rightarrow> Inr state
      | Inr False \<Rightarrow>
        case read2 weight_per_cam pass icam of Inl e \<Rightarrow> Inl e | Inr median_wt \<Rightarrow>
        case read2 count_per_cam pass icam of Inl e \<Rightarrow> Inl e | Inr count \<Rightarrow>
        if count \<le> 0 then Inr state
        else
          let combined_wt = sqrt (count * 1) * median_wt;
              combined_th = sqrt (count * 1) * camera_position_robust_threshold opt
          in case read_at csm_models icam of
               Inl e \<Rightarrow> Inl e
             | Inr (LsModel ls_model) \<Rightarrow>
                 (let numPos = int (length (m_positions ls_model)) div NUM_XYZ_PARAMS;
                      wt = combined_wt / sqrt (real_of_int numPos * 1);
                      th = combined_th / sqrt (real_of_int numPos * 1)
                  in foldE (\<lambda>ip state.
                         case read_slice (m_positions ls_model) (ip * NUM_XYZ_PARAMS) NUM_XYZ_PARAMS of
                           Inl e \<Rightarrow> Inl e
                         | Inr init_position \<Rightarrow>
                             add_translation_residual init_position wt th
                               (PosPtr (nat icam) (ip * NUM_XYZ_PARAMS)) state)
                       [0..numPos - 1] state)
             | Inr (FrameModel frame_model) \<Rightarrow>
                 (let curr_params = icam * (NUM_XYZ_PARAMS + NUM_QUAT_PARAMS)
                  in case read_slice frame_params (curr_params + 0) NUM_XYZ_PARAMS of
                       Inl e \<Rightarrow> Inl e
                     | Inr init_position \<Rightarrow>
                         add_translation_residual init_position combined_wt combined_th
                           (FramePtr (curr_params + 0)) state)
             | Inr OtherModel \<Rightarrow> Inl ArgumentErr)"

definition addCamPositionConstraint ::
  "externals \<Rightarrow> BaBaseOptions \<Rightarrow> int \<Rightarrow> gm_model list \<Rightarrow> real list list \<Rightarrow> real list list \<Rightarrow> bool
     \<Rightarrow> RigCamInfo list \<Rightarrow> real list \<Rightarrow> real list \<times> Problem \<Rightarrow> error + (real list \<times> Problem)" where
  "addCamPositionConstraint ext opt crn_size csm_models weight_per_cam count_per_cam have_rig
       rig_cam_info frame_params =
     foldE (\<lambda>pass.
         foldE (cam_position_constraint_cam ext opt csm_models weight_per_cam count_per_cam
                  have_rig rig_cam_info frame_params pass)
           [0..crn_size - 1])
       [0..2 - 1]"

subsection \<open>The roll and yaw constraint\<close>

text \<open>
  The matrix and orbit functions the roll and yaw code calls belong to other libraries
  and to files that are not among the sources; they are parameters. \<open>satToWorld\<close> is
  the computation of \<^verbatim>\<open>m_sat2World\<close> from the position before, at and after the current
  one (projection with the georeference, along and across track directions, their
  cross product, \<^verbatim>\<open>assembleCam2WorldMatrix\<close>). \<open>group_positions\<close> and
  \<open>group_quaternions\<close> are the two outputs of \<^verbatim>\<open>formPositionQuatVecPerGroup\<close>.
\<close>

record roll_yaw_externals =
  quaternionToMatrix :: "real list \<Rightarrow> Matrix3x3"
  mat_inverse :: "Matrix3x3 \<Rightarrow> Matrix3x3"
  mat_mul :: "Matrix3x3 \<Rightarrow> Matrix3x3 \<Rightarrow> Matrix3x3"
  rollPitchYawFromRotationMatrix :: "Matrix3x3 \<Rightarrow> real \<times> real \<times> real"
  rotationXY :: Matrix3x3
  satToWorld :: "Vector3 \<Rightarrow> Vector3 \<Rightarrow> Vector3 \<Rightarrow> Matrix3x3"
  orbitInterpExtrap :: "UsgsAstroLsSensorModel \<Rightarrow> real list"
  group_positions :: "int \<Rightarrow> real list"
  group_quaternions :: "int \<Rightarrow> real list"
  indexInGroup :: "int \<Rightarrow> int"

text \<open>The C function \<^verbatim>\<open>round\<close>: to the nearest integer, halfway cases away from zero.\<close>

definition cpp_round :: "real \<Rightarrow> real" where
  "cpp_round x = (if 0 \<le> x then of_int \<lfloor>x + 1/2\<rfloor> else of_int \<lceil>x - 1/2\<rceil>)"

text \<open>The statement \<^verbatim>\<open>x = x - 180.0 * round(x / 180.0)\<close>.\<close>

definition fix_180 :: "real \<Rightarrow> real" where
  "fix_180 x = x - 180 * cpp_round (x / 180)"

text \<open>
  The constructor of \<^verbatim>\<open>weightedRollYawError\<close>, which may throw, and the factory.
\<close>

definition weightedRollYawError_new ::
  "roll_yaw_externals \<Rightarrow> real list \<Rightarrow> real list \<Rightarrow> int \<Rightarrow> real \<Rightarrow> real \<Rightarrow> bool
     \<Rightarrow> error + cost_functor" where
  "weightedRollYawError_new lib positions quaternions cur_pos rollWeight yawWeight
       initial_camera_constraint =
     (let num_pos = int (length positions) div NUM_XYZ_PARAMS;
          num_quat = int (length quaternions) div NUM_QUAT_PARAMS
      in if num_pos \<noteq> num_quat then Inl ArgumentErr
         else if cur_pos < 0 \<or> cur_pos \<ge> num_pos then Inl ArgumentErr
         else
           let beg_pos = max 0 (cur_pos - 1);
               end_pos = min (num_pos - 1) (cur_pos + 1)
           in if beg_pos \<ge> end_pos then Inl ArgumentErr
              else
                case read_point positions (beg_pos * NUM_XYZ_PARAMS) of Inl e \<Rightarrow> Inl e
                | Inr beg_pt \<Rightarrow>
                case read_point positions (cur_pos * NUM_XYZ_PARAMS) of Inl e \<Rightarrow> Inl e
                | Inr cur_pt \<Rightarrow>
                case read_point positions (end_pos * NUM_XYZ_PARAMS) of Inl e \<Rightarrow> Inl e
                | Inr end_pt \<Rightarrow>
                  let m_sat2World = satToWorld lib beg_pt cur_pt end_pt;
                      m_rotXY = rotationXY lib
                  in case read_slice quaternions (cur_pos * NUM_QUAT_PARAMS) NUM_QUAT_PARAMS of
                       Inl e \<Rightarrow> Inl e
                     | Inr q \<Rightarrow>
                         Inr (weightedRollYawError rollWeight yawWeight m_rotXY m_sat2World
                                (quaternionToMatrix lib q) initial_camera_constraint))"

definition weightedRollYawError_Create ::
  "roll_yaw_externals \<Rightarrow> real list \<Rightarrow> real list \<Rightarrow> int \<Rightarrow> real \<Rightarrow> real \<Rightarrow> bool
     \<Rightarrow> error + cost_function" where
  "weightedRollYawError_Create lib positions quaternions cur_pos rollWeight yawWeight
       initial_camera_constraint =
     (case weightedRollYawError_new lib positions quaternions cur_pos rollWeight yawWeight
             initial_camera_constraint of
        Inl e \<Rightarrow> Inl e
      | Inr f \<Rightarrow>
          (let cost_function = DynamicNumericDiffCostFunction f;
               cost_function = SetNumResiduals 2 cost_function;
               cost_function = AddParameterBlock NUM_QUAT_PARAMS cost_function
           in Inr cost_function))"

text \<open>\<^verbatim>\<open>weightedRollYawError::operator()\<close>, with the fields of the functor as arguments.\<close>

definition weightedRollYawError_call ::
  "roll_yaw_externals \<Rightarrow> real \<Rightarrow> real \<Rightarrow> Matrix3x3 \<Rightarrow> Matrix3x3 \<Rightarrow> Matrix3x3 \<Rightarrow> bool
     \<Rightarrow> real list list \<Rightarrow> error + (bool \<times> real list)" where
  "weightedRollYawError_call lib m_rollWeight m_yawWeight m_rotXY m_sat2World m_initCam2World
       m_initial_camera_constraint parameters =
     (case read_at parameters 0 of Inl e \<Rightarrow> Inl e | Inr blk \<Rightarrow>
      case read_slice blk 0 NUM_QUAT_PARAMS of Inl e \<Rightarrow> Inl e | Inr q \<Rightarrow>
      let cam2world = quaternionToMatrix lib q
      in if m_initial_camera_constraint then
           (let cam2cam = mat_mul lib (mat_inverse lib cam2world) m_initCam2World
            in case rollPitchYawFromRotationMatrix lib cam2cam of
                 (roll, pitch, yaw) \<Rightarrow>
                   let roll = fix_180 roll;
                       pitch = fix_180 pitch;
                       yaw = fix_180 yaw
                   in Inr (True, [pitch * m_rollWeight, yaw * m_yawWeight]))
         else
           (let rollPitchYaw = mat_mul lib (mat_mul lib (mat_inverse lib m_sat2World) cam2world)
                                 (mat_inverse lib m_rotXY)
            in case rollPitchYawFromRotationMatrix lib rollPitchYaw of
                 (roll, pitch, yaw) \<Rightarrow>
                   let roll = fix_180 roll;
                       pitch = fix_180 pitch;
                       yaw = fix_180 yaw
                   in Inr (True, [roll * m_rollWeight, yaw * m_yawWeight])))"

text \<open>
  The value of \<^verbatim>\<open>a || b\<close> for two doubles, converted to a double as
  \<^verbatim>\<open>push_back\<close> does: the operands are converted to \<^verbatim>\<open>bool\<close>, the result is
  \<^verbatim>\<open>true\<close> or \<^verbatim>\<open>false\<close>, that is 1 or 0.
\<close>

definition logical_or :: "real \<Rightarrow> real \<Rightarrow> real" where
  "logical_or a b = (if a \<noteq> 0 \<or> b \<noteq> 0 then 1 else 0)"

text \<open>
  The statements that add one roll and yaw residual for the quaternion at a pointer,
  and the body of the loop of \<^verbatim>\<open>addRollYawConstraint\<close> over the cameras. The orbital
  groups, a \<^verbatim>\<open>std::map\<close>, are an association list.
\<close>

definition add_roll_yaw_residual ::
  "roll_yaw_externals \<Rightarrow> real list \<Rightarrow> real list \<Rightarrow> int \<Rightarrow> real \<Rightarrow> real \<Rightarrow> bool \<Rightarrow> ptr
     \<Rightarrow> real list \<times> Problem \<Rightarrow> error + (real list \<times> Problem)" where
  "add_roll_yaw_residual lib positions quaternions cur_pos roll_weight yaw_weight
       initial_camera_constraint quat =
     (\<lambda>(weight_per_residual, problem).
        case weightedRollYawError_Create lib positions quaternions cur_pos roll_weight yaw_weight
               initial_camera_constraint of
          Inl e \<Rightarrow> Inl e
        | Inr roll_yaw_cost_function \<Rightarrow>
            let roll_yaw_loss_function = NullLoss;
                problem = AddResidualBlock roll_yaw_cost_function roll_yaw_loss_function
                            [quat] problem;
                weight_per_residual = weight_per_residual @ [logical_or roll_weight 1];
                weight_per_residual = weight_per_residual @ [logical_or yaw_weight 1]
            in Inr (weight_per_residual, problem))"

definition roll_yaw_constraint_cam ::
  "roll_yaw_externals \<Rightarrow> gm_model list \<Rightarrow> (int \<times> int) list \<Rightarrow> bool \<Rightarrow> real \<Rightarrow> real \<Rightarrow> int
     \<Rightarrow> real list \<times> Problem \<Rightarrow> error + (real list \<times> Problem)" where
  "roll_yaw_constraint_cam lib csm_models orbital_groups initial_camera_constraint
       roll_weight yaw_weight icam state =
     (case read_at csm_models icam of
        Inl e \<Rightarrow> Inl e
      | Inr (LsModel ls_model) \<Rightarrow>
          (let numQuat = int (length (m_quaternions ls_model)) div NUM_QUAT_PARAMS;
               interp_positions = orbitInterpExtrap lib ls_model
           in foldE (\<lambda>iq. add_roll_yaw_residual lib interp_positions (m_quaternions ls_model) iq
                             roll_weight yaw_weight initial_camera_constraint
                             (QuatPtr (nat icam) (iq * NUM_QUAT_PARAMS)))
                [0..numQuat - 1] state)
      | Inr (FrameModel frame_model) \<Rightarrow>
          (case map_of orbital_groups icam of
             None \<Rightarrow> Inl ArgumentErr
           | Some group_id \<Rightarrow>
               let index_in_group = indexInGroup lib icam;
                   positions = group_positions lib group_id;
                   quaternions = group_quaternions lib group_id
               in if int (length positions) div NUM_XYZ_PARAMS < 2 then Inr state
                  else
                    let curr_params = icam * (NUM_XYZ_PARAMS + NUM_QUAT_PARAMS)
                    in add_roll_yaw_residual lib positions quaternions index_in_group
                         roll_weight yaw_weight initial_camera_constraint
                         (FramePtr (curr_params + NUM_XYZ_PARAMS)) state)
      | Inr OtherModel \<Rightarrow> Inl ArgumentErr)"

definition addRollYawConstraint ::
  "roll_yaw_externals \<Rightarrow> int \<Rightarrow> gm_model list \<Rightarrow> (int \<times> int) list \<Rightarrow> bool \<Rightarrow> real \<Rightarrow> real
     \<Rightarrow> real list \<times> Problem \<Rightarrow> error + (real list \<times> Problem)" where
  "addRollYawConstraint lib crn_size csm_models orbital_groups initial_camera_constraint
       roll_weight yaw_weight state =
     (if roll_weight \<le> 0 \<and> yaw_weight \<le> 0 then Inl ArgumentErr
      else
        let num_cams = crn_size
        in if num_cams \<noteq> int (length orbital_groups) then Inl ArgumentErr
           else foldE (roll_yaw_constraint_cam lib csm_models orbital_groups
                         initial_camera_constraint roll_weight yaw_weight)
                  [0..num_cams - 1] state)"

subsection \<open>What the specification expects of the constraints\<close>

text \<open>
  Appending recorded weights and residual blocks to the state of the assembler.
\<close>

definition append_state :: "real list \<Rightarrow> residual_block list \<Rightarrow> real list \<times> Problem \<Rightarrow> real list \<times> Problem" where
  "append_state ws bs = (\<lambda>(weight_per_residual, problem).
     (weight_per_residual @ ws, problem\<lparr>residual_blocks := residual_blocks problem @ bs\<rparr>))"

text \<open>
  Section 4.3.1: the residual expected on projection failure, both components the
  weight times the large pixel value.
\<close>

definition spec_failure_residuals :: "real \<Rightarrow> real list" where
  "spec_failure_residuals weight = [weight * 1000, weight * 1000]"

text \<open>
  Section 4.3.6: one scalar residual with the weight \<open>quat_norm_weight\<close> and no loss for
  every quaternion sample of a linescan camera and for the quaternion of a frame camera.
\<close>

definition spec_quat_norm_block :: "real \<Rightarrow> ptr \<Rightarrow> residual_block" where
  "spec_quat_norm_block quat_norm_weight quat =
     \<lparr>cost = \<lparr>functor_of = weightedQuatNormError quat_norm_weight, num_residuals = 1,
               parameter_block_sizes = [4]\<rparr>,
      loss = NullLoss, vars = [quat]\<rparr>"

definition spec_quat_norm_blocks :: "real \<Rightarrow> gm_model list \<Rightarrow> int \<Rightarrow> residual_block list" where
  "spec_quat_norm_blocks quat_norm_weight csm_models icam =
     (case csm_models ! nat icam of
        LsModel ls_model \<Rightarrow>
          map (\<lambda>iq. spec_quat_norm_block quat_norm_weight (QuatPtr (nat icam) (iq * 4)))
            [0..int (length (m_quaternions ls_model)) div 4 - 1]
      | FrameModel frame_model \<Rightarrow> [spec_quat_norm_block quat_norm_weight (FramePtr (icam * 7 + 3))]
      | OtherModel \<Rightarrow> [])"

text \<open>
  Section 4.3.5: a triangulated point is constrained when it is not an outlier, neither
  a ground control point nor a point from the DEM, and its GSD is positive; its residual
  has the weight \<open>tri_weight / gsd\<close>, the initial point as observation and a Cauchy loss
  at \<open>tri_robust_threshold\<close>.
\<close>

definition spec_tri_constrained :: "int set \<Rightarrow> ControlPointType list \<Rightarrow> real list \<Rightarrow> int \<Rightarrow> bool" where
  "spec_tri_constrained outliers cnet gsds ipt =
     (cnet ! nat ipt \<noteq> GroundControlPoint \<and> cnet ! nat ipt \<noteq> PointFromDem \<and>
      ipt \<notin> outliers \<and> 0 < gsds ! nat ipt)"

definition spec_tri_block :: "BaBaseOptions \<Rightarrow> real list \<Rightarrow> real list \<Rightarrow> int \<Rightarrow> residual_block" where
  "spec_tri_block opt gsds tri_points_vec ipt =
     \<lparr>cost = \<lparr>functor_of = weightedXyzError
                 (tri_points_vec ! nat (3 * ipt), tri_points_vec ! nat (3 * ipt + 1),
                  tri_points_vec ! nat (3 * ipt + 2))
                 (tri_weight opt / gsds ! nat ipt),
               num_residuals = 3, parameter_block_sizes = [3]\<rparr>,
      loss = CauchyLoss (tri_robust_threshold opt), vars = [TriPtr (3 * ipt)]\<rparr>"

text \<open>
  Section 4.4: the triangulated points of the observations flagged as anchors, as
  pointers into \<^verbatim>\<open>tri_points_vec\<close>.
\<close>

definition spec_anchor_points :: "int \<Rightarrow> Vector2 list list \<Rightarrow> int list list \<Rightarrow> int list list \<Rightarrow> ptr set" where
  "spec_anchor_points crn_size pixel_vec isAnchor_vec pix2xyz_index =
     (\<Union>icam \<in> set [0..crn_size - 1].
        \<Union>ipix \<in> set [0..int (length (pixel_vec ! nat icam)) - 1].
          if isAnchor_vec ! nat icam ! nat ipix \<noteq> 0
          then {TriPtr (3 * (pix2xyz_index ! nat icam ! nat ipix))} else {})"

text \<open>
  The solver is not part of the sources. Its contract for a parameter block that was
  set constant: the solve leaves the values of the block as they were. Here \<open>before\<close>
  and \<open>after\<close> give the values at each pointer before and after the solve.
\<close>

definition solve_keeps_constant :: "Problem \<Rightarrow> (ptr \<Rightarrow> real list) \<Rightarrow> (ptr \<Rightarrow> real list) \<Rightarrow> bool" where
  "solve_keeps_constant problem before after =
     (\<forall>b \<in> set (constant_blocks problem). after b = before b)"

text \<open>
  Section 4.3.8: the position residual with its weight and Cauchy threshold, and the
  combined weight and threshold of a camera with \<open>count\<close> observations.
\<close>

definition spec_translation_block :: "real list \<Rightarrow> real \<Rightarrow> real \<Rightarrow> ptr \<Rightarrow> residual_block" where
  "spec_translation_block init_position w th position =
     \<lparr>cost = \<lparr>functor_of = weightedTranslationError init_position w, num_residuals = 3,
               parameter_block_sizes = [3]\<rparr>,
      loss = CauchyLoss th, vars = [position]\<rparr>"

definition spec_combined_weight :: "real \<Rightarrow> real \<Rightarrow> real" where
  "spec_combined_weight count median_wt = sqrt count * median_wt"

definition spec_combined_threshold :: "BaBaseOptions \<Rightarrow> real \<Rightarrow> real" where
  "spec_combined_threshold opt count = sqrt count * camera_position_robust_threshold opt"

text \<open>
  The observations behind the combined weight of a camera: the position weight
  \<open>camera_position_weight * pix_wt / gsd\<close> of an observation of camera \<open>icam\<close> that
  belongs to pass \<open>pass\<close> (0: not an anchor, 1: an anchor) and has a positive GSD, and
  the list of these weights over the observations of the camera.
\<close>

definition spec_observation_weight ::
  "externals \<Rightarrow> BaBaseOptions \<Rightarrow> Vector2 list list \<Rightarrow> real list list \<Rightarrow> int list list
     \<Rightarrow> int list list \<Rightarrow> real list \<Rightarrow> int \<Rightarrow> int \<Rightarrow> int \<Rightarrow> real list" where
  "spec_observation_weight ext opt pixel_vec weight_vec isAnchor_vec pix2xyz_index tri_points_vec
       pass icam ipix =
     (let pix_obs = pixel_vec ! nat icam ! nat ipix;
          xyz_index = pix2xyz_index ! nat icam ! nat ipix;
          xyz_obs = (tri_points_vec ! nat (3 * xyz_index), tri_points_vec ! nat (3 * xyz_index + 1),
                     tri_points_vec ! nat (3 * xyz_index + 2));
          pix_wt = weight_vec ! nat icam ! nat ipix;
          anchor = (isAnchor_vec ! nat icam ! nat ipix \<noteq> 0)
      in if (if anchor then 1 else 0) \<noteq> pass then []
         else case estimatedGSD ext icam pix_obs xyz_obs of
                None \<Rightarrow> []
              | Some gsd \<Rightarrow>
                  if gsd \<le> 0 then [] else [camera_position_weight opt * pix_wt / gsd])"

definition spec_position_weights ::
  "externals \<Rightarrow> BaBaseOptions \<Rightarrow> Vector2 list list \<Rightarrow> real list list \<Rightarrow> int list list
     \<Rightarrow> int list list \<Rightarrow> real list \<Rightarrow> int \<Rightarrow> int \<Rightarrow> real list" where
  "spec_position_weights ext opt pixel_vec weight_vec isAnchor_vec pix2xyz_index tri_points_vec
       pass icam =
     concat (map (spec_observation_weight ext opt pixel_vec weight_vec isAnchor_vec pix2xyz_index
                    tri_points_vec pass icam)
               [0..int (length (pixel_vec ! nat icam)) - 1])"

text \<open>
  What the position constraint adds for one camera and one pass, as recorded weights
  and residual blocks: nothing for a non-reference sensor of a rig and for a camera
  without position weights; otherwise, with \<open>N\<close> the number of position weights and
  \<open>m\<close> their median, for a linescan camera with \<open>P\<close> position samples one block per
  sample with the weight \<open>sqrt N * m / sqrt P\<close> and the Cauchy threshold
  \<open>sqrt N * camera_position_robust_threshold / sqrt P\<close>, for a frame camera one block
  with the weight \<open>sqrt N * m\<close> and the threshold
  \<open>sqrt N * camera_position_robust_threshold\<close>.
\<close>

definition spec_position_constraint ::
  "externals \<Rightarrow> BaBaseOptions \<Rightarrow> gm_model list \<Rightarrow> bool \<Rightarrow> RigCamInfo list \<Rightarrow> real list
     \<Rightarrow> real list \<Rightarrow> int \<Rightarrow> real list \<times> residual_block list" where
  "spec_position_constraint ext opt csm_models have_rig rig_cam_info frame_params
       position_weights icam =
     (if have_rig \<and> \<not> isRefSensor ext (sensor_id (rig_cam_info ! nat icam)) then ([], [])
      else if position_weights = [] then ([], [])
      else
        let N = real (length position_weights);
            m = destructive_median ext position_weights;
            w_combined = spec_combined_weight N m;
            th_combined = spec_combined_threshold opt N
        in case csm_models ! nat icam of
             LsModel ls_model \<Rightarrow>
               (let P = int (length (m_positions ls_model)) div 3;
                    w = w_combined / sqrt (real_of_int P);
                    th = th_combined / sqrt (real_of_int P)
                in (replicate (3 * nat P) w,
                    map (\<lambda>ip. spec_translation_block
                                 (take 3 (drop (nat (ip * 3)) (m_positions ls_model))) w th
                                 (PosPtr (nat icam) (ip * 3)))
                      [0..P - 1]))
           | FrameModel frame_model \<Rightarrow>
               (replicate 3 w_combined,
                [spec_translation_block (take 3 (drop (nat (icam * 7)) frame_params))
                   w_combined th_combined (FramePtr (icam * 7))])
           | OtherModel \<Rightarrow> ([], []))"

subsection \<open>Example data\<close>

text \<open>
  A linescan model with two pose samples, a frame model, and parameter blocks laid out
  for the quaternion range \<open>[1, 2)\<close> and the position range \<open>[0, 1)\<close>, used to evaluate
  the definitions on concrete inputs.
\<close>

definition example_ls_model :: UsgsAstroLsSensorModel where
  "example_ls_model = \<lparr>m_quaternions = [0, 0, 0, 1, 0, 0, 0, 1], m_positions = [0, 0, 0, 0, 0, 0],
     m_t0Quat = 0, m_dtQuat = 1, m_t0Ephem = 0, m_dtEphem = 1\<rparr>"

definition example_frame_model :: UsgsAstroFrameSensorModel where
  "example_frame_model = \<lparr>m_currentParameterValue = [0, 0, 0, 0, 0, 0, 1]\<rparr>"

definition example_ls_parameters :: "real list list" where
  "example_ls_parameters = [[1, 2, 3, 4], [5, 6, 7], [8, 9, 10]]"

definition example_frame_parameters :: "real list list" where
  "example_frame_parameters = [[5, 6, 7], [1, 2, 3, 4], [8, 9, 10]]"

definition example_opt :: BaBaseOptions where
  "example_opt = \<lparr>max_init_reproj_error = 1, robust_threshold = 1/2, tri_weight = 1/10,
     tri_robust_threshold = 1/10, camera_position_weight = 1,
     camera_position_robust_threshold = 1, rotation_weight = 0\<rparr>"

definition example_ext :: externals where
  "example_ext = \<lparr>getImageTime = (\<lambda>cam pix. snd pix / 10),
     estimatedGSD = (\<lambda>icam pix xyz. Some 1),
     destructive_median = (\<lambda>ws. ws ! (length ws div 2)),
     isRefSensor = (\<lambda>sensor. True),
     addRigLsFrameReprojectionErr = (\<lambda>info pix w rig tri. Inl ArgumentErr),
     addRigLsLsReprojectionErr = (\<lambda>info pix w rig tri. Inl ArgumentErr)\<rparr>"

definition example_models :: "gm_model list" where
  "example_models = [LsModel example_ls_model, FrameModel example_frame_model]"

definition empty_state :: "real list \<times> Problem" where
  "empty_state = ([], \<lparr>residual_blocks = [], constant_blocks = []\<rparr>)"

definition example_cnet :: "ControlPointType list" where
  "example_cnet = [TiePoint, PointFromDem, TiePoint]"

definition example_tri_points_vec :: "real list" where
  "example_tri_points_vec = [1, 2, 3, 4, 5, 6, 7, 8, 9]"

definition example_pixel_vec :: "Vector2 list list" where
  "example_pixel_vec = [[(0, 5)], [(1, 1), (2, 2)]]"

definition example_weight_vec :: "real list list" where
  "example_weight_vec = [[1], [1, 3]]"

definition example_isAnchor_vec :: "int list list" where
  "example_isAnchor_vec = [[0], [0, 1]]"

definition example_pix2xyz_index :: "int list list" where
  "example_pix2xyz_index = [[0], [0, 1]]"

definition example_reproj_problem :: Problem where
  "example_reproj_problem =
     \<lparr>residual_blocks =
        [\<lparr>cost = \<lparr>functor_of = LsPixelReprojErr (0, 5) 1 0 0 2 0 2, num_residuals = 2,
                   parameter_block_sizes = [4, 4, 3, 3, 3]\<rparr>,
          loss = CauchyLoss (1 / 2),
          vars = [QuatPtr 0 0, QuatPtr 0 4, PosPtr 0 0, PosPtr 0 3, TriPtr 0]\<rparr>,
         \<lparr>cost = \<lparr>functor_of = FramePixelReprojErr (1, 1) 1 1, num_residuals = 2,
                   parameter_block_sizes = [3, 4, 3]\<rparr>,
          loss = CauchyLoss (1 / 2), vars = [FramePtr 7, FramePtr 10, TriPtr 0]\<rparr>,
         \<lparr>cost = \<lparr>functor_of = FramePixelReprojErr (2, 2) 3 1, num_residuals = 2,
                   parameter_block_sizes = [3, 4, 3]\<rparr>,
          loss = CauchyLoss (1 / 2), vars = [FramePtr 7, FramePtr 10, TriPtr 3]\<rparr>],
      constant_blocks = [TriPtr 3]\<rparr>"

text \<open>A linescan model with four position samples, and a solve that moves every free block.\<close>

definition example_ls_model4 :: UsgsAstroLsSensorModel where
  "example_ls_model4 = \<lparr>m_quaternions = [0, 0, 0, 1], m_positions = [0, 0, 0, 1, 0, 0, 2, 0, 0, 3, 0, 0],
     m_t0Quat = 0, m_dtQuat = 1, m_t0Ephem = 0, m_dtEphem = 1\<rparr>"

definition example_before :: "ptr \<Rightarrow> real list" where
  "example_before b = [0, 0, 0]"

definition example_after :: "ptr \<Rightarrow> real list" where
  "example_after b = (if b = TriPtr 3 then [0, 0, 0] else [1, 1, 1])"

definition example_models4 :: "gm_model list" where
  "example_models4 = [LsModel example_ls_model4, FrameModel example_frame_model]"

definition example_frame_params :: "real list" where
  "example_frame_params = [0, 0, 0, 0, 0, 0, 1, 5, 6, 7, 0, 0, 0, 1]"

text \<open>The loss functions and the recorded weights of a result of the assembler.\<close>

definition losses_of :: "error + (real list \<times> Problem) \<Rightarrow> loss_function list" where
  "losses_of r = (case r of Inl e \<Rightarrow> [] | Inr state \<Rightarrow> map loss (residual_blocks (snd state)))"

definition weights_of :: "error + (real list \<times> Problem) \<Rightarrow> real list" where
  "weights_of r = (case r of Inl e \<Rightarrow> [] | Inr state \<Rightarrow> fst state)"

definition functors_of :: "error + (real list \<times> Problem) \<Rightarrow> cost_functor list" where
  "functors_of r =
     (case r of Inl e \<Rightarrow> [] | Inr state \<Rightarrow> map (\<lambda>b. functor_of (cost b)) (residual_blocks (snd state)))"

text \<open>
  Data for the camera position constraint. The stand-in for the median sorts the list
  and takes the middle element, or the mean of the two middle ones; the stand-in for
  the GSD is the column of the pixel, unavailable left of the image. Camera 0 is the
  linescan model with four position samples, camera 1 the frame model.
\<close>

definition example_median :: "real list \<Rightarrow> real" where
  "example_median ws =
     (let s = sort ws; n = length s
      in if odd n then s ! (n div 2) else (s ! (n div 2 - 1) + s ! (n div 2)) / 2)"

definition example_gsd_ext :: externals where
  "example_gsd_ext = example_ext\<lparr>
     estimatedGSD := (\<lambda>icam pix xyz. if fst pix < 0 then None else Some (fst pix)),
     destructive_median := example_median\<rparr>"

definition example_position_pixel_vec :: "Vector2 list list" where
  "example_position_pixel_vec =
     [[(1, 5), (2, 5), (1, 5), (0, 5), (4, 5), (- 1, 5)], [(1, 1), (1, 1), (1, 1), (1, 1), (2, 2)]]"

definition example_position_weight_vec :: "real list list" where
  "example_position_weight_vec = [[1, 4, 3, 1, 8, 1], [1, 2, 3, 4, 3]]"

definition example_position_isAnchor_vec :: "int list list" where
  "example_position_isAnchor_vec = [[0, 0, 0, 0, 0, 1], [0, 0, 0, 0, 1]]"

definition example_position_pix2xyz_index :: "int list list" where
  "example_position_pix2xyz_index = [[0, 0, 1, 1, 0, 1], [0, 0, 1, 1, 1]]"

text \<open>
  The same cameras on a rig: camera 0 carries the reference sensor, camera 1 a second
  sensor, whose rig reprojection error is a block on the rig transform and the point.
\<close>

definition example_rig_ext :: externals where
  "example_rig_ext = example_gsd_ext\<lparr>
     isRefSensor := (\<lambda>sensor. sensor = 0),
     addRigLsFrameReprojectionErr := (\<lambda>info pix w rig tri.
       Inr \<lparr>cost = \<lparr>functor_of = RigReprojErr, num_residuals = 2,
                      parameter_block_sizes = [6, 3]\<rparr>,
            loss = NullLoss, vars = [rig, tri]\<rparr>)\<rparr>"

definition example_rig_cam_info :: "RigCamInfo list" where
  "example_rig_cam_info = [\<lparr>sensor_id = 0, ref_cam_index = 0\<rparr>, \<lparr>sensor_id = 1, ref_cam_index = 0\<rparr>]"

text \<open>The per-camera medians and counts of a result of \<^verbatim>\<open>addReprojCamErrs\<close>.\<close>

definition cam_weights_of ::
  "error + (real list \<times> Problem \<times> real list list \<times> real list list)
     \<Rightarrow> (real list list \<times> real list list) option" where
  "cam_weights_of r =
     (case r of Inl e \<Rightarrow> None
      | Inr (weight_per_residual, problem, weight_per_cam, count_per_cam) \<Rightarrow>
          Some (weight_per_cam, count_per_cam))"

text \<open>Stand-ins for the matrix and orbit functions: the Euler angles are read off the first row.\<close>

definition example_lib :: roll_yaw_externals where
  "example_lib = \<lparr>quaternionToMatrix = (\<lambda>q. [[100 * q ! 0, 100 * q ! 1, 100 * q ! 2]]),
     mat_inverse = (\<lambda>m. m),
     mat_mul = (\<lambda>a b. b),
     rollPitchYawFromRotationMatrix = (\<lambda>m. (hd m ! 0, hd m ! 1, hd m ! 2)),
     rotationXY = [[170, 20, 100]],
     satToWorld = (\<lambda>b c e. [[0, 0, 0]]),
     orbitInterpExtrap = m_positions,
     group_positions = (\<lambda>g. []),
     group_quaternions = (\<lambda>g. []),
     indexInGroup = (\<lambda>icam. icam)\<rparr>"

section \<open>Properties\<close>

subsection \<open>The index-range calculator\<close>

lemma int_result_Inr: "int_result i = Inr j \<Longrightarrow> j = i"
  by (simp add: int_result_def split: if_splits)

lemma calcIndexBounds_Inr:
  assumes "calcIndexBounds time1 time2 t0 dt numVals = Inr (b, e)"
  shows "(b, e) = trunc_indexBounds time1 time2 t0 dt numVals \<and> b < e"
  using assms
  unfolding calcIndexBounds_def trunc_indexBounds_def static_cast_int_def Let_def
  by (auto simp: min.commute split: if_splits sum.splits dest!: int_result_Inr)

lemma ceiling_neg_half: "\<lceil>- (1/2) :: real\<rceil> = 0"
  by (simp add: ceiling_eq_iff)

lemma trunc_nonneg: "0 \<le> x \<Longrightarrow> trunc x = \<lfloor>x\<rfloor>"
  by (simp add: trunc_def)

text \<open>
  Claim C1, as the code has it. Whenever \<open>calcIndexBounds\<close> returns normally with
  \<open>dt > 0\<close>, its outputs are \<open>begIndex = max(0, min(i1,i2) - K/2 + 1)\<close> and
  \<open>endIndex = min(numVals, max(i1,i2) + K/2 + 1)\<close> with \<open>K = 8\<close>, where \<open>i1\<close> and
  \<open>i2\<close> are the quotients \<open>(time - t0)/dt\<close> truncated toward zero; when both quotients
  are non-negative this is the formula of the specification with the floor.
\<close>

theorem calcIndexBounds_formula:
  assumes "0 < dt"
    and "calcIndexBounds time1 time2 t0 dt numVals = Inr (begIndex, endIndex)"
  shows "(begIndex, endIndex) = trunc_indexBounds time1 time2 t0 dt numVals \<and>
         (0 \<le> (time1 - t0) / dt \<and> 0 \<le> (time2 - t0) / dt \<longrightarrow>
            (begIndex, endIndex) = spec_indexBounds time1 time2 t0 dt numVals)"
proof -
  have t: "(begIndex, endIndex) = trunc_indexBounds time1 time2 t0 dt numVals"
    using calcIndexBounds_Inr [OF assms(2)] by simp
  have "trunc_indexBounds time1 time2 t0 dt numVals = spec_indexBounds time1 time2 t0 dt numVals"
    if "0 \<le> (time1 - t0) / dt" "0 \<le> (time2 - t0) / dt"
    using that by (simp add: trunc_indexBounds_def spec_indexBounds_def trunc_nonneg)
  with t show ?thesis by simp
qed

lemma calc_eval_1: "calcIndexBounds (7/2) (11/2) 0 1 10 = Inr (0, 10)"
  by (simp add: calcIndexBounds_def static_cast_int_def int_result_def in_int_def
      INT_MIN_def INT_MAX_def trunc_def)

theorem calcIndexBounds_formula_witness:
  "(0::real) < 1 \<and> calcIndexBounds (7/2) (11/2) 0 1 10 = Inr (0, 10) \<and>
   (0, 10) = trunc_indexBounds (7/2) (11/2) 0 1 10 \<and>
   (0::real) \<le> (7/2 - 0) / 1 \<and> (0::real) \<le> (11/2 - 0) / 1 \<and>
   (0, 10) = spec_indexBounds (7/2) (11/2) 0 1 10"
  using calcIndexBounds_formula [of 1 "7/2" "11/2" 0 10 0 10] calc_eval_1
  by (simp add: trunc_indexBounds_def spec_indexBounds_def trunc_def)

text \<open>
  Claim C1 as stated fails below \<open>t0\<close>: at \<open>time1 = time2 = -1/2\<close>, \<open>t0 = 0\<close>, \<open>dt = 1\<close>,
  \<open>numVals = 10\<close> the code returns the range \<open>[0, 5)\<close>, the formula with the floor
  gives \<open>[0, 4)\<close>.
\<close>

theorem calcIndexBounds_floor_counterexample:
  "(0::real) < 1 \<and> calcIndexBounds (-1/2) (-1/2) 0 1 10 = Inr (0, 5) \<and>
   spec_indexBounds (-1/2) (-1/2) 0 1 10 = (0, 4)"
  by (simp add: calcIndexBounds_def static_cast_int_def int_result_def in_int_def
      INT_MIN_def INT_MAX_def trunc_def spec_indexBounds_def ceiling_neg_half)

text \<open>
  Claim C8. For a nonzero \<open>dt\<close> and truncated quotients within the range in which the
  \<^verbatim>\<open>int\<close> arithmetic of the function does not overflow, \<open>calcIndexBounds\<close> throws
  exactly when the clamped \<open>begIndex\<close> is at least the clamped \<open>endIndex\<close>, and returns
  the clamped pair otherwise; every normal return has
  \<open>0 \<le> begIndex < endIndex \<le> numVals\<close>.
\<close>

theorem calcIndexBounds_throws_iff:
  assumes "dt \<noteq> 0"
    and "INT_MIN + 4 \<le> trunc ((time1 - t0) / dt)" and "trunc ((time1 - t0) / dt) \<le> INT_MAX - 5"
    and "INT_MIN + 4 \<le> trunc ((time2 - t0) / dt)" and "trunc ((time2 - t0) / dt) \<le> INT_MAX - 5"
  shows "(calcIndexBounds time1 time2 t0 dt numVals = Inl ArgumentErr \<longleftrightarrow>
            fst (trunc_indexBounds time1 time2 t0 dt numVals)
              \<ge> snd (trunc_indexBounds time1 time2 t0 dt numVals)) \<and>
         (fst (trunc_indexBounds time1 time2 t0 dt numVals)
              < snd (trunc_indexBounds time1 time2 t0 dt numVals) \<longrightarrow>
            calcIndexBounds time1 time2 t0 dt numVals
              = Inr (trunc_indexBounds time1 time2 t0 dt numVals)) \<and>
         (\<forall>begIndex endIndex.
            calcIndexBounds time1 time2 t0 dt numVals = Inr (begIndex, endIndex) \<longrightarrow>
              0 \<le> begIndex \<and> begIndex < endIndex \<and> endIndex \<le> numVals)"
proof -
  define i1 where "i1 = trunc ((time1 - t0) / dt)"
  define i2 where "i2 = trunc ((time2 - t0) / dt)"
  have r: "in_int i1" "in_int i2" "in_int (min i1 i2 - 4)" "in_int (min i1 i2 - 4 + 1)"
    "in_int (max i1 i2 + 4)" "in_int (max i1 i2 + 4 + 1)"
    using assms(2-5) unfolding i1_def [symmetric] i2_def [symmetric]
    by (auto simp: in_int_def INT_MIN_def INT_MAX_def)
  have c: "calcIndexBounds time1 time2 t0 dt numVals
      = (if max 0 (min i1 i2 - 4 + 1) \<ge> min (max i1 i2 + 4 + 1) numVals then Inl ArgumentErr
         else Inr (max 0 (min i1 i2 - 4 + 1), min (max i1 i2 + 4 + 1) numVals))"
    using assms(1) r
    unfolding calcIndexBounds_def static_cast_int_def Let_def int_result_def
      i1_def [symmetric] i2_def [symmetric]
    by simp
  have t: "trunc_indexBounds time1 time2 t0 dt numVals
      = (max 0 (min i1 i2 - 4 + 1), min (max i1 i2 + 4 + 1) numVals)"
    unfolding trunc_indexBounds_def Let_def i1_def i2_def by (simp add: min.commute)
  show ?thesis unfolding c t by auto
qed

text \<open>
  A call that throws (the times lie beyond the ten samples) and a call that returns.
\<close>

lemma trunc_evals:
  "trunc ((401/4 - 0) / 1) = 100" "trunc ((407/4 - 0) / 1) = 101"
  "trunc ((7/2 - 0) / 1) = 3" "trunc ((11/2 - 0) / 1) = 5"
  by (simp_all add: trunc_def)

theorem calcIndexBounds_throws_iff_witness:
  "(1::real) \<noteq> 0 \<and>
   INT_MIN + 4 \<le> trunc ((401/4 - 0) / 1) \<and> trunc ((401/4 - 0) / 1) \<le> INT_MAX - 5 \<and>
   INT_MIN + 4 \<le> trunc ((407/4 - 0) / 1) \<and> trunc ((407/4 - 0) / 1) \<le> INT_MAX - 5 \<and>
   trunc_indexBounds (401/4) (407/4) 0 1 10 = (97, 10) \<and>
   calcIndexBounds (401/4) (407/4) 0 1 10 = Inl ArgumentErr \<and>
   INT_MIN + 4 \<le> trunc ((7/2 - 0) / 1) \<and> trunc ((7/2 - 0) / 1) \<le> INT_MAX - 5 \<and>
   INT_MIN + 4 \<le> trunc ((11/2 - 0) / 1) \<and> trunc ((11/2 - 0) / 1) \<le> INT_MAX - 5 \<and>
   trunc_indexBounds (7/2) (11/2) 0 1 10 = (0, 10) \<and>
   calcIndexBounds (7/2) (11/2) 0 1 10 = Inr (0, 10) \<and>
   (0::int) \<le> 0 \<and> (0::int) < 10 \<and> (10::int) \<le> 10"
proof -
  have one: "(1::real) \<noteq> 0" by simp
  have h: "INT_MIN + 4 \<le> trunc ((401/4 - 0) / 1)" "trunc ((401/4 - 0) / 1) \<le> INT_MAX - 5"
    "INT_MIN + 4 \<le> trunc ((407/4 - 0) / 1)" "trunc ((407/4 - 0) / 1) \<le> INT_MAX - 5"
    unfolding trunc_evals by (simp_all add: INT_MIN_def INT_MAX_def)
  have k: "INT_MIN + 4 \<le> trunc ((7/2 - 0) / 1)" "trunc ((7/2 - 0) / 1) \<le> INT_MAX - 5"
    "INT_MIN + 4 \<le> trunc ((11/2 - 0) / 1)" "trunc ((11/2 - 0) / 1) \<le> INT_MAX - 5"
    unfolding trunc_evals by (simp_all add: INT_MIN_def INT_MAX_def)
  have th: "trunc_indexBounds (401/4) (407/4) 0 1 10 = (97, 10)"
    unfolding trunc_indexBounds_def trunc_evals Let_def by simp
  have tk: "trunc_indexBounds (7/2) (11/2) 0 1 10 = (0, 10)"
    unfolding trunc_indexBounds_def trunc_evals Let_def by simp
  have a: "calcIndexBounds (401/4) (407/4) 0 1 10 = Inl ArgumentErr"
    using calcIndexBounds_throws_iff [OF one h, of 10] unfolding th by simp
  have b: "calcIndexBounds (7/2) (11/2) 0 1 10 = Inr (0, 10)"
    using calcIndexBounds_throws_iff [OF one k, of 10] unfolding tk by simp
  show ?thesis
    using one h k th tk a b by simp
qed

subsection \<open>Pixel reprojection residuals\<close>

lemma foldE_append:
  "foldE f (xs @ ys) s = (case foldE f xs s of Inl e \<Rightarrow> Inl e | Inr s' \<Rightarrow> foldE f ys s')"
  by (induction xs arbitrary: s) (auto split: sum.splits)

lemma upto_snoc: "i \<le> j + 1 \<Longrightarrow> [i..j + 1] = [i..j] @ [j + 1]"
  using upto_rec2 [of i "j + 1"] by (cases "i = j + 1") auto

lemma copy_coords:
  assumes blk: "read_at parameters b = Inr blk"
    and len: "int (length blk) = N"
    and base: "0 \<le> base" "base + N \<le> int (length arr)"
    and c: "int c \<le> N"
  shows "\<exists>arr'. foldE (\<lambda>coord. assign_param parameters b coord (base + coord)) [0..int c - 1] arr = Inr arr'
           \<and> length arr' = length arr
           \<and> (\<forall>coord. 0 \<le> coord \<and> coord < int c \<longrightarrow> arr' ! nat (base + coord) = blk ! nat coord)
           \<and> (\<forall>i < length arr. \<not> (base \<le> int i \<and> int i < base + int c) \<longrightarrow> arr' ! i = arr ! i)"
  using c
proof (induction c)
  case 0
  then show ?case by simp
next
  case (Suc c)
  have "int c \<le> N" using Suc.prems by simp
  from Suc.IH [OF this] obtain arr' where run: "foldE (\<lambda>coord. assign_param parameters b coord (base + coord)) [0..int c - 1] arr = Inr arr'"
    and l: "length arr' = length arr"
    and w: "\<forall>coord. 0 \<le> coord \<and> coord < int c \<longrightarrow> arr' ! nat (base + coord) = blk ! nat coord"
    and fr: "\<forall>i < length arr. \<not> (base \<le> int i \<and> int i < base + int c) \<longrightarrow> arr' ! i = arr ! i"
    by (elim exE conjE)
  have split: "[0..int (Suc c) - 1] = [0..int c - 1] @ [int c]"
    using upto_snoc [of 0 "int c - 1"] by simp
  define t where "t = nat (base + int c)"
  have tl: "t < length arr'" using base Suc.prems l unfolding t_def by linarith
  have step: "assign_param parameters b (int c) (base + int c) arr' = Inr (arr'[t := blk ! c])"
    using blk len base Suc.prems l by (simp add: assign_param_def read_at_def write_at_def t_def)
  have res: "foldE (\<lambda>coord. assign_param parameters b coord (base + coord)) [0..int (Suc c) - 1] arr
      = Inr (arr'[t := blk ! c])"
    unfolding split foldE_append run by (simp add: step)
  have W: "(arr'[t := blk ! c]) ! nat (base + coord) = blk ! nat coord"
    if "0 \<le> coord" "coord < int (Suc c)" for coord
  proof (cases "coord = int c")
    case True
    then show ?thesis using tl by (simp add: t_def)
  next
    case False
    then have lt: "coord < int c" using that by simp
    then have "nat (base + coord) \<noteq> t" using that(1) base(1) unfolding t_def by linarith
    then have "(arr'[t := blk ! c]) ! nat (base + coord) = arr' ! nat (base + coord)" by simp
    also have "\<dots> = blk ! nat coord" using w that(1) lt by blast
    finally show ?thesis .
  qed
  have F: "(arr'[t := blk ! c]) ! i = arr ! i"
    if "i < length arr" "\<not> (base \<le> int i \<and> int i < base + int (Suc c))" for i
  proof -
    have "i \<noteq> t" using that(2) base(1) unfolding t_def by linarith
    then have "(arr'[t := blk ! c]) ! i = arr' ! i" by simp
    moreover have "\<not> (base \<le> int i \<and> int i < base + int c)" using that(2) by linarith
    then have "arr' ! i = arr ! i" using fr that(1) by blast
    ultimately show ?thesis by simp
  qed
  show ?case
  proof (intro exI [of _ "arr'[t := blk ! c]"] conjI allI impI)
    show "foldE (\<lambda>coord. assign_param parameters b coord (base + coord)) [0..int (Suc c) - 1] arr
      = Inr (arr'[t := blk ! c])" by (rule res)
    show "length (arr'[t := blk ! c]) = length arr" using l by simp
    show "(arr'[t := blk ! c]) ! nat (base + coord) = blk ! nat coord"
      if "0 \<le> coord \<and> coord < int (Suc c)" for coord
      using W [of coord] that by blast
    show "(arr'[t := blk ! c]) ! i = arr ! i"
      if "i < length arr" "\<not> (base \<le> int i \<and> int i < base + int (Suc c))" for i
      using F [OF that] .
  qed
qed

lemma copy_blocks:
  assumes N: "0 < N"
    and beg: "0 \<le> beg" "N * (beg + int k) \<le> int (length arr)"
    and sh: "0 \<le> shift" "shift + int k \<le> int (length parameters)"
    and blks: "\<forall>j. 0 \<le> j \<and> j < int k \<longrightarrow> int (length (parameters ! nat (shift + j))) = N"
  shows "\<exists>arr'. foldE (\<lambda>qi. foldE (\<lambda>coord. assign_param parameters (qi + shift - beg) coord (N * qi + coord)) [0..N - 1])
                  [beg..beg + int k - 1] arr = Inr arr'
           \<and> length arr' = length arr
           \<and> (\<forall>qi coord. beg \<le> qi \<and> qi < beg + int k \<and> 0 \<le> coord \<and> coord < N \<longrightarrow>
                  arr' ! nat (N * qi + coord) = parameters ! nat (qi + shift - beg) ! nat coord)
           \<and> (\<forall>i < length arr. \<not> (N * beg \<le> int i \<and> int i < N * (beg + int k)) \<longrightarrow> arr' ! i = arr ! i)"
  using beg(2) sh(2) blks
proof (induction k)
  case 0
  then show ?case by simp
next
  case (Suc k)
  let ?body = "\<lambda>qi. foldE (\<lambda>coord. assign_param parameters (qi + shift - beg) coord (N * qi + coord)) [0..N - 1]"
  define q where "q = beg + int k"
  define blk where "blk = parameters ! nat (shift + int k)"
  have q1: "beg + int (Suc k) = q + 1" by (simp add: q_def)
  have Nq: "N * (q + 1) = N * q + N" by (simp add: distrib_left)
  have p1: "N * q + N \<le> int (length arr)" using Suc.prems(1) unfolding q1 Nq .
  have p2: "shift + int k + 1 \<le> int (length parameters)" using Suc.prems(2) by simp
  have p3: "int (length (parameters ! nat (shift + j))) = N" if "0 \<le> j" "j < int k + 1" for j
    using Suc.prems(3) that by simp
  have i1: "N * (beg + int k) \<le> int (length arr)" using p1 N unfolding q_def by linarith
  have i2: "shift + int k \<le> int (length parameters)" using p2 by linarith
  have i3: "\<forall>j. 0 \<le> j \<and> j < int k \<longrightarrow> int (length (parameters ! nat (shift + j))) = N"
    using p3 by simp
  from Suc.IH [OF i1 i2 i3] obtain arr' where run: "foldE ?body [beg..beg + int k - 1] arr = Inr arr'"
    and l: "length arr' = length arr"
    and w: "\<forall>qi coord. beg \<le> qi \<and> qi < beg + int k \<and> 0 \<le> coord \<and> coord < N \<longrightarrow>
                  arr' ! nat (N * qi + coord) = parameters ! nat (qi + shift - beg) ! nat coord"
    and fr: "\<forall>i < length arr. \<not> (N * beg \<le> int i \<and> int i < N * (beg + int k)) \<longrightarrow> arr' ! i = arr ! i"
    by (elim exE conjE)
  have e1: "beg + int (Suc k) - 1 = q" and e2: "beg + int k - 1 = q - 1" by (simp_all add: q_def)
  have "beg \<le> q" by (simp add: q_def)
  then have split: "[beg..beg + int (Suc k) - 1] = [beg..beg + int k - 1] @ [q]"
    unfolding e1 e2 by (rule upto_rec2)
  have bi: "q + shift - beg = shift + int k" by (simp add: q_def)
  have rd: "read_at parameters (q + shift - beg) = Inr blk"
    unfolding bi blk_def using sh(1) p2 by (simp add: read_at_def)
  have bl: "int (length blk) = N"
    unfolding blk_def using p3 [of "int k"] by simp
  have b0: "0 \<le> N * q" using N beg(1) by (simp add: q_def)
  have b1: "N * q + N \<le> int (length arr')" using p1 l by simp
  have nN: "int (nat N) = N" using N by simp
  have "int (nat N) \<le> N" using N by simp
  note cc = copy_coords [OF rd bl b0 b1 this, unfolded nN]
  from cc obtain arr'' where run2: "foldE (\<lambda>coord. assign_param parameters (q + shift - beg) coord (N * q + coord)) [0..N - 1] arr' = Inr arr''"
    and l2: "length arr'' = length arr'"
    and w2: "\<forall>coord. 0 \<le> coord \<and> coord < N \<longrightarrow> arr'' ! nat (N * q + coord) = blk ! nat coord"
    and fr2: "\<forall>i < length arr'. \<not> (N * q \<le> int i \<and> int i < N * q + N) \<longrightarrow> arr'' ! i = arr' ! i"
    by (elim exE conjE)
  have res: "foldE ?body [beg..beg + int (Suc k) - 1] arr = Inr arr''"
    unfolding split foldE_append run by (simp add: run2)
  have L: "length arr'' = length arr" using l l2 by simp
  have W: "arr'' ! nat (N * qi + coord) = parameters ! nat (qi + shift - beg) ! nat coord"
    if "beg \<le> qi" "qi < q + 1" "0 \<le> coord" "coord < N" for qi coord
  proof (cases "qi = q")
    case True
    have "arr'' ! nat (N * q + coord) = blk ! nat coord" using w2 that by blast
    then show ?thesis unfolding True bi blk_def .
  next
    case False
    then have lt: "qi < q" using that by simp
    then have "qi + 1 \<le> q" by simp
    then have "N * (qi + 1) \<le> N * q" using N by (intro mult_left_mono) simp_all
    then have "N * qi + N \<le> N * q" by (simp add: distrib_left)
    then have up: "N * qi + coord < N * q" using that(4) by linarith
    have "0 \<le> N * qi" using N that(1) beg(1) by simp
    then have lo: "0 \<le> N * qi + coord" using that(3) by linarith
    have "nat (N * qi + coord) < length arr'" using up lo b1 N by linarith
    moreover have "\<not> (N * q \<le> int (nat (N * qi + coord)) \<and> int (nat (N * qi + coord)) < N * q + N)"
      using up lo by simp
    ultimately have "arr'' ! nat (N * qi + coord) = arr' ! nat (N * qi + coord)"
      using fr2 by blast
    moreover have "arr' ! nat (N * qi + coord) = parameters ! nat (qi + shift - beg) ! nat coord"
      using w that lt unfolding q_def by blast
    ultimately show ?thesis by simp
  qed
  have F: "arr'' ! i = arr ! i"
    if "i < length arr" "\<not> (N * beg \<le> int i \<and> int i < N * (q + 1))" for i
  proof -
    have "N * beg \<le> N * q" using N by (intro mult_left_mono) (simp_all add: q_def)
    then have "\<not> (N * q \<le> int i \<and> int i < N * q + N)" using that(2) unfolding Nq by linarith
    then have "arr'' ! i = arr' ! i" using fr2 that(1) l by simp
    moreover have "\<not> (N * beg \<le> int i \<and> int i < N * q)" using that(2) N unfolding Nq by linarith
    then have "arr' ! i = arr ! i" using fr that(1) unfolding q_def by blast
    ultimately show ?thesis by simp
  qed
  show ?case
    unfolding q1
  proof (intro exI [of _ arr''] conjI allI impI)
    show "foldE ?body [beg..q + 1 - 1] arr = Inr arr''" using res unfolding q1 .
    show "length arr'' = length arr" by (rule L)
    show "arr'' ! nat (N * qi + coord) = parameters ! nat (qi + shift - beg) ! nat coord"
      if "beg \<le> qi \<and> qi < q + 1 \<and> 0 \<le> coord \<and> coord < N" for qi coord
      using W [of qi coord] that by blast
    show "arr'' ! i = arr ! i"
      if "i < length arr" "\<not> (N * beg \<le> int i \<and> int i < N * (q + 1))" for i
      using F [OF that] .
  qed
qed

lemma fold_AddParameterBlock:
  "parameter_block_sizes (fold (\<lambda>it. AddParameterBlock n) xs cf)
     = parameter_block_sizes cf @ replicate (length xs) n"
  by (induction xs arbitrary: cf) (simp_all add: AddParameterBlock_def replicate_app_Cons_same)

lemma Create_sizes:
  "parameter_block_sizes (LsPixelReprojErr_Create observation weight ls_model bq eq bp ep)
     = replicate (nat (eq - bq)) NUM_QUAT_PARAMS @ replicate (nat (ep - bp)) NUM_XYZ_PARAMS
         @ [NUM_XYZ_PARAMS]"
  by (simp add: LsPixelReprojErr_Create_def fold_AddParameterBlock AddParameterBlock_def
      SetNumResiduals_def DynamicNumericDiffCostFunction_def)

lemma read_xyz_last:
  assumes "0 \<le> n" "int (length parameters) = n + 1" "length (parameters ! nat n) = 3"
  shows "read_xyz parameters n = Inr (last parameters ! 0, last parameters ! 1, last parameters ! 2)"
proof -
  have ne: "parameters \<noteq> []" using assms by auto
  have "nat n = length parameters - 1" using assms by linarith
  then have "parameters ! nat n = last parameters" using ne by (simp add: last_conv_nth)
  then show ?thesis using assms by (simp add: read_xyz_def read_at_def)
qed

text \<open>
  Claim C10. The parameter blocks that \<open>LsPixelReprojErr_Create\<close> declares are the ones
  \<open>updateLsModelTriPt\<close> reads: with \<open>0 \<le> begQuatIndex < endQuatIndex \<le> numQuat\<close>,
  \<open>0 \<le> begPosIndex < endPosIndex \<le> numPos\<close> and parameter blocks of the declared sizes,
  it returns normally (no access outside an array), there are exactly
  \<open>(endQuatIndex - begQuatIndex) + (endPosIndex - begPosIndex) + 1\<close> blocks, quaternion
  \<open>qi\<close> is read from block \<open>qi - begQuatIndex\<close>, position \<open>pi\<close> from block
  \<open>(endQuatIndex - begQuatIndex) + (pi - begPosIndex)\<close>, the triangulated point from the
  last block, and the arrays of the model copy keep their lengths and all other entries.
\<close>

theorem updateLsModelTriPt_matches_Create:
  assumes q: "0 \<le> begQuatIndex" "begQuatIndex < endQuatIndex"
      "endQuatIndex \<le> int (length (m_quaternions cam)) div NUM_QUAT_PARAMS"
    and p: "0 \<le> begPosIndex" "begPosIndex < endPosIndex"
      "endPosIndex \<le> int (length (m_positions cam)) div NUM_XYZ_PARAMS"
    and layout: "map (\<lambda>blk. int (length blk)) parameters
      = parameter_block_sizes (LsPixelReprojErr_Create observation weight ls_model
          begQuatIndex endQuatIndex begPosIndex endPosIndex)"
  shows "\<exists>cam' P.
      updateLsModelTriPt parameters begQuatIndex endQuatIndex begPosIndex endPosIndex cam
        = Inr ((endQuatIndex - begQuatIndex) + (endPosIndex - begPosIndex), cam', P)
    \<and> int (length parameters) = (endQuatIndex - begQuatIndex) + (endPosIndex - begPosIndex) + 1
    \<and> P = (last parameters ! 0, last parameters ! 1, last parameters ! 2)
    \<and> length (m_quaternions cam') = length (m_quaternions cam)
    \<and> length (m_positions cam') = length (m_positions cam)
    \<and> (\<forall>qi coord. begQuatIndex \<le> qi \<and> qi < endQuatIndex \<and> 0 \<le> coord \<and> coord < NUM_QUAT_PARAMS \<longrightarrow>
          m_quaternions cam' ! nat (NUM_QUAT_PARAMS * qi + coord)
            = parameters ! nat (qi - begQuatIndex) ! nat coord)
    \<and> (\<forall>i < length (m_quaternions cam).
          \<not> (NUM_QUAT_PARAMS * begQuatIndex \<le> int i \<and> int i < NUM_QUAT_PARAMS * endQuatIndex) \<longrightarrow>
          m_quaternions cam' ! i = m_quaternions cam ! i)
    \<and> (\<forall>pi coord. begPosIndex \<le> pi \<and> pi < endPosIndex \<and> 0 \<le> coord \<and> coord < NUM_XYZ_PARAMS \<longrightarrow>
          m_positions cam' ! nat (NUM_XYZ_PARAMS * pi + coord)
            = parameters ! nat ((endQuatIndex - begQuatIndex) + (pi - begPosIndex)) ! nat coord)
    \<and> (\<forall>i < length (m_positions cam).
          \<not> (NUM_XYZ_PARAMS * begPosIndex \<le> int i \<and> int i < NUM_XYZ_PARAMS * endPosIndex) \<longrightarrow>
          m_positions cam' ! i = m_positions cam ! i)"
proof -
  define nq where "nq = nat (endQuatIndex - begQuatIndex)"
  define np where "np = nat (endPosIndex - begPosIndex)"
  have nq: "int nq = endQuatIndex - begQuatIndex" and np: "int np = endPosIndex - begPosIndex"
    using q(2) p(2) by (simp_all add: nq_def np_def)
  have sizes: "map (\<lambda>blk. int (length blk)) parameters
      = replicate nq NUM_QUAT_PARAMS @ replicate np NUM_XYZ_PARAMS @ [NUM_XYZ_PARAMS]"
    using layout by (simp add: Create_sizes nq_def np_def)
  have "length (map (\<lambda>blk. int (length blk)) parameters) = nq + np + 1"
    unfolding sizes by simp
  then have len: "length parameters = nq + np + 1" by simp
  have sz: "int (length (parameters ! j)) = (replicate nq NUM_QUAT_PARAMS @ replicate np NUM_XYZ_PARAMS @ [NUM_XYZ_PARAMS]) ! j"
    if "j < nq + np + 1" for j
    using arg_cong [OF sizes, of "\<lambda>xs. xs ! j"] that len by simp
  have szq: "int (length (parameters ! j)) = NUM_QUAT_PARAMS" if "j < nq" for j
    using sz [of j] that by (simp add: nth_append)
  have szp: "int (length (parameters ! (nq + j))) = NUM_XYZ_PARAMS" if "j < np" for j
    using sz [of "nq + j"] that by (simp add: nth_append)
  have szt: "int (length (parameters ! (nq + np))) = NUM_XYZ_PARAMS"
    using sz [of "nq + np"] by (simp add: nth_append)
  have eq: "begQuatIndex + int nq = endQuatIndex" and ep: "begPosIndex + int np = endPosIndex"
    using nq np by simp_all
  have Q4: "NUM_QUAT_PARAMS * (begQuatIndex + int nq) \<le> int (length (m_quaternions cam))"
    unfolding eq using q(3) by (simp add: NUM_QUAT_PARAMS_def)
  have P3: "NUM_XYZ_PARAMS * (begPosIndex + int np) \<le> int (length (m_positions cam))"
    unfolding ep using p(3) by (simp add: NUM_XYZ_PARAMS_def)
  have bq: "\<forall>j. 0 \<le> j \<and> j < int nq \<longrightarrow> int (length (parameters ! nat (0 + j))) = NUM_QUAT_PARAMS"
    using szq by (simp add: nat_less_iff)
  have bp: "\<forall>j. 0 \<le> j \<and> j < int np \<longrightarrow> int (length (parameters ! nat (int nq + j))) = NUM_XYZ_PARAMS"
  proof (intro allI impI)
    fix j assume j: "0 \<le> j \<and> j < int np"
    then have "nat (int nq + j) = nq + nat j" by linarith
    then show "int (length (parameters ! nat (int nq + j))) = NUM_XYZ_PARAMS"
      using szp [of "nat j"] j by (simp add: nat_less_iff)
  qed
  have "0 < NUM_QUAT_PARAMS" by (simp add: NUM_QUAT_PARAMS_def)
  from copy_blocks [OF this q(1) Q4, of 0 parameters] bq len
  obtain quats where
    rq: "foldE (\<lambda>qi. foldE (\<lambda>coord. assign_param parameters (qi + 0 - begQuatIndex) coord
            (NUM_QUAT_PARAMS * qi + coord)) [0..NUM_QUAT_PARAMS - 1])
          [begQuatIndex..begQuatIndex + int nq - 1] (m_quaternions cam) = Inr quats"
    and lq: "length quats = length (m_quaternions cam)"
    and wq: "\<forall>qi coord. begQuatIndex \<le> qi \<and> qi < begQuatIndex + int nq \<and> 0 \<le> coord \<and> coord < NUM_QUAT_PARAMS \<longrightarrow>
          quats ! nat (NUM_QUAT_PARAMS * qi + coord) = parameters ! nat (qi + 0 - begQuatIndex) ! nat coord"
    and fq: "\<forall>i < length (m_quaternions cam).
          \<not> (NUM_QUAT_PARAMS * begQuatIndex \<le> int i \<and> int i < NUM_QUAT_PARAMS * (begQuatIndex + int nq)) \<longrightarrow>
          quats ! i = m_quaternions cam ! i"
    by auto
  have "0 < NUM_XYZ_PARAMS" by (simp add: NUM_XYZ_PARAMS_def)
  from copy_blocks [OF this p(1) P3, of "int nq" parameters] bp len
  obtain poss where
    rp: "foldE (\<lambda>pi. foldE (\<lambda>coord. assign_param parameters (pi + int nq - begPosIndex) coord
            (NUM_XYZ_PARAMS * pi + coord)) [0..NUM_XYZ_PARAMS - 1])
          [begPosIndex..begPosIndex + int np - 1] (m_positions cam) = Inr poss"
    and lp: "length poss = length (m_positions cam)"
    and wp: "\<forall>pi coord. begPosIndex \<le> pi \<and> pi < begPosIndex + int np \<and> 0 \<le> coord \<and> coord < NUM_XYZ_PARAMS \<longrightarrow>
          poss ! nat (NUM_XYZ_PARAMS * pi + coord) = parameters ! nat (pi + int nq - begPosIndex) ! nat coord"
    and fp: "\<forall>i < length (m_positions cam).
          \<not> (NUM_XYZ_PARAMS * begPosIndex \<le> int i \<and> int i < NUM_XYZ_PARAMS * (begPosIndex + int np)) \<longrightarrow>
          poss ! i = m_positions cam ! i"
    by auto
  have rx: "read_xyz parameters (int nq + int np)
      = Inr (last parameters ! 0, last parameters ! 1, last parameters ! 2)"
    using read_xyz_last [of "int nq + int np" parameters] len szt
    by (simp add: NUM_XYZ_PARAMS_def nat_add_distrib)
  have run: "updateLsModelTriPt parameters begQuatIndex endQuatIndex begPosIndex endPosIndex cam
      = Inr (int nq + int np, cam\<lparr>m_quaternions := quats, m_positions := poss\<rparr>,
             (last parameters ! 0, last parameters ! 1, last parameters ! 2))"
    unfolding updateLsModelTriPt_def Let_def
    using rq rp rx unfolding eq ep nq [symmetric] np [symmetric] by simp
  show ?thesis
    unfolding nq [symmetric] np [symmetric]
  proof (intro exI conjI)
    show "updateLsModelTriPt parameters begQuatIndex endQuatIndex begPosIndex endPosIndex cam
      = Inr (int nq + int np, cam\<lparr>m_quaternions := quats, m_positions := poss\<rparr>,
             (last parameters ! 0, last parameters ! 1, last parameters ! 2))" by (rule run)
    show "int (length parameters) = int nq + int np + 1" using len by simp
    show "(last parameters ! 0, last parameters ! 1, last parameters ! 2) = (last parameters ! 0, last parameters ! 1, last parameters ! 2)" ..
    show "length (m_quaternions (cam\<lparr>m_quaternions := quats, m_positions := poss\<rparr>)) = length (m_quaternions cam)"
      using lq by simp
    show "length (m_positions (cam\<lparr>m_quaternions := quats, m_positions := poss\<rparr>)) = length (m_positions cam)"
      using lp by simp
    show "\<forall>qi coord. begQuatIndex \<le> qi \<and> qi < endQuatIndex \<and> 0 \<le> coord \<and> coord < NUM_QUAT_PARAMS \<longrightarrow>
          m_quaternions (cam\<lparr>m_quaternions := quats, m_positions := poss\<rparr>) ! nat (NUM_QUAT_PARAMS * qi + coord)
            = parameters ! nat (qi - begQuatIndex) ! nat coord"
      using wq unfolding eq by simp
    show "\<forall>i < length (m_quaternions cam).
          \<not> (NUM_QUAT_PARAMS * begQuatIndex \<le> int i \<and> int i < NUM_QUAT_PARAMS * endQuatIndex) \<longrightarrow>
          m_quaternions (cam\<lparr>m_quaternions := quats, m_positions := poss\<rparr>) ! i = m_quaternions cam ! i"
      using fq unfolding eq by simp
    show "\<forall>pi coord. begPosIndex \<le> pi \<and> pi < endPosIndex \<and> 0 \<le> coord \<and> coord < NUM_XYZ_PARAMS \<longrightarrow>
          m_positions (cam\<lparr>m_quaternions := quats, m_positions := poss\<rparr>) ! nat (NUM_XYZ_PARAMS * pi + coord)
            = parameters ! nat (int nq + (pi - begPosIndex)) ! nat coord"
    proof (intro allI impI)
      fix pi coord
      assume a: "begPosIndex \<le> pi \<and> pi < endPosIndex \<and> 0 \<le> coord \<and> coord < NUM_XYZ_PARAMS"
      have e: "nat (pi + int nq - begPosIndex) = nat (int nq + (pi - begPosIndex))"
        by (simp add: algebra_simps)
      have "poss ! nat (NUM_XYZ_PARAMS * pi + coord) = parameters ! nat (pi + int nq - begPosIndex) ! nat coord"
        using wp a unfolding ep by blast
      then show "m_positions (cam\<lparr>m_quaternions := quats, m_positions := poss\<rparr>) ! nat (NUM_XYZ_PARAMS * pi + coord)
            = parameters ! nat (int nq + (pi - begPosIndex)) ! nat coord"
        unfolding e by simp
    qed
    show "\<forall>i < length (m_positions cam).
          \<not> (NUM_XYZ_PARAMS * begPosIndex \<le> int i \<and> int i < NUM_XYZ_PARAMS * endPosIndex) \<longrightarrow>
          m_positions (cam\<lparr>m_quaternions := quats, m_positions := poss\<rparr>) ! i = m_positions cam ! i"
      using fp unfolding ep by simp
  qed
qed

lemma example_update:
  "updateLsModelTriPt example_ls_parameters 1 2 0 1 example_ls_model
     = Inr (2, example_ls_model\<lparr>m_quaternions := [0, 0, 0, 1, 1, 2, 3, 4], m_positions := [5, 6, 7, 0, 0, 0]\<rparr>,
            (8, 9, 10))"
  by (simp add: updateLsModelTriPt_def example_ls_model_def example_ls_parameters_def
      NUM_QUAT_PARAMS_def NUM_XYZ_PARAMS_def upto.simps assign_param_def read_at_def
      write_at_def read_xyz_def)

theorem updateLsModelTriPt_matches_Create_witness:
  "(0::int) \<le> 1 \<and> (1::int) < 2 \<and> 2 \<le> int (length (m_quaternions example_ls_model)) div NUM_QUAT_PARAMS \<and>
   (0::int) \<le> 0 \<and> (0::int) < 1 \<and> 1 \<le> int (length (m_positions example_ls_model)) div NUM_XYZ_PARAMS \<and>
   map (\<lambda>blk. int (length blk)) example_ls_parameters
     = parameter_block_sizes (LsPixelReprojErr_Create (0, 0) 1 0 1 2 0 1) \<and>
   (\<exists>cam'. updateLsModelTriPt example_ls_parameters 1 2 0 1 example_ls_model = Inr (2, cam', (8, 9, 10)) \<and>
      m_quaternions cam' ! 4 = 1 \<and> m_quaternions cam' ! 0 = 0)"
proof -
  have h: "(0::int) \<le> 1" "(1::int) < 2"
    "2 \<le> int (length (m_quaternions example_ls_model)) div NUM_QUAT_PARAMS"
    "(0::int) \<le> 0" "(0::int) < 1"
    "1 \<le> int (length (m_positions example_ls_model)) div NUM_XYZ_PARAMS"
    "map (\<lambda>blk. int (length blk)) example_ls_parameters
       = parameter_block_sizes (LsPixelReprojErr_Create (0, 0) 1 0 1 2 0 1)"
    by (simp_all add: example_ls_model_def example_ls_parameters_def NUM_QUAT_PARAMS_def
        NUM_XYZ_PARAMS_def Create_sizes)
  from updateLsModelTriPt_matches_Create [OF h] obtain cam' P where
    r: "updateLsModelTriPt example_ls_parameters 1 2 0 1 example_ls_model = Inr (2 - 1 + (1 - 0), cam', P)"
    by blast
  then have "P = (8, 9, 10)" "m_quaternions cam' ! 4 = 1" "m_quaternions cam' ! 0 = 0"
    unfolding example_update by auto
  with r h show ?thesis by simp
qed

text \<open>
  Claim C2, as the code has it. In the linescan and in the frame reprojection residual,
  when the projection of the candidate point throws, both residual components are set
  to the fixed value 1000, not multiplied by the weight, and the evaluation returns
  success.
\<close>

theorem projection_failure_residuals:
  "(updateLsModelTriPt parameters begQuatIndex endQuatIndex begPosIndex endPosIndex ls_model
       = Inr (shift, cam, P) \<and> groundToImage cam P = None \<longrightarrow>
     LsPixelReprojErr_call groundToImage observation weight ls_model
         begQuatIndex endQuatIndex begPosIndex endPosIndex parameters
       = Inr (True, [1000, 1000])) \<and>
   (updateFrameModelTriPt frame_parameters frame_model = Inr (frame_cam, Q) \<and>
      frameGroundToImage frame_cam Q = None \<longrightarrow>
     FramePixelReprojErr_call frameGroundToImage observation weight frame_model frame_parameters
       = Inr (True, [1000, 1000]))"
  by (simp add: LsPixelReprojErr_call_def FramePixelReprojErr_call_def g_big_pixel_value_def)

lemma example_frame_update:
  "updateFrameModelTriPt example_frame_parameters example_frame_model
     = Inr (\<lparr>m_currentParameterValue = [5, 6, 7, 1, 2, 3, 4]\<rparr>, (8, 9, 10))"
  by (simp add: updateFrameModelTriPt_def example_frame_model_def example_frame_parameters_def
      setParameterValue_def NUM_QUAT_PARAMS_def NUM_XYZ_PARAMS_def upto.simps read_at_def
      write_at_def read_xyz_def)

theorem projection_failure_residuals_witness:
  "LsPixelReprojErr_call (\<lambda>cam P. None) (0, 0) 2 example_ls_model 1 2 0 1 example_ls_parameters
     = Inr (True, [1000, 1000]) \<and>
   FramePixelReprojErr_call (\<lambda>cam P. None) (0, 0) 2 example_frame_model example_frame_parameters
     = Inr (True, [1000, 1000])"
  using projection_failure_residuals [of example_ls_parameters 1 2 0 1 example_ls_model _ _ _
      "\<lambda>cam P. None" "(0, 0)" 2 example_frame_parameters example_frame_model _ _ "\<lambda>cam P. None"]
  by (simp add: example_update example_frame_update)

text \<open>
  Claim C2 as stated fails for every weight other than 1: with weight 2 and a failing
  projection the residuals are \<open>(1000, 1000)\<close>, not \<open>(2000, 2000)\<close>.
\<close>

theorem projection_failure_weight_counterexample:
  "LsPixelReprojErr_call (\<lambda>cam P. None) (0, 0) 2 example_ls_model 1 2 0 1 example_ls_parameters
     = Inr (True, [1000, 1000]) \<and>
   FramePixelReprojErr_call (\<lambda>cam P. None) (0, 0) 2 example_frame_model example_frame_parameters
     = Inr (True, [1000, 1000]) \<and>
   spec_failure_residuals 2 = [2000, 2000]"
  by (simp add: LsPixelReprojErr_call_def FramePixelReprojErr_call_def example_update
      example_frame_update g_big_pixel_value_def spec_failure_residuals_def)

subsection \<open>Quaternion-norm and triangulation constraints\<close>

lemma foldE_total:
  assumes "\<And>x s. x \<in> set xs \<Longrightarrow> body x s = Inr (g x s)"
  shows "foldE body xs s = Inr (fold g xs s)"
  using assms by (induction xs arbitrary: s) simp_all

lemma fold_append_state:
  "fold (\<lambda>x. append_state (W x) (B x)) xs (ws, p)
     = append_state (concat (map W xs)) (concat (map B xs)) (ws, p)"
  by (induction xs arbitrary: ws p) (simp_all add: append_state_def)

lemma push_back_n_replicate: "0 \<le> n \<Longrightarrow> push_back_n n w ws = ws @ replicate (nat n) w"
proof -
  have "fold (\<lambda>c ws. ws @ [w]) xs ws = ws @ replicate (length xs) w" for xs :: "int list" and ws
    by (induction xs arbitrary: ws) (simp_all add: replicate_app_Cons_same)
  then show "0 \<le> n \<Longrightarrow> push_back_n n w ws = ws @ replicate (nat n) w"
    by (simp add: push_back_n_def)
qed

lemma weightedQuatNormError_value:
  "weightedQuatNormError_call m_weight [x, y, z, w]
     = Inr (True, [m_weight * (x * x + y * y + z * z + w * w - 1)])"
  by (simp add: weightedQuatNormError_call_def NUM_QUAT_PARAMS_def upto.simps read_at_def)

lemma weightedXyzError_value:
  "weightedXyzError_call (ox, oy, oz) m_weight [px, py, pz]
     = Inr (True, [m_weight * (px - ox), m_weight * (py - oy), m_weight * (pz - oz)])"
  by (simp add: weightedXyzError_call_def weighted_difference_def upt_rec read_at_def)

lemma add_quat_norm_residual_eq:
  "add_quat_norm_residual w q s = Inr (append_state [w] [spec_quat_norm_block w q] s)"
  by (cases s) (simp add: add_quat_norm_residual_def append_state_def AddResidualBlock_def
      spec_quat_norm_block_def weightedQuatNormError_Create_def AutoDiffCostFunction_def
      NUM_QUAT_PARAMS_def)

lemma concat_singletons: "concat (map (\<lambda>x. [f x]) xs) = map f xs"
  by (induction xs) simp_all

lemma quat_norm_loop:
  "foldE (\<lambda>iq. add_quat_norm_residual w (f iq)) xs s
     = Inr (append_state (replicate (length xs) w) (map (\<lambda>iq. spec_quat_norm_block w (f iq)) xs) s)"
proof -
  obtain ws p where s: "s = (ws, p)" by (cases s)
  have "foldE (\<lambda>iq. add_quat_norm_residual w (f iq)) xs s
      = Inr (fold (\<lambda>iq. append_state [w] [spec_quat_norm_block w (f iq)]) xs s)"
    by (rule foldE_total) (rule add_quat_norm_residual_eq)
  then show ?thesis
    unfolding s fold_append_state by (simp add: concat_singletons map_replicate_const)
qed

lemma quat_norm_cam:
  assumes "0 \<le> icam" "icam < int (length csm_models)" "csm_models ! nat icam \<noteq> OtherModel"
  shows "quat_norm_constraint_cam csm_models w icam s
     = Inr (append_state (replicate (length (spec_quat_norm_blocks w csm_models icam)) w)
              (spec_quat_norm_blocks w csm_models icam) s)"
proof (cases "csm_models ! nat icam")
  case (LsModel ls)
  then show ?thesis
    using assms
    by (simp add: quat_norm_constraint_cam_def read_at_def Let_def quat_norm_loop
        spec_quat_norm_blocks_def NUM_QUAT_PARAMS_def)
next
  case (FrameModel fm)
  then show ?thesis using assms
    by (simp add: quat_norm_constraint_cam_def read_at_def Let_def add_quat_norm_residual_eq
        spec_quat_norm_blocks_def NUM_QUAT_PARAMS_def NUM_XYZ_PARAMS_def)
next
  case OtherModel
  then show ?thesis using assms by simp
qed

lemma replicate_concat_lengths:
  "concat (map (\<lambda>x. replicate (length (B x)) w) xs) = replicate (length (concat (map B xs))) w"
  by (induction xs) (simp_all add: replicate_add)

text \<open>
  Claim C9. The quaternion-norm weight has passed the option check (it is positive).
  Then, after the rotation section, \<open>addQuatNormRotationConstraints\<close> appends for every
  quaternion sample of every linescan camera and for the quaternion of every frame
  camera one residual block with the functor \<open>weightedQuatNormError quat_norm_weight\<close>,
  one residual, one parameter block of size 4 and no loss function, and records the
  weight once per block; the functor evaluates to \<open>quat_norm_weight * (|q|\<^sup>2 - 1)\<close>.
\<close>

theorem quat_norm_constraint_added:
  assumes chk: "check_quat_norm_weight quat_norm_weight = Inr ()"
    and n: "crn_size = int (length csm_models)"
    and known: "OtherModel \<notin> set csm_models"
    and rot: "rotation_section ext opt crn_size csm_models have_rig rig_cam_info frame_params state
        = Inr state1"
  shows "addQuatNormRotationConstraints ext opt crn_size csm_models have_rig rig_cam_info
           quat_norm_weight frame_params state
       = Inr (append_state
           (replicate (length (concat (map (spec_quat_norm_blocks quat_norm_weight csm_models)
              [0..crn_size - 1]))) quat_norm_weight)
           (concat (map (spec_quat_norm_blocks quat_norm_weight csm_models) [0..crn_size - 1]))
           state1) \<and>
     weightedQuatNormError_call quat_norm_weight [x, y, z, w]
       = Inr (True, [quat_norm_weight * (x * x + y * y + z * z + w * w - 1)])"
proof -
  have pos: "0 < quat_norm_weight"
    using chk by (simp add: check_quat_norm_weight_def split: if_splits)
  obtain ws p where s1: "state1 = (ws, p)" by (cases state1)
  have step: "quat_norm_constraint_cam csm_models quat_norm_weight icam s
      = Inr (append_state
          (replicate (length (spec_quat_norm_blocks quat_norm_weight csm_models icam)) quat_norm_weight)
          (spec_quat_norm_blocks quat_norm_weight csm_models icam) s)"
    if "icam \<in> set [0..crn_size - 1]" for icam s
  proof -
    have r: "0 \<le> icam" "icam < int (length csm_models)" using that n by simp_all
    then have "csm_models ! nat icam \<in> set csm_models" by simp
    then have "csm_models ! nat icam \<noteq> OtherModel" using known by metis
    from quat_norm_cam [OF r this] show ?thesis .
  qed
  have "foldE (quat_norm_constraint_cam csm_models quat_norm_weight) [0..crn_size - 1] state1
      = Inr (fold (\<lambda>icam. append_state
          (replicate (length (spec_quat_norm_blocks quat_norm_weight csm_models icam)) quat_norm_weight)
          (spec_quat_norm_blocks quat_norm_weight csm_models icam)) [0..crn_size - 1] state1)"
    by (rule foldE_total) (rule step)
  then have "quat_norm_section crn_size csm_models quat_norm_weight state1
      = Inr (fold (\<lambda>icam. append_state
          (replicate (length (spec_quat_norm_blocks quat_norm_weight csm_models icam)) quat_norm_weight)
          (spec_quat_norm_blocks quat_norm_weight csm_models icam)) [0..crn_size - 1] state1)"
    unfolding quat_norm_section_def using pos by simp
  then have "quat_norm_section crn_size csm_models quat_norm_weight state1
      = Inr (append_state
           (replicate (length (concat (map (spec_quat_norm_blocks quat_norm_weight csm_models)
              [0..crn_size - 1]))) quat_norm_weight)
           (concat (map (spec_quat_norm_blocks quat_norm_weight csm_models) [0..crn_size - 1]))
           state1)"
    unfolding s1 fold_append_state replicate_concat_lengths .
  then show ?thesis
    by (simp add: addQuatNormRotationConstraints_def rot weightedQuatNormError_value)
qed

lemma upto_0_1: "[0..(1::int)] = [0, 1]"
  by (simp add: upto.simps)

theorem quat_norm_constraint_added_witness:
  "check_quat_norm_weight 2 = Inr () \<and> (2::int) = int (length example_models) \<and>
   OtherModel \<notin> set example_models \<and>
   rotation_section example_ext example_opt 2 example_models False [] [] empty_state = Inr empty_state \<and>
   addQuatNormRotationConstraints example_ext example_opt 2 example_models False [] 2 [] empty_state
     = Inr ([2, 2, 2], \<lparr>residual_blocks =
              [spec_quat_norm_block 2 (QuatPtr 0 0), spec_quat_norm_block 2 (QuatPtr 0 4),
               spec_quat_norm_block 2 (FramePtr 10)],
            constant_blocks = []\<rparr>) \<and>
   weightedQuatNormError_call 2 [0, 0, 0, 2] = Inr (True, [6])"
proof -
  have h: "check_quat_norm_weight 2 = Inr ()" "(2::int) = int (length example_models)"
    "OtherModel \<notin> set example_models"
    "rotation_section example_ext example_opt 2 example_models False [] [] empty_state = Inr empty_state"
    by (simp_all add: check_quat_norm_weight_def example_models_def rotation_section_def
        example_opt_def)
  have b: "concat (map (spec_quat_norm_blocks 2 example_models) [0..2 - 1])
      = [spec_quat_norm_block 2 (QuatPtr 0 0), spec_quat_norm_block 2 (QuatPtr 0 4),
         spec_quat_norm_block 2 (FramePtr 10)]"
    by (simp add: upto_0_1 spec_quat_norm_blocks_def example_models_def example_ls_model_def)
  show ?thesis
    using quat_norm_constraint_added [OF h, where x = 0 and y = 0 and z = 0 and w = 2] h
    unfolding b by (simp add: append_state_def empty_state_def numeral_3_eq_3)
qed

lemma tri_point_step:
  assumes len: "length gsds = length cnet" "3 * length cnet \<le> length tri_points_vec"
    and i: "ipt \<in> set [0..int (length cnet) - 1]"
  shows "tri_constraint_point opt outliers cnet gsds tri_points_vec ipt s
     = Inr (append_state
         (if spec_tri_constrained outliers cnet gsds ipt then replicate 3 (tri_weight opt) else [])
         (if spec_tri_constrained outliers cnet gsds ipt
          then [spec_tri_block opt gsds tri_points_vec ipt] else []) s)"
proof -
  obtain ws p where s: "s = (ws, p)" by (cases s)
  have r: "0 \<le> ipt" "ipt < int (length cnet)" using i by simp_all
  have rp: "read_point tri_points_vec (ipt * 3)
      = Inr (tri_points_vec ! nat (3 * ipt), tri_points_vec ! nat (3 * ipt + 1),
             tri_points_vec ! nat (3 * ipt + 2))"
    using r len(2) by (simp add: read_point_def read_at_def mult.commute)
  show ?thesis
    unfolding s tri_constraint_point_def
    using r len(1) rp
    by (simp add: read_at_def spec_tri_constrained_def append_state_def Let_def
        NUM_XYZ_PARAMS_def push_back_n_replicate numeral_3_eq_3 spec_tri_block_def
        AddResidualBlock_def weightedXyzError_Create_def AutoDiffCostFunction_def mult.commute)
qed

text \<open>
  Claim C6. With a GSD for every point of the control network, \<open>addTriConstraint\<close>
  returns normally and appends, in the order of the points, one residual block for each
  point that is not an outlier, neither a ground control point nor a point from the
  DEM, and has a positive GSD: the functor \<open>weightedXyzError\<close> with the point's initial
  coordinates as observation and the weight \<open>tri_weight / gsd\<close>, a Cauchy loss at
  \<open>tri_robust_threshold\<close>, bound to the point. No block is added for any other point.
  The functor evaluates to \<open>weight * (point - observation)\<close>, three components.
\<close>

theorem tri_constraint_added:
  assumes len: "length gsds = length cnet" "3 * length cnet \<le> length tri_points_vec"
  shows "addTriConstraint opt outliers cnet gsds tri_points_vec state
       = Inr (append_state
           (concat (map (\<lambda>ipt. if spec_tri_constrained outliers cnet gsds ipt
                                then replicate 3 (tri_weight opt) else [])
              [0..int (length cnet) - 1]))
           (concat (map (\<lambda>ipt. if spec_tri_constrained outliers cnet gsds ipt
                                then [spec_tri_block opt gsds tri_points_vec ipt] else [])
              [0..int (length cnet) - 1]))
           state) \<and>
     weightedXyzError_call (ox, oy, oz) weight [px, py, pz]
       = Inr (True, [weight * (px - ox), weight * (py - oy), weight * (pz - oz)])"
proof -
  obtain ws p where s: "state = (ws, p)" by (cases state)
  have "foldE (tri_constraint_point opt outliers cnet gsds tri_points_vec)
          [0..int (length cnet) - 1] state
      = Inr (fold (\<lambda>ipt. append_state
         (if spec_tri_constrained outliers cnet gsds ipt then replicate 3 (tri_weight opt) else [])
         (if spec_tri_constrained outliers cnet gsds ipt
          then [spec_tri_block opt gsds tri_points_vec ipt] else [])) [0..int (length cnet) - 1] state)"
    by (rule foldE_total) (rule tri_point_step [OF len])
  then show ?thesis
    unfolding s fold_append_state addTriConstraint_def Let_def
    by (simp add: weightedXyzError_value)
qed

lemma upto_0_2: "[0..(2::int)] = [0, 1, 2]"
  by (simp add: upto.simps)

theorem tri_constraint_added_witness:
  "length [2, 1, 0 :: real] = length example_cnet \<and>
   3 * length example_cnet \<le> length example_tri_points_vec \<and>
   addTriConstraint example_opt {} example_cnet [2, 1, 0] example_tri_points_vec empty_state
     = Inr ([1/10, 1/10, 1/10],
            \<lparr>residual_blocks =
               [\<lparr>cost = \<lparr>functor_of = weightedXyzError (1, 2, 3) (1/20), num_residuals = 3,
                          parameter_block_sizes = [3]\<rparr>,
                 loss = CauchyLoss (1/10), vars = [TriPtr 0]\<rparr>],
             constant_blocks = []\<rparr>) \<and>
   weightedXyzError_call (1, 2, 3) (1/20) [21, 2, 3] = Inr (True, [1, 0, 0])"
proof -
  have h: "length [2, 1, 0 :: real] = length example_cnet"
    "3 * length example_cnet \<le> length example_tri_points_vec"
    by (simp_all add: example_cnet_def example_tri_points_vec_def)
  show ?thesis
    using tri_constraint_added [OF h, of example_opt "{}" empty_state 1 2 3 "1/20" 21 2 3] h
    by (simp add: example_cnet_def upto_0_2 spec_tri_constrained_def spec_tri_block_def
        example_opt_def example_tri_points_vec_def append_state_def empty_state_def
        numeral_3_eq_3)
qed

subsection \<open>Anchor points\<close>

lemma foldE_union:
  assumes "foldE body xs s = Inr s'"
    and "\<And>x s s'. x \<in> set xs \<Longrightarrow> body x s = Inr s' \<Longrightarrow> Q s' = Q s \<union> G x"
  shows "Q s' = Q s \<union> (\<Union>x \<in> set xs. G x)"
  using assms
proof (induction xs arbitrary: s)
  case Nil
  then show ?case by simp
next
  case (Cons x xs)
  from Cons.prems(1) obtain s1 where b: "body x s = Inr s1" and r: "foldE body xs s1 = Inr s'"
    by (auto split: sum.splits)
  have "Q s1 = Q s \<union> G x" using Cons.prems(2) [OF _ b] by simp
  moreover have "Q s' = Q s1 \<union> (\<Union>x \<in> set xs. G x)"
    using Cons.IH [OF r] Cons.prems(2) by simp
  ultimately show ?case by auto
qed

lemma read_at_Inr: "read_at xs i = Inr v \<Longrightarrow> v = xs ! nat i"
  by (simp add: read_at_def split: if_splits)

lemma read2_Inr: "read2 xss i j = Inr v \<Longrightarrow> v = xss ! nat i ! nat j"
  by (auto simp: read2_def split: sum.splits dest: read_at_Inr)

lemma addLsReprojectionErr_constant:
  "addLsReprojectionErr ext opt icam ls obs tri w problem = Inr problem'
     \<Longrightarrow> constant_blocks problem' = constant_blocks problem"
  by (auto simp: addLsReprojectionErr_def Let_def AddResidualBlock_def split: sum.splits prod.splits)

lemma addCamReprojectionErr_constant:
  "addCamReprojectionErr ext opt icam model obs tri w problem = Inr problem'
     \<Longrightarrow> constant_blocks problem' = constant_blocks problem"
  by (cases model)
    (auto simp: addCamReprojectionErr_def addFrameReprojectionErr_def Let_def AddResidualBlock_def
      dest: addLsReprojectionErr_constant)

lemma add_rig_block_constant:
  "add_rig_block r problem = Inr problem' \<Longrightarrow> constant_blocks problem' = constant_blocks problem"
  by (auto simp: add_rig_block_def split: sum.splits)

lemma addObservationReprojectionErr_constant:
  "addObservationReprojectionErr ext opt csm_models have_rig rig_cam_info icam obs tri w problem
       = Inr problem'
     \<Longrightarrow> constant_blocks problem' = constant_blocks problem"
  unfolding addObservationReprojectionErr_def Let_def
  by (auto split: sum.splits if_splits gm_model.splits
      dest: addCamReprojectionErr_constant add_rig_block_constant)

lemma reproj_pixel_constant:
  assumes "reproj_pixel ext opt pixel_vec weight_vec isAnchor_vec pix2xyz_index csm_models have_rig
       rig_cam_info tri_points_vec pass icam ipix s = Inr s'"
  shows "set (constant_blocks (fst (snd s'))) = set (constant_blocks (fst (snd s))) \<union>
      (if isAnchor_vec ! nat icam ! nat ipix \<noteq> 0 \<and> pass = 1
       then {TriPtr (3 * (pix2xyz_index ! nat icam ! nat ipix))} else {})"
proof -
  obtain ws p t where s: "s = (ws, p, t)" by (cases s)
  show ?thesis
    using assms unfolding s reproj_pixel_def Let_def
    by (auto split: sum.splits if_splits option.splits
        simp: SetParameterBlockConstant_def
        dest!: read2_Inr addObservationReprojectionErr_constant)
qed

lemma reproj_cam_constant:
  assumes "reproj_cam ext opt pixel_vec weight_vec isAnchor_vec pix2xyz_index csm_models have_rig
       rig_cam_info tri_points_vec pass icam s = Inr s'"
  shows "set (constant_blocks (fst (snd s'))) = set (constant_blocks (fst (snd s))) \<union>
      (\<Union>ipix \<in> set [0..int (length (pixel_vec ! nat icam)) - 1].
         if isAnchor_vec ! nat icam ! nat ipix \<noteq> 0 \<and> pass = 1
         then {TriPtr (3 * (pix2xyz_index ! nat icam ! nat ipix))} else {})"
proof -
  obtain ws p wpc cpc where s: "s = (ws, p, wpc, cpc)" by (cases s)
  from assms obtain pixels t where px: "read_at pixel_vec icam = Inr pixels"
    and loop: "foldE (reproj_pixel ext opt pixel_vec weight_vec isAnchor_vec pix2xyz_index csm_models
                      have_rig rig_cam_info tri_points_vec pass icam)
               [0..int (length pixels) - 1] (ws, p, []) = Inr t"
    and p': "fst (snd s') = fst (snd t)"
    unfolding s reproj_cam_def by (auto split: sum.splits prod.splits)
  have pixels: "pixels = pixel_vec ! nat icam" using px by (rule read_at_Inr)
  have "set (constant_blocks (fst (snd t))) = set (constant_blocks (fst (snd (ws, p, ([]::real list))))) \<union>
      (\<Union>ipix \<in> set [0..int (length pixels) - 1].
         if isAnchor_vec ! nat icam ! nat ipix \<noteq> 0 \<and> pass = 1
         then {TriPtr (3 * (pix2xyz_index ! nat icam ! nat ipix))} else {})"
    by (rule foldE_union [OF loop]) (rule reproj_pixel_constant)
  then show ?thesis unfolding p' s pixels by simp
qed

lemma reproj_pass_constant:
  assumes "reproj_pass ext opt crn_size pixel_vec weight_vec isAnchor_vec pix2xyz_index csm_models
       have_rig rig_cam_info tri_points_vec pass s = Inr s'"
  shows "set (constant_blocks (fst (snd s'))) = set (constant_blocks (fst (snd s))) \<union>
      (\<Union>icam \<in> set [0..crn_size - 1].
       \<Union>ipix \<in> set [0..int (length (pixel_vec ! nat icam)) - 1].
         if isAnchor_vec ! nat icam ! nat ipix \<noteq> 0 \<and> pass = 1
         then {TriPtr (3 * (pix2xyz_index ! nat icam ! nat ipix))} else {})"
proof -
  obtain ws p wpc cpc where s: "s = (ws, p, wpc, cpc)" by (cases s)
  from assms obtain wpc1 cpc1 where
    loop: "foldE (reproj_cam ext opt pixel_vec weight_vec isAnchor_vec pix2xyz_index csm_models
                    have_rig rig_cam_info tri_points_vec pass)
             [0..crn_size - 1] (ws, p, wpc1, cpc1) = Inr s'"
    unfolding s reproj_pass_def Let_def by (auto split: sum.splits)
  have "set (constant_blocks (fst (snd s'))) = set (constant_blocks (fst (snd (ws, p, wpc1, cpc1)))) \<union>
      (\<Union>icam \<in> set [0..crn_size - 1].
       \<Union>ipix \<in> set [0..int (length (pixel_vec ! nat icam)) - 1].
         if isAnchor_vec ! nat icam ! nat ipix \<noteq> 0 \<and> pass = 1
         then {TriPtr (3 * (pix2xyz_index ! nat icam ! nat ipix))} else {})"
    by (rule foldE_union [OF loop]) (rule reproj_cam_constant)
  then show ?thesis unfolding s by simp
qed

lemma addReprojCamErrs_constant:
  assumes "addReprojCamErrs ext opt crn_size pixel_vec weight_vec isAnchor_vec pix2xyz_index
       csm_models have_rig rig_cam_info tri_points_vec s = Inr s'"
  shows "set (constant_blocks (fst (snd s'))) = set (constant_blocks (fst (snd s))) \<union>
      spec_anchor_points crn_size pixel_vec isAnchor_vec pix2xyz_index"
proof -
  obtain ws p wpc cpc where s: "s = (ws, p, wpc, cpc)" by (cases s)
  from assms have
    loop: "foldE (reproj_pass ext opt crn_size pixel_vec weight_vec isAnchor_vec pix2xyz_index
                    csm_models have_rig rig_cam_info tri_points_vec)
             [0..2 - 1] (ws, p, resize 2 [] wpc, resize 2 [] cpc) = Inr s'"
    unfolding s addReprojCamErrs_def Let_def by simp
  have "set (constant_blocks (fst (snd s')))
      = set (constant_blocks (fst (snd (ws, p, resize 2 [] wpc, resize 2 [] cpc)))) \<union>
      (\<Union>pass \<in> set [0..2 - 1].
       \<Union>icam \<in> set [0..crn_size - 1].
       \<Union>ipix \<in> set [0..int (length (pixel_vec ! nat icam)) - 1].
         if isAnchor_vec ! nat icam ! nat ipix \<noteq> 0 \<and> pass = 1
         then {TriPtr (3 * (pix2xyz_index ! nat icam ! nat ipix))} else {})"
    by (rule foldE_union [OF loop]) (rule reproj_pass_constant)
  also have "(\<Union>pass \<in> set [0..2 - 1].
       \<Union>icam \<in> set [0..crn_size - 1].
       \<Union>ipix \<in> set [0..int (length (pixel_vec ! nat icam)) - 1].
         if isAnchor_vec ! nat icam ! nat ipix \<noteq> 0 \<and> pass = 1
         then {TriPtr (3 * (pix2xyz_index ! nat icam ! nat ipix))} else {})
      = spec_anchor_points crn_size pixel_vec isAnchor_vec pix2xyz_index"
    unfolding spec_anchor_points_def by (simp add: upto_0_1)
  finally show ?thesis unfolding s by simp
qed

text \<open>
  Claim C4. When \<open>addReprojCamErrs\<close> returns, the parameter blocks it has marked
  constant are exactly the triangulated points of the observations flagged as anchors
  (besides the blocks that were constant before): no other triangulated point and no
  pose block is marked. The solver leaves a constant block as it was, so every anchor
  point has after the solve the coordinates it had before.
\<close>

theorem anchor_points_constant:
  assumes "addReprojCamErrs ext opt crn_size pixel_vec weight_vec isAnchor_vec pix2xyz_index
       csm_models have_rig rig_cam_info tri_points_vec
       (weight_per_residual, problem, weight_per_cam, count_per_cam)
     = Inr (weight_per_residual', problem', weight_per_cam', count_per_cam')"
  shows "set (constant_blocks problem') = set (constant_blocks problem) \<union>
           spec_anchor_points crn_size pixel_vec isAnchor_vec pix2xyz_index \<and>
         (\<forall>before after. solve_keeps_constant problem' before after \<longrightarrow>
            (\<forall>tri_point \<in> spec_anchor_points crn_size pixel_vec isAnchor_vec pix2xyz_index.
               after tri_point = before tri_point))"
  using addReprojCamErrs_constant [OF assms] by (simp add: solve_keeps_constant_def)

lemma example_reproj_run:
  "addReprojCamErrs example_ext example_opt 2 example_pixel_vec example_weight_vec
     example_isAnchor_vec example_pix2xyz_index example_models False [] [1, 2, 3, 4, 5, 6]
     ([], \<lparr>residual_blocks = [], constant_blocks = []\<rparr>, [[], []], [[], []])
   = Inr ([1, 1, 1, 1, 3, 3], example_reproj_problem, [[1, 1], [0, 3]], [[1, 1], [0, 1]])"
  by code_simp

theorem anchor_points_constant_witness:
  "addReprojCamErrs example_ext example_opt 2 example_pixel_vec example_weight_vec
     example_isAnchor_vec example_pix2xyz_index example_models False [] [1, 2, 3, 4, 5, 6]
     ([], \<lparr>residual_blocks = [], constant_blocks = []\<rparr>, [[], []], [[], []])
   = Inr ([1, 1, 1, 1, 3, 3], example_reproj_problem, [[1, 1], [0, 3]], [[1, 1], [0, 1]]) \<and>
   spec_anchor_points 2 example_pixel_vec example_isAnchor_vec example_pix2xyz_index = {TriPtr 3} \<and>
   solve_keeps_constant example_reproj_problem example_before example_after \<and>
   example_after (TriPtr 3) = example_before (TriPtr 3) \<and>
   example_after (TriPtr 0) \<noteq> example_before (TriPtr 0)"
proof -
  have k: "solve_keeps_constant example_reproj_problem example_before example_after"
    by (simp add: solve_keeps_constant_def example_reproj_problem_def example_before_def
        example_after_def)
  have "set (constant_blocks example_reproj_problem) = {TriPtr 3}"
    by (simp add: example_reproj_problem_def)
  with anchor_points_constant [OF example_reproj_run] k example_reproj_run
  show ?thesis by (simp add: example_before_def example_after_def)
qed

subsection \<open>The camera position constraint\<close>

lemma add_translation_residual_eq:
  "add_translation_residual init wt th position s
     = Inr (append_state (replicate 3 wt) [spec_translation_block init wt th position] s)"
  by (cases s) (simp add: add_translation_residual_def append_state_def AddResidualBlock_def
      spec_translation_block_def weightedTranslationError_Create_def AutoDiffCostFunction_def
      NUM_XYZ_PARAMS_def push_back_n_replicate numeral_3_eq_3)

lemma concat_replicate_const: "concat (map (\<lambda>x. replicate k w) xs) = replicate (k * length xs) w"
  by (induction xs) (simp_all add: replicate_add)

lemma weightedTranslationError_value:
  "weightedTranslationError_call [ix, iy, iz] m_weight [px, py, pz]
     = Inr (True, [m_weight * (px - ix), m_weight * (py - iy), m_weight * (pz - iz)])"
  by (simp add: weightedTranslationError_call_def weighted_difference_def upt_rec read_at_def)

lemma position_loop:
  assumes "numPos = int (length positions) div 3"
  shows "foldE (\<lambda>ip state.
             case read_slice positions (ip * 3) 3 of
               Inl e \<Rightarrow> Inl e
             | Inr init_position \<Rightarrow>
                 add_translation_residual init_position wt th (PosPtr icam (ip * 3)) state)
           [0..numPos - 1] s
       = Inr (append_state (replicate (3 * nat numPos) wt)
           (map (\<lambda>ip. spec_translation_block (take 3 (drop (nat (ip * 3)) positions)) wt th
                         (PosPtr icam (ip * 3)))
              [0..numPos - 1]) s)"
proof -
  let ?B = "\<lambda>ip. spec_translation_block (take 3 (drop (nat (ip * 3)) positions)) wt th
                         (PosPtr icam (ip * 3))"
  obtain ws p where s: "s = (ws, p)" by (cases s)
  have body: "(case read_slice positions (ip * 3) 3 of
               Inl e \<Rightarrow> Inl e
             | Inr init_position \<Rightarrow>
                 add_translation_residual init_position wt th (PosPtr icam (ip * 3)) t)
       = Inr (append_state (replicate 3 wt) [?B ip] t)"
    if "ip \<in> set [0..numPos - 1]" for ip t
  proof -
    have "0 \<le> ip" "ip + 1 \<le> int (length positions) div 3" using that assms by simp_all
    then have "0 \<le> ip * 3" "ip * 3 + 3 \<le> int (length positions)" by linarith+
    then have "read_slice positions (ip * 3) 3 = Inr (take 3 (drop (nat (ip * 3)) positions))"
      by (simp add: read_slice_def)
    then show ?thesis by (simp add: add_translation_residual_eq)
  qed
  have "foldE (\<lambda>ip state.
             case read_slice positions (ip * 3) 3 of
               Inl e \<Rightarrow> Inl e
             | Inr init_position \<Rightarrow>
                 add_translation_residual init_position wt th (PosPtr icam (ip * 3)) state)
           [0..numPos - 1] s
       = Inr (fold (\<lambda>ip. append_state (replicate 3 wt) [?B ip]) [0..numPos - 1] s)"
    by (rule foldE_total) (rule body)
  then show ?thesis
    unfolding s fold_append_state
    by (simp add: concat_singletons concat_replicate_const)
qed

lemma cam_position_ls:
  assumes "skip_non_ref ext have_rig rig_cam_info icam = Inr False"
    and "read2 weight_per_cam pass icam = Inr median_wt"
    and "read2 count_per_cam pass icam = Inr count" "0 < count"
    and "read_at csm_models icam = Inr (LsModel ls_model)"
    and "numPos = int (length (m_positions ls_model)) div 3"
    and "wt = sqrt count * median_wt / sqrt (real_of_int numPos)"
    and "th = sqrt count * camera_position_robust_threshold opt / sqrt (real_of_int numPos)"
  shows "cam_position_constraint_cam ext opt csm_models weight_per_cam count_per_cam have_rig
           rig_cam_info frame_params pass icam state
       = Inr (append_state (replicate (3 * nat numPos) wt)
           (map (\<lambda>ip. spec_translation_block (take 3 (drop (nat (ip * 3)) (m_positions ls_model)))
                         wt th (PosPtr (nat icam) (ip * 3)))
              [0..numPos - 1]) state)"
  using assms(1-5) unfolding cam_position_constraint_cam_def assms(7,8) NUM_XYZ_PARAMS_def Let_def
    mult.right_neutral assms(6)
  by (simp add: position_loop [OF refl])

lemma cam_position_frame:
  assumes "skip_non_ref ext have_rig rig_cam_info icam = Inr False"
    and "read2 weight_per_cam pass icam = Inr median_wt"
    and "read2 count_per_cam pass icam = Inr count" "0 < count"
    and "read_at csm_models icam = Inr (FrameModel frame_model)"
    and "0 \<le> icam" "icam * 7 + 3 \<le> int (length frame_params)"
    and "wt = sqrt count * median_wt"
    and "th = sqrt count * camera_position_robust_threshold opt"
  shows "cam_position_constraint_cam ext opt csm_models weight_per_cam count_per_cam have_rig
           rig_cam_info frame_params pass icam state
       = Inr (append_state (replicate 3 wt)
           [spec_translation_block (take 3 (drop (nat (icam * 7)) frame_params)) wt th
              (FramePtr (icam * 7))] state)"
  using assms(1-7) unfolding cam_position_constraint_cam_def assms(8,9) NUM_XYZ_PARAMS_def
    NUM_QUAT_PARAMS_def Let_def mult.right_neutral
  by (simp add: read_slice_def add_translation_residual_eq)

lemma write2_read2:
  assumes "write2 xss i j v = Inr xss'"
  shows "read2 xss' i j = Inr v"
proof -
  from assms have i: "0 \<le> i" "i < int (length xss)"
    by (auto simp: write2_def read_at_def split: if_splits)
  with assms have j: "0 \<le> j" "j < int (length (xss ! nat i))"
    by (auto simp: write2_def read_at_def write_at_def split: if_splits)
  from assms i j have "xss' = xss[nat i := (xss ! nat i)[nat j := v]]"
    by (simp add: write2_def read_at_def write_at_def)
  with i j show ?thesis by (simp add: read2_def read_at_def)
qed

lemma record_cam_weights_reads:
  assumes "record_cam_weights ext pass icam ws (wpc, cpc) = Inr (wpc', cpc')"
  shows "read2 cpc' pass icam = Inr (real (length ws)) \<and>
         read2 wpc' pass icam = Inr (if ws = [] then 0 else destructive_median ext ws)"
proof -
  from assms obtain count where
    c: "write2 cpc pass icam (real (length ws)) = Inr cpc'"
    and r: "read2 cpc' pass icam = Inr count"
    and w: "write2 wpc pass icam (if count > 0 then destructive_median ext ws else 0) = Inr wpc'"
    unfolding record_cam_weights_def by (simp split: sum.splits)
  have count: "count = real (length ws)" using write2_read2 [OF c] r by simp
  have "read2 wpc' pass icam = Inr (if count > 0 then destructive_median ext ws else 0)"
    by (rule write2_read2 [OF w])
  then show ?thesis using write2_read2 [OF c] unfolding count by simp
qed

lemma read_point_Inr:
  "read_point v off = Inr p \<Longrightarrow> p = (v ! nat off, v ! nat (off + 1), v ! nat (off + 2))"
  by (auto simp: read_point_def split: sum.splits dest!: read_at_Inr)

lemma addObservationReprojectionErr_model:
  "addObservationReprojectionErr ext opt csm_models have_rig rig_cam_info icam obs tri w problem
       = Inr problem'
     \<Longrightarrow> \<exists>m. read_at csm_models icam = Inr m \<and> m \<noteq> OtherModel"
  unfolding addObservationReprojectionErr_def Let_def
  by (auto split: sum.splits if_splits gm_model.splits simp: addCamReprojectionErr_def)

lemma reproj_pixel_weights:
  assumes "reproj_pixel ext opt pixel_vec weight_vec isAnchor_vec pix2xyz_index csm_models have_rig
       rig_cam_info tri_points_vec pass icam ipix (ws, p, t) = Inr (ws', p', t')"
  shows "t' = t @ spec_observation_weight ext opt pixel_vec weight_vec isAnchor_vec pix2xyz_index
                    tri_points_vec pass icam ipix \<and>
         (spec_observation_weight ext opt pixel_vec weight_vec isAnchor_vec pix2xyz_index
                    tri_points_vec pass icam ipix \<noteq> []
            \<longrightarrow> (\<exists>m. read_at csm_models icam = Inr m \<and> m \<noteq> OtherModel))"
  using assms unfolding reproj_pixel_def spec_observation_weight_def Let_def
  by (auto split: sum.splits if_splits option.splits
      dest!: read2_Inr read_point_Inr addObservationReprojectionErr_model)


lemma reproj_pixel_loop:
  assumes "foldE (reproj_pixel ext opt pixel_vec weight_vec isAnchor_vec pix2xyz_index csm_models
              have_rig rig_cam_info tri_points_vec pass icam) xs (ws, p, t) = Inr (ws', p', t')"
  shows "t' = t @ concat (map (spec_observation_weight ext opt pixel_vec weight_vec isAnchor_vec
                    pix2xyz_index tri_points_vec pass icam) xs) \<and>
         (concat (map (spec_observation_weight ext opt pixel_vec weight_vec isAnchor_vec
                    pix2xyz_index tri_points_vec pass icam) xs) \<noteq> []
            \<longrightarrow> (\<exists>m. read_at csm_models icam = Inr m \<and> m \<noteq> OtherModel))"
  using assms
proof (induction xs arbitrary: ws p t)
  case Nil
  then show ?case by simp
next
  case (Cons x xs)
  from Cons.prems obtain ws1 p1 t1 where
    b: "reproj_pixel ext opt pixel_vec weight_vec isAnchor_vec pix2xyz_index csm_models
              have_rig rig_cam_info tri_points_vec pass icam x (ws, p, t) = Inr (ws1, p1, t1)"
    and r: "foldE (reproj_pixel ext opt pixel_vec weight_vec isAnchor_vec pix2xyz_index csm_models
              have_rig rig_cam_info tri_points_vec pass icam) xs (ws1, p1, t1) = Inr (ws', p', t')"
    by (auto split: sum.splits)
  from reproj_pixel_weights [OF b] Cons.IH [OF r] show ?case by auto
qed

lemma write2_frame:
  assumes "write2 xss i j v = Inr xss'" and "(q, k) \<noteq> (i, j)"
  shows "read2 xss' q k = read2 xss q k"
proof -
  from assms(1) have i: "0 \<le> i" "i < int (length xss)"
    by (auto simp: write2_def read_at_def split: if_splits)
  with assms(1) have j: "0 \<le> j" "j < int (length (xss ! nat i))"
    by (auto simp: write2_def read_at_def write_at_def split: if_splits)
  from assms(1) i j have x: "xss' = xss[nat i := (xss ! nat i)[nat j := v]]"
    by (simp add: write2_def read_at_def write_at_def)
  show ?thesis
  proof (cases "q = i")
    case True
    with assms(2) have "k \<noteq> j" by simp
    then have "0 \<le> k \<Longrightarrow> nat j \<noteq> nat k" using j by simp
    then show ?thesis using i j True unfolding x by (auto simp: read2_def read_at_def)
  next
    case False
    then have "0 \<le> q \<Longrightarrow> nat i \<noteq> nat q" using i by simp
    then show ?thesis using i unfolding x by (auto simp: read2_def read_at_def)
  qed
qed

lemma record_cam_weights_frame:
  assumes "record_cam_weights ext pass icam ws (wpc, cpc) = Inr (wpc', cpc')"
    and "(q, k) \<noteq> (pass, icam)"
  shows "read2 cpc' q k = read2 cpc q k \<and> read2 wpc' q k = read2 wpc q k"
proof -
  from assms(1) obtain count :: real where
    c: "write2 cpc pass icam (real (length ws)) = Inr cpc'"
    and w: "write2 wpc pass icam (if count > 0 then destructive_median ext ws else 0) = Inr wpc'"
    unfolding record_cam_weights_def by (auto split: sum.splits)
  show ?thesis using write2_frame [OF c assms(2)] write2_frame [OF w assms(2)] by simp
qed

lemma reproj_cam_records:
  fixes ext opt pixel_vec weight_vec isAnchor_vec pix2xyz_index tri_points_vec pass icam
  defines "pw \<equiv> spec_position_weights ext opt pixel_vec weight_vec isAnchor_vec pix2xyz_index
                   tri_points_vec pass icam"
  assumes "reproj_cam ext opt pixel_vec weight_vec isAnchor_vec pix2xyz_index csm_models have_rig
       rig_cam_info tri_points_vec pass icam (ws, p, wpc, cpc) = Inr (ws', p', wpc', cpc')"
  shows "read2 cpc' pass icam = Inr (real (length pw))"
    and "read2 wpc' pass icam = Inr (if pw = [] then 0 else destructive_median ext pw)"
    and "pw \<noteq> [] \<Longrightarrow> \<exists>m. read_at csm_models icam = Inr m \<and> m \<noteq> OtherModel"
    and "(q, k) \<noteq> (pass, icam) \<Longrightarrow> read2 cpc' q k = read2 cpc q k \<and> read2 wpc' q k = read2 wpc q k"
proof -
  from assms(2) obtain pixels ws1 p1 t where px: "read_at pixel_vec icam = Inr pixels"
    and loop: "foldE (reproj_pixel ext opt pixel_vec weight_vec isAnchor_vec pix2xyz_index csm_models
                      have_rig rig_cam_info tri_points_vec pass icam)
               [0..int (length pixels) - 1] (ws, p, []) = Inr (ws1, p1, t)"
    and rec: "record_cam_weights ext pass icam t (wpc, cpc) = Inr (wpc', cpc')"
    unfolding reproj_cam_def by (auto split: sum.splits prod.splits)
  have pixels: "pixels = pixel_vec ! nat icam" using px by (rule read_at_Inr)
  have t: "t = pw"
    using reproj_pixel_loop [OF loop] unfolding pw_def spec_position_weights_def pixels by simp
  show "read2 cpc' pass icam = Inr (real (length pw))"
    and "read2 wpc' pass icam = Inr (if pw = [] then 0 else destructive_median ext pw)"
    using record_cam_weights_reads [OF rec] unfolding t by simp_all
  show "pw \<noteq> [] \<Longrightarrow> \<exists>m. read_at csm_models icam = Inr m \<and> m \<noteq> OtherModel"
    using reproj_pixel_loop [OF loop] unfolding pw_def spec_position_weights_def pixels by simp
  show "(q, k) \<noteq> (pass, icam) \<Longrightarrow> read2 cpc' q k = read2 cpc q k \<and> read2 wpc' q k = read2 wpc q k"
    by (rule record_cam_weights_frame [OF rec])
qed


lemma foldE_preserve:
  assumes "foldE f xs s = Inr s'"
    and "\<And>x t t'. x \<in> set xs \<Longrightarrow> f x t = Inr t' \<Longrightarrow> Q t \<Longrightarrow> Q t'"
    and "Q s"
  shows "Q s'"
  using assms
proof (induction xs arbitrary: s)
  case Nil
  then show ?case by simp
next
  case (Cons x xs)
  from Cons.prems(1) obtain s1 where b: "f x s = Inr s1" and r: "foldE f xs s1 = Inr s'"
    by (auto split: sum.splits)
  have s1: "Q s1" using Cons.prems(2) [OF _ b Cons.prems(3)] by simp
  show ?case
  proof (rule Cons.IH [OF r])
    show "Q s1" by (rule s1)
    show "Q t'" if "y \<in> set xs" "f y t = Inr t'" "Q t" for y t t'
      using Cons.prems(2) [of y t t'] that by simp
  qed
qed

lemma foldE_establish:
  assumes "foldE f xs s = Inr s'"
    and est: "\<And>x t t'. x \<in> set xs \<Longrightarrow> f x t = Inr t' \<Longrightarrow> P x t'"
    and pres: "\<And>x y t t'. x \<in> set xs \<Longrightarrow> f x t = Inr t' \<Longrightarrow> P y t \<Longrightarrow> P y t'"
  shows "\<forall>x \<in> set xs. P x s'"
  using assms
proof (induction xs arbitrary: s)
  case Nil
  then show ?case by simp
next
  case (Cons x xs)
  from Cons.prems(1) obtain s1 where b: "f x s = Inr s1" and r: "foldE f xs s1 = Inr s'"
    by (auto split: sum.splits)
  have "P x s1" using Cons.prems(2) [OF _ b] by simp
  have "P x s'"
  proof (rule foldE_preserve [OF r])
    show "P x s1" by fact
    show "P x t'" if "y \<in> set xs" "f y t = Inr t'" "P x t" for y t t'
      using Cons.prems(3) [of y t t' x] that by simp
  qed
  moreover have "\<forall>y \<in> set xs. P y s'"
  proof (rule Cons.IH [OF r])
    show "P y t'" if "y \<in> set xs" "f y t = Inr t'" for y t t'
      using Cons.prems(2) [of y t t'] that by simp
    show "P z t'" if "y \<in> set xs" "f y t = Inr t'" "P z t" for y z t t'
      using Cons.prems(3) [of y t t' z] that by simp
  qed
  ultimately show ?case by simp
qed

lemma read2_update_other:
  assumes "0 \<le> i" "q \<noteq> i"
  shows "read2 (xss[nat i := r]) q k = read2 xss q k"
proof -
  have "0 \<le> q \<Longrightarrow> nat i \<noteq> nat q" using assms by simp
  then show ?thesis by (auto simp: read2_def read_at_def)
qed

lemma reproj_pass_records:
  assumes "reproj_pass ext opt crn_size pixel_vec weight_vec isAnchor_vec pix2xyz_index csm_models
       have_rig rig_cam_info tri_points_vec pass (ws, p, wpc, cpc) = Inr (ws', p', wpc', cpc')"
  shows "\<forall>icam \<in> set [0..crn_size - 1].
           read2 cpc' pass icam
             = Inr (real (length (spec_position_weights ext opt pixel_vec weight_vec isAnchor_vec
                      pix2xyz_index tri_points_vec pass icam))) \<and>
           read2 wpc' pass icam
             = Inr (if spec_position_weights ext opt pixel_vec weight_vec isAnchor_vec
                      pix2xyz_index tri_points_vec pass icam = [] then 0
                    else destructive_median ext (spec_position_weights ext opt pixel_vec weight_vec
                      isAnchor_vec pix2xyz_index tri_points_vec pass icam)) \<and>
           (spec_position_weights ext opt pixel_vec weight_vec isAnchor_vec
                      pix2xyz_index tri_points_vec pass icam \<noteq> []
              \<longrightarrow> (\<exists>m. read_at csm_models icam = Inr m \<and> m \<noteq> OtherModel))"
    and "q \<noteq> pass \<Longrightarrow> read2 cpc' q k = read2 cpc q k \<and> read2 wpc' q k = read2 wpc q k"
proof -
  let ?pw = "spec_position_weights ext opt pixel_vec weight_vec isAnchor_vec
                      pix2xyz_index tri_points_vec pass"
  let ?P = "\<lambda>icam (s :: real list \<times> Problem \<times> real list list \<times> real list list).
      read2 (snd (snd (snd s))) pass icam = Inr (real (length (?pw icam))) \<and>
      read2 (fst (snd (snd s))) pass icam
        = Inr (if ?pw icam = [] then 0 else destructive_median ext (?pw icam)) \<and>
      (?pw icam \<noteq> [] \<longrightarrow> (\<exists>m. read_at csm_models icam = Inr m \<and> m \<noteq> OtherModel))"
  from assms obtain w c where w: "read_at wpc pass = Inr w" and c: "read_at cpc pass = Inr c"
    and loop: "foldE (reproj_cam ext opt pixel_vec weight_vec isAnchor_vec pix2xyz_index csm_models
                    have_rig rig_cam_info tri_points_vec pass)
             [0..crn_size - 1]
             (ws, p, wpc[nat pass := resize (nat crn_size) 0 w],
              cpc[nat pass := resize (nat crn_size) 0 c]) = Inr (ws', p', wpc', cpc')"
    unfolding reproj_pass_def Let_def by (auto split: sum.splits)
  have pass: "0 \<le> pass" using w by (simp add: read_at_def split: if_splits)
  have "\<forall>icam \<in> set [0..crn_size - 1]. ?P icam (ws', p', wpc', cpc')"
  proof (rule foldE_establish [OF loop])
    fix x t t'
    assume b: "reproj_cam ext opt pixel_vec weight_vec isAnchor_vec pix2xyz_index csm_models
                    have_rig rig_cam_info tri_points_vec pass x t = Inr t'"
    obtain a1 a2 a3 a4 where t: "t = (a1, a2, a3, a4)" by (cases t)
    obtain b1 b2 b3 b4 where t': "t' = (b1, b2, b3, b4)" by (cases t')
    note r = reproj_cam_records [OF b [unfolded t t']]
    show "?P x t'" unfolding t' using r(1,2,3) by simp
    fix y
    assume y: "?P y t"
    show "?P y t'"
    proof (cases "y = x")
      case True
      then show ?thesis unfolding t' using r(1,2,3) by simp
    next
      case False
      then have "(pass, y) \<noteq> (pass, x)" by simp
      from r(4) [OF this] y show ?thesis unfolding t t' by simp
    qed
  qed
  then show "\<forall>icam \<in> set [0..crn_size - 1].
           read2 cpc' pass icam = Inr (real (length (?pw icam))) \<and>
           read2 wpc' pass icam
             = Inr (if ?pw icam = [] then 0 else destructive_median ext (?pw icam)) \<and>
           (?pw icam \<noteq> [] \<longrightarrow> (\<exists>m. read_at csm_models icam = Inr m \<and> m \<noteq> OtherModel))"
    by simp
  assume q: "q \<noteq> pass"
  let ?Q = "\<lambda>s :: real list \<times> Problem \<times> real list list \<times> real list list.
      read2 (snd (snd (snd s))) q k = read2 cpc q k \<and> read2 (fst (snd (snd s))) q k = read2 wpc q k"
  have "?Q (ws', p', wpc', cpc')"
  proof (rule foldE_preserve [OF loop])
    show "?Q (ws, p, wpc[nat pass := resize (nat crn_size) 0 w],
              cpc[nat pass := resize (nat crn_size) 0 c])"
      by (simp add: read2_update_other [OF pass q])
    fix x t t'
    assume b: "reproj_cam ext opt pixel_vec weight_vec isAnchor_vec pix2xyz_index csm_models
                    have_rig rig_cam_info tri_points_vec pass x t = Inr t'"
      and Q: "?Q t"
    obtain a1 a2 a3 a4 where t: "t = (a1, a2, a3, a4)" by (cases t)
    obtain b1 b2 b3 b4 where t': "t' = (b1, b2, b3, b4)" by (cases t')
    have "(q, k) \<noteq> (pass, x)" using q by simp
    from reproj_cam_records(4) [OF b [unfolded t t'] this] Q
    show "?Q t'" unfolding t t' by simp
  qed
  then show "read2 cpc' q k = read2 cpc q k \<and> read2 wpc' q k = read2 wpc q k" by simp
qed

lemma addReprojCamErrs_records:
  assumes "addReprojCamErrs ext opt crn_size pixel_vec weight_vec isAnchor_vec pix2xyz_index
       csm_models have_rig rig_cam_info tri_points_vec (ws, p, wpc, cpc) = Inr (ws', p', wpc', cpc')"
    and "pass \<in> set [0..1]" and "icam \<in> set [0..crn_size - 1]"
  shows "read2 cpc' pass icam
             = Inr (real (length (spec_position_weights ext opt pixel_vec weight_vec isAnchor_vec
                      pix2xyz_index tri_points_vec pass icam)))"
    and "read2 wpc' pass icam
             = Inr (if spec_position_weights ext opt pixel_vec weight_vec isAnchor_vec
                      pix2xyz_index tri_points_vec pass icam = [] then 0
                    else destructive_median ext (spec_position_weights ext opt pixel_vec weight_vec
                      isAnchor_vec pix2xyz_index tri_points_vec pass icam))"
    and "spec_position_weights ext opt pixel_vec weight_vec isAnchor_vec
                      pix2xyz_index tri_points_vec pass icam \<noteq> []
              \<Longrightarrow> \<exists>m. read_at csm_models icam = Inr m \<and> m \<noteq> OtherModel"
proof -
  from assms(1) obtain s1 where
    p0: "reproj_pass ext opt crn_size pixel_vec weight_vec isAnchor_vec pix2xyz_index
           csm_models have_rig rig_cam_info tri_points_vec 0
           (ws, p, resize 2 [] wpc, resize 2 [] cpc) = Inr s1"
    and p1: "reproj_pass ext opt crn_size pixel_vec weight_vec isAnchor_vec pix2xyz_index
           csm_models have_rig rig_cam_info tri_points_vec 1 s1 = Inr (ws', p', wpc', cpc')"
    unfolding addReprojCamErrs_def Let_def by (auto simp: upto_0_1 split: sum.splits)
  obtain a1 a2 a3 a4 where s1: "s1 = (a1, a2, a3, a4)" by (cases s1)
  note r0 = reproj_pass_records(1) [OF p0 [unfolded s1], rule_format, OF assms(3)]
  note r1 = reproj_pass_records(1) [OF p1 [unfolded s1], rule_format, OF assms(3)]
  have keep: "read2 cpc' 0 icam = read2 a4 0 icam \<and> read2 wpc' 0 icam = read2 a3 0 icam"
    by (rule reproj_pass_records(2) [OF p1 [unfolded s1]]) simp
  have "pass = 0 \<or> pass = 1" using assms(2) by (simp add: upto_0_1)
  then have "read2 cpc' pass icam
             = Inr (real (length (spec_position_weights ext opt pixel_vec weight_vec isAnchor_vec
                      pix2xyz_index tri_points_vec pass icam))) \<and>
      read2 wpc' pass icam
             = Inr (if spec_position_weights ext opt pixel_vec weight_vec isAnchor_vec
                      pix2xyz_index tri_points_vec pass icam = [] then 0
                    else destructive_median ext (spec_position_weights ext opt pixel_vec weight_vec
                      isAnchor_vec pix2xyz_index tri_points_vec pass icam)) \<and>
      (spec_position_weights ext opt pixel_vec weight_vec isAnchor_vec
                      pix2xyz_index tri_points_vec pass icam \<noteq> []
              \<longrightarrow> (\<exists>m. read_at csm_models icam = Inr m \<and> m \<noteq> OtherModel))"
  proof
    assume "pass = 0"
    then show ?thesis using r0 keep by simp
  next
    assume "pass = 1"
    then show ?thesis using r1 by simp
  qed
  then show "read2 cpc' pass icam
             = Inr (real (length (spec_position_weights ext opt pixel_vec weight_vec isAnchor_vec
                      pix2xyz_index tri_points_vec pass icam)))"
    and "read2 wpc' pass icam
             = Inr (if spec_position_weights ext opt pixel_vec weight_vec isAnchor_vec
                      pix2xyz_index tri_points_vec pass icam = [] then 0
                    else destructive_median ext (spec_position_weights ext opt pixel_vec weight_vec
                      isAnchor_vec pix2xyz_index tri_points_vec pass icam))"
    and "spec_position_weights ext opt pixel_vec weight_vec isAnchor_vec
                      pix2xyz_index tri_points_vec pass icam \<noteq> []
              \<Longrightarrow> \<exists>m. read_at csm_models icam = Inr m \<and> m \<noteq> OtherModel"
    by simp_all
qed


lemma append_state_empty: "append_state [] [] s = s"
  by (cases s) (simp add: append_state_def)

lemma cam_position_step:
  assumes rig: "have_rig \<longrightarrow> 0 \<le> icam \<and> icam < int (length rig_cam_info)"
    and c: "read2 count_per_cam pass icam = Inr (real (length pw))"
    and w: "read2 weight_per_cam pass icam
              = Inr (if pw = [] then 0 else destructive_median ext pw)"
    and m: "pw \<noteq> [] \<longrightarrow> (\<exists>m. read_at csm_models icam = Inr m \<and> m \<noteq> OtherModel)"
    and f: "0 \<le> icam" "icam * 7 + 3 \<le> int (length frame_params)"
  shows "cam_position_constraint_cam ext opt csm_models weight_per_cam count_per_cam have_rig
           rig_cam_info frame_params pass icam state
       = Inr (append_state
           (fst (spec_position_constraint ext opt csm_models have_rig rig_cam_info frame_params
                   pw icam))
           (snd (spec_position_constraint ext opt csm_models have_rig rig_cam_info frame_params
                   pw icam))
           state)"
proof (cases "have_rig \<and> \<not> isRefSensor ext (sensor_id (rig_cam_info ! nat icam))")
  case True
  then have "skip_non_ref ext have_rig rig_cam_info icam = Inr True"
    using rig by (simp add: skip_non_ref_def read_at_def)
  then show ?thesis using True
    by (simp add: cam_position_constraint_cam_def spec_position_constraint_def append_state_empty)
next
  case False
  then have sk: "skip_non_ref ext have_rig rig_cam_info icam = Inr False"
    using rig by (auto simp: skip_non_ref_def read_at_def)
  show ?thesis
  proof (cases "pw = []")
    case True
    then show ?thesis using sk c w False
      by (simp add: cam_position_constraint_cam_def spec_position_constraint_def append_state_empty)
  next
    case ne: False
    then have pos: "0 < real (length pw)" by simp
    have w': "read2 weight_per_cam pass icam = Inr (destructive_median ext pw)"
      using w ne by simp
    from m ne obtain md where md: "read_at csm_models icam = Inr md" "md \<noteq> OtherModel" by auto
    have nth: "csm_models ! nat icam = md" using read_at_Inr [OF md(1)] by simp
    show ?thesis
    proof (cases md)
      case (LsModel ls_model)
      have "cam_position_constraint_cam ext opt csm_models weight_per_cam count_per_cam have_rig
           rig_cam_info frame_params pass icam state
         = Inr (append_state
             (replicate (3 * nat (int (length (m_positions ls_model)) div 3))
                (sqrt (real (length pw)) * destructive_median ext pw
                   / sqrt (real_of_int (int (length (m_positions ls_model)) div 3))))
             (map (\<lambda>ip. spec_translation_block (take 3 (drop (nat (ip * 3)) (m_positions ls_model)))
                     (sqrt (real (length pw)) * destructive_median ext pw
                        / sqrt (real_of_int (int (length (m_positions ls_model)) div 3)))
                     (sqrt (real (length pw)) * camera_position_robust_threshold opt
                        / sqrt (real_of_int (int (length (m_positions ls_model)) div 3)))
                     (PosPtr (nat icam) (ip * 3)))
                [0..int (length (m_positions ls_model)) div 3 - 1]) state)"
        by (rule cam_position_ls [OF sk w' c pos md(1) [unfolded LsModel] refl refl refl])
      then show ?thesis using False ne nth LsModel
        by (auto simp: spec_position_constraint_def spec_combined_weight_def
            spec_combined_threshold_def Let_def)
    next
      case (FrameModel frame_model)
      have "cam_position_constraint_cam ext opt csm_models weight_per_cam count_per_cam have_rig
           rig_cam_info frame_params pass icam state
         = Inr (append_state (replicate 3 (sqrt (real (length pw)) * destructive_median ext pw))
             [spec_translation_block (take 3 (drop (nat (icam * 7)) frame_params))
                (sqrt (real (length pw)) * destructive_median ext pw)
                (sqrt (real (length pw)) * camera_position_robust_threshold opt)
                (FramePtr (icam * 7))] state)"
        by (rule cam_position_frame [OF sk w' c pos md(1) [unfolded FrameModel] f refl refl])
      then show ?thesis using False ne nth FrameModel
        by (auto simp: spec_position_constraint_def spec_combined_weight_def
            spec_combined_threshold_def Let_def)
    next
      case OtherModel
      then show ?thesis using md(2) by simp
    qed
  qed
qed

lemma cam_position_loops:
  assumes step: "\<And>pass icam s. pass \<in> set [0..1] \<Longrightarrow> icam \<in> set [0..crn_size - 1] \<Longrightarrow>
      cam_position_constraint_cam ext opt csm_models weight_per_cam count_per_cam have_rig
           rig_cam_info frame_params pass icam s
        = Inr (append_state (W pass icam) (B pass icam) s)"
  shows "addCamPositionConstraint ext opt crn_size csm_models weight_per_cam count_per_cam have_rig
           rig_cam_info frame_params state
       = Inr (append_state
           (concat (map (\<lambda>pass. concat (map (W pass) [0..crn_size - 1])) [0, 1]))
           (concat (map (\<lambda>pass. concat (map (B pass) [0..crn_size - 1])) [0, 1]))
           state)"
proof -
  have inner: "foldE (cam_position_constraint_cam ext opt csm_models weight_per_cam count_per_cam
                  have_rig rig_cam_info frame_params pass) [0..crn_size - 1] s
      = Inr (append_state (concat (map (W pass) [0..crn_size - 1]))
               (concat (map (B pass) [0..crn_size - 1])) s)"
    if pass: "pass \<in> set [0..1]" for pass s
  proof -
    obtain ws p where s: "s = (ws, p)" by (cases s)
    have "foldE (cam_position_constraint_cam ext opt csm_models weight_per_cam count_per_cam
                  have_rig rig_cam_info frame_params pass) [0..crn_size - 1] s
        = Inr (fold (\<lambda>icam. append_state (W pass icam) (B pass icam)) [0..crn_size - 1] s)"
      by (rule foldE_total) (rule step [OF pass])
    then show ?thesis unfolding s fold_append_state .
  qed
  obtain ws p where s: "state = (ws, p)" by (cases state)
  have "foldE (\<lambda>pass.
         foldE (cam_position_constraint_cam ext opt csm_models weight_per_cam count_per_cam
                  have_rig rig_cam_info frame_params pass)
           [0..crn_size - 1])
       [0..1] state
     = Inr (fold (\<lambda>pass. append_state (concat (map (W pass) [0..crn_size - 1]))
               (concat (map (B pass) [0..crn_size - 1]))) [0..1] state)"
    by (rule foldE_total) (rule inner)
  then show ?thesis
    unfolding addCamPositionConstraint_def s fold_append_state by (simp add: upto_0_1)
qed

lemma cam_position_after_reproj:
  assumes run: "addReprojCamErrs ext opt crn_size pixel_vec weight_vec isAnchor_vec pix2xyz_index
       csm_models have_rig rig_cam_info tri_points_vec
       (weight_per_residual0, problem0, weight_per_cam0, count_per_cam0)
     = Inr (weight_per_residual1, problem1, weight_per_cam, count_per_cam)"
    and frame: "crn_size * 7 \<le> int (length frame_params)"
    and rig: "have_rig \<longrightarrow> crn_size \<le> int (length rig_cam_info)"
  shows "addCamPositionConstraint ext opt crn_size csm_models weight_per_cam count_per_cam have_rig
           rig_cam_info frame_params state
       = Inr (append_state
           (concat (map (\<lambda>pass. concat (map (\<lambda>icam.
              fst (spec_position_constraint ext opt csm_models have_rig rig_cam_info frame_params
                     (spec_position_weights ext opt pixel_vec weight_vec isAnchor_vec pix2xyz_index
                        tri_points_vec pass icam) icam))
              [0..crn_size - 1])) [0, 1]))
           (concat (map (\<lambda>pass. concat (map (\<lambda>icam.
              snd (spec_position_constraint ext opt csm_models have_rig rig_cam_info frame_params
                     (spec_position_weights ext opt pixel_vec weight_vec isAnchor_vec pix2xyz_index
                        tri_points_vec pass icam) icam))
              [0..crn_size - 1])) [0, 1]))
           state)"
proof -
  have step: "cam_position_constraint_cam ext opt csm_models weight_per_cam count_per_cam have_rig
           rig_cam_info frame_params pass icam s
        = Inr (append_state
           (fst (spec_position_constraint ext opt csm_models have_rig rig_cam_info frame_params
                   (spec_position_weights ext opt pixel_vec weight_vec isAnchor_vec pix2xyz_index
                      tri_points_vec pass icam) icam))
           (snd (spec_position_constraint ext opt csm_models have_rig rig_cam_info frame_params
                   (spec_position_weights ext opt pixel_vec weight_vec isAnchor_vec pix2xyz_index
                      tri_points_vec pass icam) icam))
           s)"
    if pass: "pass \<in> set [0..1]" and icam: "icam \<in> set [0..crn_size - 1]" for pass icam s
  proof (rule cam_position_step)
    have i: "0 \<le> icam" "icam + 1 \<le> crn_size" using icam by simp_all
    show "have_rig \<longrightarrow> 0 \<le> icam \<and> icam < int (length rig_cam_info)" using rig i by auto
    show "0 \<le> icam" by (rule i(1))
    have "icam * 7 + 7 \<le> crn_size * 7" using i(2) by simp
    then show "icam * 7 + 3 \<le> int (length frame_params)" using frame by simp
    show "read2 count_per_cam pass icam
        = Inr (real (length (spec_position_weights ext opt pixel_vec weight_vec isAnchor_vec
                 pix2xyz_index tri_points_vec pass icam)))"
      by (rule addReprojCamErrs_records(1) [OF run pass icam])
    show "read2 weight_per_cam pass icam
        = Inr (if spec_position_weights ext opt pixel_vec weight_vec isAnchor_vec
                      pix2xyz_index tri_points_vec pass icam = [] then 0
               else destructive_median ext (spec_position_weights ext opt pixel_vec weight_vec
                      isAnchor_vec pix2xyz_index tri_points_vec pass icam))"
      by (rule addReprojCamErrs_records(2) [OF run pass icam])
    show "spec_position_weights ext opt pixel_vec weight_vec isAnchor_vec
                      pix2xyz_index tri_points_vec pass icam \<noteq> []
          \<longrightarrow> (\<exists>m. read_at csm_models icam = Inr m \<and> m \<noteq> OtherModel)"
      using addReprojCamErrs_records(3) [OF run pass icam] by simp
  qed
  have "addCamPositionConstraint ext opt crn_size csm_models weight_per_cam count_per_cam have_rig
           rig_cam_info frame_params state
       = Inr (append_state
           (concat (map (\<lambda>pass. concat (map (\<lambda>icam.
              fst (spec_position_constraint ext opt csm_models have_rig rig_cam_info frame_params
                     (spec_position_weights ext opt pixel_vec weight_vec isAnchor_vec pix2xyz_index
                        tri_points_vec pass icam) icam))
              [0..crn_size - 1])) [0, 1]))
           (concat (map (\<lambda>pass. concat (map (\<lambda>icam.
              snd (spec_position_constraint ext opt csm_models have_rig rig_cam_info frame_params
                     (spec_position_weights ext opt pixel_vec weight_vec isAnchor_vec pix2xyz_index
                        tri_points_vec pass icam) icam))
              [0..crn_size - 1])) [0, 1]))
           state)"
    by (rule cam_position_loops) (rule step)
  then show ?thesis .
qed

text \<open>
  Claim C5, as the code has it. Let \<open>addReprojCamErrs\<close> have returned the per-camera
  medians and counts, with room in \<^verbatim>\<open>frame_params\<close> and \<^verbatim>\<open>rig_cam_info\<close> for every
  camera. Then \<open>addCamPositionConstraint\<close> returns normally, and what it appends is, for
  each of the two passes (the observations that are not anchors, then the anchors) and
  every camera in turn, the constraint of \<open>spec_position_constraint\<close> for the position
  weights \<open>camera_position_weight * pix_wt / gsd\<close> of the camera's observations of that
  pass with a positive GSD. With \<open>N\<close> their number and \<open>m\<close> their median, a camera with
  \<open>N > 0\<close> that is not a non-reference sensor of a rig gets: if it is a linescan camera
  with \<open>P\<close> position samples, one residual \<open>w * (p - p_initial)\<close> per sample, with
  \<open>w = sqrt N * m / sqrt P\<close> and the Cauchy threshold
  \<open>sqrt N * camera_position_robust_threshold / sqrt P\<close> (the threshold is divided by
  \<open>sqrt P\<close> as the weight is); if it is a frame camera, a single residual with the
  weight \<open>sqrt N * m\<close> and the threshold \<open>sqrt N * camera_position_robust_threshold\<close>.
  Every other camera gets nothing.
\<close>

theorem cam_position_constraint:
  assumes run: "addReprojCamErrs ext opt crn_size pixel_vec weight_vec isAnchor_vec pix2xyz_index
       csm_models have_rig rig_cam_info tri_points_vec
       (weight_per_residual0, problem0, weight_per_cam0, count_per_cam0)
     = Inr (weight_per_residual1, problem1, weight_per_cam, count_per_cam)"
    and frame: "crn_size * 7 \<le> int (length frame_params)"
    and rig: "have_rig \<longrightarrow> crn_size \<le> int (length rig_cam_info)"
  shows "addCamPositionConstraint ext opt crn_size csm_models weight_per_cam count_per_cam have_rig
           rig_cam_info frame_params state
       = Inr (append_state
           (concat (map (\<lambda>pass. concat (map (\<lambda>icam.
              fst (spec_position_constraint ext opt csm_models have_rig rig_cam_info frame_params
                     (spec_position_weights ext opt pixel_vec weight_vec isAnchor_vec pix2xyz_index
                        tri_points_vec pass icam) icam))
              [0..crn_size - 1])) [0, 1]))
           (concat (map (\<lambda>pass. concat (map (\<lambda>icam.
              snd (spec_position_constraint ext opt csm_models have_rig rig_cam_info frame_params
                     (spec_position_weights ext opt pixel_vec weight_vec isAnchor_vec pix2xyz_index
                        tri_points_vec pass icam) icam))
              [0..crn_size - 1])) [0, 1]))
           state) \<and>
     weightedTranslationError_call [ix, iy, iz] w [px, py, pz]
       = Inr (True, [w * (px - ix), w * (py - iy), w * (pz - iz)])"
  using cam_position_after_reproj [OF run frame rig]
  by (simp only: weightedTranslationError_value simp_thms)

lemma example_position_reproj:
  "cam_weights_of (addReprojCamErrs example_gsd_ext example_opt 2 example_position_pixel_vec
     example_position_weight_vec example_position_isAnchor_vec example_position_pix2xyz_index
     example_models4 False [] [1, 2, 3, 4, 5, 6]
     ([], \<lparr>residual_blocks = [], constant_blocks = []\<rparr>, [[], []], [[], []]))
   = Some ([[2, 5 / 2], [0, 3 / 2]], [[4, 4], [0, 1]])"
  by code_simp

lemma example_position_weights:
  "spec_position_weights example_gsd_ext example_opt example_position_pixel_vec
     example_position_weight_vec example_position_isAnchor_vec example_position_pix2xyz_index
     [1, 2, 3, 4, 5, 6] 0 0 = [1, 2, 3, 2]"
  "spec_position_weights example_gsd_ext example_opt example_position_pixel_vec
     example_position_weight_vec example_position_isAnchor_vec example_position_pix2xyz_index
     [1, 2, 3, 4, 5, 6] 0 1 = [1, 2, 3, 4]"
  "spec_position_weights example_gsd_ext example_opt example_position_pixel_vec
     example_position_weight_vec example_position_isAnchor_vec example_position_pix2xyz_index
     [1, 2, 3, 4, 5, 6] 1 0 = []"
  "spec_position_weights example_gsd_ext example_opt example_position_pixel_vec
     example_position_weight_vec example_position_isAnchor_vec example_position_pix2xyz_index
     [1, 2, 3, 4, 5, 6] 1 1 = [3 / 2]"
  by code_simp+

lemma example_medians:
  "example_median [1, 2, 3, 2] = 2" "example_median [1, 2, 3, 4] = 5 / 2"
  "example_median [3 / 2] = 3 / 2"
  by code_simp+


lemma example_position_specs:
  "spec_position_constraint example_gsd_ext example_opt example_models4 False []
     example_frame_params [1, 2, 3, 2] 0
   = (replicate 12 2,
      [spec_translation_block [0, 0, 0] 2 1 (PosPtr 0 0),
       spec_translation_block [1, 0, 0] 2 1 (PosPtr 0 3),
       spec_translation_block [2, 0, 0] 2 1 (PosPtr 0 6),
       spec_translation_block [3, 0, 0] 2 1 (PosPtr 0 9)])"
  "spec_position_constraint example_gsd_ext example_opt example_models4 False []
     example_frame_params [1, 2, 3, 4] 1
   = ([5, 5, 5], [spec_translation_block [5, 6, 7] 5 2 (FramePtr 7)])"
  "spec_position_constraint example_gsd_ext example_opt example_models4 False []
     example_frame_params [] 0 = ([], [])"
  "spec_position_constraint example_gsd_ext example_opt example_models4 False []
     example_frame_params [3 / 2] 1
   = ([3 / 2, 3 / 2, 3 / 2], [spec_translation_block [5, 6, 7] (3 / 2) 1 (FramePtr 7)])"
  by (simp_all add: spec_position_constraint_def example_gsd_ext_def example_ext_def
      example_medians example_models4_def example_ls_model4_def example_frame_params_def
      example_opt_def spec_combined_weight_def spec_combined_threshold_def upto.simps
      numeral_3_eq_3 Let_def)

lemma example_position_inputs:
  "(2::int) * 7 \<le> int (length example_frame_params)"
  "False \<longrightarrow> (2::int) \<le> int (length ([] :: RigCamInfo list))"
  by (simp_all add: example_frame_params_def)

lemma example_position_run:
  "addCamPositionConstraint example_gsd_ext example_opt 2 example_models4
     [[2, 5 / 2], [0, 3 / 2]] [[4, 4], [0, 1]] False [] example_frame_params empty_state
   = Inr (replicate 12 2 @ [5, 5, 5, 3 / 2, 3 / 2, 3 / 2],
       \<lparr>residual_blocks =
          [spec_translation_block [0, 0, 0] 2 1 (PosPtr 0 0),
           spec_translation_block [1, 0, 0] 2 1 (PosPtr 0 3),
           spec_translation_block [2, 0, 0] 2 1 (PosPtr 0 6),
           spec_translation_block [3, 0, 0] 2 1 (PosPtr 0 9),
           spec_translation_block [5, 6, 7] 5 2 (FramePtr 7),
           spec_translation_block [5, 6, 7] (3 / 2) 1 (FramePtr 7)],
        constant_blocks = []\<rparr>)"
proof -
  from example_position_reproj obtain ws1 p1 where
    run: "addReprojCamErrs example_gsd_ext example_opt 2 example_position_pixel_vec
     example_position_weight_vec example_position_isAnchor_vec example_position_pix2xyz_index
     example_models4 False [] [1, 2, 3, 4, 5, 6]
     ([], \<lparr>residual_blocks = [], constant_blocks = []\<rparr>, [[], []], [[], []])
     = Inr (ws1, p1, [[2, 5 / 2], [0, 3 / 2]], [[4, 4], [0, 1]])"
    unfolding cam_weights_of_def by (auto split: sum.splits)
  show ?thesis
    unfolding cam_position_after_reproj [OF run example_position_inputs, where state = empty_state]
    by (simp add: upto_0_1 example_position_weights example_position_specs append_state_def
        empty_state_def)
qed

lemma example_rig_reproj:
  "cam_weights_of (addReprojCamErrs example_rig_ext example_opt 2 example_position_pixel_vec
     example_position_weight_vec example_position_isAnchor_vec example_position_pix2xyz_index
     example_models4 True example_rig_cam_info [1, 2, 3, 4, 5, 6]
     ([], \<lparr>residual_blocks = [], constant_blocks = []\<rparr>, [[], []], [[], []]))
   = Some ([[2, 5 / 2], [0, 3 / 2]], [[4, 4], [0, 1]])"
  by code_simp

lemma example_rig_weights:
  "spec_position_weights example_rig_ext example_opt example_position_pixel_vec
     example_position_weight_vec example_position_isAnchor_vec example_position_pix2xyz_index
     [1, 2, 3, 4, 5, 6] 0 0 = [1, 2, 3, 2]"
  "spec_position_weights example_rig_ext example_opt example_position_pixel_vec
     example_position_weight_vec example_position_isAnchor_vec example_position_pix2xyz_index
     [1, 2, 3, 4, 5, 6] 0 1 = [1, 2, 3, 4]"
  "spec_position_weights example_rig_ext example_opt example_position_pixel_vec
     example_position_weight_vec example_position_isAnchor_vec example_position_pix2xyz_index
     [1, 2, 3, 4, 5, 6] 1 0 = []"
  "spec_position_weights example_rig_ext example_opt example_position_pixel_vec
     example_position_weight_vec example_position_isAnchor_vec example_position_pix2xyz_index
     [1, 2, 3, 4, 5, 6] 1 1 = [3 / 2]"
  by code_simp+

lemma example_rig_specs:
  "spec_position_constraint example_rig_ext example_opt example_models4 True example_rig_cam_info
     example_frame_params [1, 2, 3, 2] 0
   = (replicate 12 2,
      [spec_translation_block [0, 0, 0] 2 1 (PosPtr 0 0),
       spec_translation_block [1, 0, 0] 2 1 (PosPtr 0 3),
       spec_translation_block [2, 0, 0] 2 1 (PosPtr 0 6),
       spec_translation_block [3, 0, 0] 2 1 (PosPtr 0 9)])"
  "spec_position_constraint example_rig_ext example_opt example_models4 True example_rig_cam_info
     example_frame_params [1, 2, 3, 4] 1 = ([], [])"
  "spec_position_constraint example_rig_ext example_opt example_models4 True example_rig_cam_info
     example_frame_params [] 0 = ([], [])"
  "spec_position_constraint example_rig_ext example_opt example_models4 True example_rig_cam_info
     example_frame_params [3 / 2] 1 = ([], [])"
  by (simp_all add: spec_position_constraint_def example_rig_ext_def example_gsd_ext_def
      example_ext_def example_rig_cam_info_def
      example_medians example_models4_def example_ls_model4_def example_frame_params_def
      example_opt_def spec_combined_weight_def spec_combined_threshold_def upto.simps
      numeral_3_eq_3 Let_def)

lemma example_rig_inputs:
  "(2::int) * 7 \<le> int (length example_frame_params)"
  "True \<longrightarrow> (2::int) \<le> int (length example_rig_cam_info)"
  by (simp_all add: example_frame_params_def example_rig_cam_info_def)

text \<open>
  A run with a linescan camera of four position samples and a frame camera. Camera 0
  has five observations that are not anchors, one of them with a GSD that is not
  positive, and an anchor whose GSD is unavailable: \<open>N = 4\<close> and \<open>m = 2\<close> in pass 0,
  nothing in pass 1. Camera 1 has \<open>N = 4\<close>, \<open>m = 5/2\<close> in pass 0 and \<open>N = 1\<close>,
  \<open>m = 3/2\<close> in pass 1. On the rig camera 1 is not the reference sensor and gets
  no position constraint.
\<close>

theorem cam_position_constraint_witness:
  "cam_weights_of (addReprojCamErrs example_gsd_ext example_opt 2 example_position_pixel_vec
     example_position_weight_vec example_position_isAnchor_vec example_position_pix2xyz_index
     example_models4 False [] [1, 2, 3, 4, 5, 6]
     ([], \<lparr>residual_blocks = [], constant_blocks = []\<rparr>, [[], []], [[], []]))
     = Some ([[2, 5 / 2], [0, 3 / 2]], [[4, 4], [0, 1]]) \<and>
   (2::int) * 7 \<le> int (length example_frame_params) \<and>
   spec_position_weights example_gsd_ext example_opt example_position_pixel_vec
     example_position_weight_vec example_position_isAnchor_vec example_position_pix2xyz_index
     [1, 2, 3, 4, 5, 6] 0 0 = [1, 2, 3, 2] \<and>
   example_median [1, 2, 3, 2] = 2 \<and>
   addCamPositionConstraint example_gsd_ext example_opt 2 example_models4
     [[2, 5 / 2], [0, 3 / 2]] [[4, 4], [0, 1]] False [] example_frame_params empty_state
   = Inr (replicate 12 2 @ [5, 5, 5, 3 / 2, 3 / 2, 3 / 2],
       \<lparr>residual_blocks =
          [spec_translation_block [0, 0, 0] 2 1 (PosPtr 0 0),
           spec_translation_block [1, 0, 0] 2 1 (PosPtr 0 3),
           spec_translation_block [2, 0, 0] 2 1 (PosPtr 0 6),
           spec_translation_block [3, 0, 0] 2 1 (PosPtr 0 9),
           spec_translation_block [5, 6, 7] 5 2 (FramePtr 7),
           spec_translation_block [5, 6, 7] (3 / 2) 1 (FramePtr 7)],
        constant_blocks = []\<rparr>) \<and>
   cam_weights_of (addReprojCamErrs example_rig_ext example_opt 2 example_position_pixel_vec
     example_position_weight_vec example_position_isAnchor_vec example_position_pix2xyz_index
     example_models4 True example_rig_cam_info [1, 2, 3, 4, 5, 6]
     ([], \<lparr>residual_blocks = [], constant_blocks = []\<rparr>, [[], []], [[], []]))
     = Some ([[2, 5 / 2], [0, 3 / 2]], [[4, 4], [0, 1]]) \<and>
   (2::int) \<le> int (length example_rig_cam_info) \<and>
   addCamPositionConstraint example_rig_ext example_opt 2 example_models4
     [[2, 5 / 2], [0, 3 / 2]] [[4, 4], [0, 1]] True example_rig_cam_info example_frame_params
     empty_state
   = Inr (replicate 12 2,
       \<lparr>residual_blocks =
          [spec_translation_block [0, 0, 0] 2 1 (PosPtr 0 0),
           spec_translation_block [1, 0, 0] 2 1 (PosPtr 0 3),
           spec_translation_block [2, 0, 0] 2 1 (PosPtr 0 6),
           spec_translation_block [3, 0, 0] 2 1 (PosPtr 0 9)],
        constant_blocks = []\<rparr>)"
proof -
  from example_position_reproj obtain ws1 p1 where
    run: "addReprojCamErrs example_gsd_ext example_opt 2 example_position_pixel_vec
     example_position_weight_vec example_position_isAnchor_vec example_position_pix2xyz_index
     example_models4 False [] [1, 2, 3, 4, 5, 6]
     ([], \<lparr>residual_blocks = [], constant_blocks = []\<rparr>, [[], []], [[], []])
     = Inr (ws1, p1, [[2, 5 / 2], [0, 3 / 2]], [[4, 4], [0, 1]])"
    unfolding cam_weights_of_def by (auto split: sum.splits)
  note t = cam_position_constraint [OF run example_position_inputs,
      where state = empty_state, THEN conjunct1]
  have a: "addCamPositionConstraint example_gsd_ext example_opt 2 example_models4
     [[2, 5 / 2], [0, 3 / 2]] [[4, 4], [0, 1]] False [] example_frame_params empty_state
   = Inr (replicate 12 2 @ [5, 5, 5, 3 / 2, 3 / 2, 3 / 2],
       \<lparr>residual_blocks =
          [spec_translation_block [0, 0, 0] 2 1 (PosPtr 0 0),
           spec_translation_block [1, 0, 0] 2 1 (PosPtr 0 3),
           spec_translation_block [2, 0, 0] 2 1 (PosPtr 0 6),
           spec_translation_block [3, 0, 0] 2 1 (PosPtr 0 9),
           spec_translation_block [5, 6, 7] 5 2 (FramePtr 7),
           spec_translation_block [5, 6, 7] (3 / 2) 1 (FramePtr 7)],
        constant_blocks = []\<rparr>)"
    unfolding t
    by (simp add: upto_0_1 example_position_weights example_position_specs append_state_def
        empty_state_def)
  from example_rig_reproj obtain ws2 p2 where
    rig_run: "addReprojCamErrs example_rig_ext example_opt 2 example_position_pixel_vec
     example_position_weight_vec example_position_isAnchor_vec example_position_pix2xyz_index
     example_models4 True example_rig_cam_info [1, 2, 3, 4, 5, 6]
     ([], \<lparr>residual_blocks = [], constant_blocks = []\<rparr>, [[], []], [[], []])
     = Inr (ws2, p2, [[2, 5 / 2], [0, 3 / 2]], [[4, 4], [0, 1]])"
    unfolding cam_weights_of_def by (auto split: sum.splits)
  note u = cam_position_constraint [OF rig_run example_rig_inputs,
      where state = empty_state, THEN conjunct1]
  have b: "addCamPositionConstraint example_rig_ext example_opt 2 example_models4
     [[2, 5 / 2], [0, 3 / 2]] [[4, 4], [0, 1]] True example_rig_cam_info example_frame_params
     empty_state
   = Inr (replicate 12 2,
       \<lparr>residual_blocks =
          [spec_translation_block [0, 0, 0] 2 1 (PosPtr 0 0),
           spec_translation_block [1, 0, 0] 2 1 (PosPtr 0 3),
           spec_translation_block [2, 0, 0] 2 1 (PosPtr 0 6),
           spec_translation_block [3, 0, 0] 2 1 (PosPtr 0 9)],
        constant_blocks = []\<rparr>)"
    unfolding u
    by (simp add: upto_0_1 example_rig_weights example_rig_specs append_state_def
        empty_state_def)
  have c: "(2::int) \<le> int (length example_rig_cam_info)"
    using example_rig_inputs(2) by simp
  show ?thesis
    using a b c example_position_reproj example_rig_reproj example_position_inputs(1)
      example_position_weights(1) example_medians(1)
    by simp
qed

text \<open>
  Claim C5 as stated fails for a linescan camera with more than one position sample:
  camera 0 of the run above has 4 observations and 4 position samples, and every one
  of its position residuals has the Cauchy threshold 1, not \<open>sqrt 4 * 1 = 2\<close>. The frame
  camera has the threshold 2 in pass 0.
\<close>

theorem cam_position_threshold_counterexample:
  "cam_weights_of (addReprojCamErrs example_gsd_ext example_opt 2 example_position_pixel_vec
     example_position_weight_vec example_position_isAnchor_vec example_position_pix2xyz_index
     example_models4 False [] [1, 2, 3, 4, 5, 6]
     ([], \<lparr>residual_blocks = [], constant_blocks = []\<rparr>, [[], []], [[], []]))
     = Some ([[2, 5 / 2], [0, 3 / 2]], [[4, 4], [0, 1]]) \<and>
   losses_of (addCamPositionConstraint example_gsd_ext example_opt 2 example_models4
     [[2, 5 / 2], [0, 3 / 2]] [[4, 4], [0, 1]] False [] example_frame_params empty_state)
     = [CauchyLoss 1, CauchyLoss 1, CauchyLoss 1, CauchyLoss 1, CauchyLoss 2, CauchyLoss 1] \<and>
   CauchyLoss (spec_combined_threshold example_opt 4) = CauchyLoss 2"
  unfolding example_position_run example_position_reproj
  by (simp add: losses_of_def spec_translation_block_def spec_combined_threshold_def
      example_opt_def)

subsection \<open>The roll and yaw constraint\<close>

lemma cpp_round_near: "\<bar>x - cpp_round x\<bar> \<le> 1/2"
proof (cases "0 \<le> x")
  case True
  have "of_int \<lfloor>x + 1/2\<rfloor> \<le> x + 1/2" "x + 1/2 < of_int \<lfloor>x + 1/2\<rfloor> + 1"
    using floor_correct [of "x + 1/2"] by simp_all
  moreover have "cpp_round x = of_int \<lfloor>x + 1/2\<rfloor>" using True by (simp add: cpp_round_def)
  ultimately show ?thesis by linarith
next
  case False
  have "of_int \<lceil>x - 1/2\<rceil> - 1 < x - 1/2" "x - 1/2 \<le> of_int \<lceil>x - 1/2\<rceil>"
    using ceiling_correct [of "x - 1/2"] by simp_all
  moreover have "cpp_round x = of_int \<lceil>x - 1/2\<rceil>" using False by (simp add: cpp_round_def)
  ultimately show ?thesis by linarith
qed

lemma fix_180_range: "\<bar>fix_180 x\<bar> \<le> 90"
proof -
  have "\<bar>x / 180 - cpp_round (x / 180)\<bar> \<le> 1/2" by (rule cpp_round_near)
  then have "- 90 \<le> 180 * (x / 180) - 180 * cpp_round (x / 180)"
    "180 * (x / 180) - 180 * cpp_round (x / 180) \<le> 90"
    by linarith+
  then show ?thesis unfolding fix_180_def by simp
qed

lemma fix_180_multiple: "\<exists>k::int. x - fix_180 x = 180 * of_int k"
  by (auto simp: fix_180_def cpp_round_def)

text \<open>
  Claim C7. In the default mode the functor extracts the Euler angles of
  \<open>inverse(sat2World) * cam2world * inverse(rotXY)\<close>, the \<open>rollPitchYaw\<close> factor of
  \<open>cam2world = sat2World * rollPitchYaw * rotXY\<close>, replaces each angle \<open>x\<close> by
  \<open>x - 180 * round(x / 180)\<close> and returns \<open>(roll * roll_weight, yaw * yaw_weight)\<close>. In the
  initial-camera mode the angles are those of \<open>inverse(cam2world) * initCam2World\<close> and
  the first component is the pitch times \<open>roll_weight\<close>. The replaced angle differs
  from \<open>x\<close> by a multiple of 180 and lies in \<open>(-180, 180]\<close>; it even lies in \<open>[-90, 90]\<close>.
\<close>

theorem weightedRollYawError_residuals:
  "weightedRollYawError_call lib rollWeight yawWeight rotXY sat2World initCam2World False
       [[qx, qy, qz, qw]]
     = (let rollPitchYaw = mat_mul lib
              (mat_mul lib (mat_inverse lib sat2World) (quaternionToMatrix lib [qx, qy, qz, qw]))
              (mat_inverse lib rotXY);
            angles = rollPitchYawFromRotationMatrix lib rollPitchYaw
        in Inr (True, [fix_180 (fst angles) * rollWeight, fix_180 (snd (snd angles)) * yawWeight])) \<and>
   weightedRollYawError_call lib rollWeight yawWeight rotXY sat2World initCam2World True
       [[qx, qy, qz, qw]]
     = (let cam2cam = mat_mul lib (mat_inverse lib (quaternionToMatrix lib [qx, qy, qz, qw]))
              initCam2World;
            angles = rollPitchYawFromRotationMatrix lib cam2cam
        in Inr (True, [fix_180 (fst (snd angles)) * rollWeight,
                       fix_180 (snd (snd angles)) * yawWeight])) \<and>
   fix_180 x = x - 180 * cpp_round (x / 180) \<and>
   - 180 < fix_180 x \<and> fix_180 x \<le> 180 \<and> \<bar>fix_180 x\<bar> \<le> 90 \<and>
   (\<exists>k::int. x - fix_180 x = 180 * of_int k)"
proof -
  have r: "read_slice [qx, qy, qz, qw] 0 NUM_QUAT_PARAMS = Inr [qx, qy, qz, qw]"
    by (simp add: read_slice_def NUM_QUAT_PARAMS_def)
  have a: "\<bar>fix_180 x\<bar> \<le> 90" by (rule fix_180_range)
  then have b: "- 180 < fix_180 x" "fix_180 x \<le> 180" by (simp_all add: abs_le_iff)
  show ?thesis
    using a b fix_180_multiple [of x]
    by (simp add: weightedRollYawError_call_def read_at_def r Let_def fix_180_def [of x]
        split: prod.splits)
qed

lemma fix_180_example: "fix_180 170 = - 10" "fix_180 100 = - 80" "fix_180 0 = 0"
  by (simp_all add: fix_180_def cpp_round_def floor_eq_iff)

theorem weightedRollYawError_residuals_witness:
  "weightedRollYawError_call example_lib 5 3 [[170, 20, 100]] [[0, 0, 0]] [[0, 0, 100]] False
     [[0, 0, 0, 1]] = Inr (True, [5 * (- 10), 3 * (- 80)]) \<and>
   weightedRollYawError_call example_lib 5 3 [[170, 20, 100]] [[0, 0, 0]] [[0, 0, 100]] True
     [[0, 0, 0, 1]] = Inr (True, [5 * 0, 3 * (- 80)]) \<and>
   fix_180 170 = - 10"
  using weightedRollYawError_residuals [of example_lib 5 3 "[[170, 20, 100]]" "[[0, 0, 0]]"
      "[[0, 0, 100]]" 0 0 0 1 170]
  by (simp add: example_lib_def fix_180_example Let_def)

subsection \<open>Recorded weights\<close>

text \<open>
  Claim C3 on concrete input. With \<open>roll_weight = 5\<close> and \<open>yaw_weight = 3\<close> the functors
  added by \<open>addRollYawConstraint\<close> multiply the angles by 5 and 3, while the weights
  recorded for their residuals are all 1: the recorded value is \<^verbatim>\<open>roll_weight || 1.0\<close>,
  a truth value. With \<open>tri_weight = 1/10\<close> and a GSD of 2 the functor added by
  \<open>addTriConstraint\<close> multiplies by \<open>1/20\<close>, while the recorded weight is \<open>1/10\<close>.
\<close>

theorem recorded_weight_differs_from_applied:
  "weights_of (addRollYawConstraint example_lib 1 [LsModel example_ls_model] [(0, 0)] False 5 3
     empty_state) = [1, 1, 1, 1] \<and>
   functors_of (addRollYawConstraint example_lib 1 [LsModel example_ls_model] [(0, 0)] False 5 3
     empty_state)
     = [weightedRollYawError 5 3 [[170, 20, 100]] [[0, 0, 0]] [[0, 0, 0]] False,
        weightedRollYawError 5 3 [[170, 20, 100]] [[0, 0, 0]] [[0, 0, 0]] False] \<and>
   weightedRollYawError_call example_lib 5 3 [[170, 20, 100]] [[0, 0, 0]] [[0, 0, 0]] False
     [[0, 0, 0, 1]] = Inr (True, [5 * (- 10), 3 * (- 80)]) \<and>
   weights_of (addTriConstraint example_opt {} example_cnet [2, 1, 0] example_tri_points_vec
     empty_state) = [1/10, 1/10, 1/10] \<and>
   functors_of (addTriConstraint example_opt {} example_cnet [2, 1, 0] example_tri_points_vec
     empty_state) = [weightedXyzError (1, 2, 3) (1/20)] \<and>
   weightedXyzError_call (1, 2, 3) (1/20) [21, 2, 3] = Inr (True, [1/20 * 20, 0, 0])"
  by code_simp

end
